(* ===== verification/Prelude.thy ===== *)
theory Prelude
  imports Main
begin

text \<open>
  Shared vocabulary of the development: the Python values and built-in operations that
  the sources of the repository use (\<open>str.split\<close>, \<open>str.join\<close>, negative slices,
  \<open>str.strip\<close>, \<open>str.lower\<close>, truthiness, attribute access that may be missing or
  \<open>None\<close>), the exceptions that the code raises or catches, and the lemmas about them
  that the component theories share.  Strings are \<open>string\<close> (lists of \<open>char\<close>, the
  UTF-8 bytes of the Python text); the separators and keywords the code uses are ASCII,
  so splitting and comparing bytes agrees with Python's code-point operations on them.
\<close>

named_theorems py_simps "evaluation rules of the Python helpers"

section \<open>Python values\<close>

text \<open>
  An attribute read with \<open>hasattr(o, 'a') and o.a\<close> has three outcomes: the attribute is
  missing, it is \<open>None\<close>, or it holds a value.
\<close>

datatype 'a field = Missing | PyNone | Val 'a

text \<open>The exceptions the code raises or catches, with the message \<open>str(e)\<close> shows.\<close>

datatype py_exc =
    TypeError string
  | KeyError string
  | FileNotFoundError string
  | JSONDecodeError string
  | AttributeError string
  | EOFError
  | RemoteError string

text \<open>\<open>str(e)\<close>.\<close>

fun exc_text :: "py_exc \<Rightarrow> string" where
  "exc_text (TypeError m) = m"
| "exc_text (KeyError k) = [CHR 0x27] @ k @ [CHR 0x27]"
| "exc_text (FileNotFoundError f) =
     ''[Errno 2] No such file or directory: '' @ [CHR 0x27] @ f @ [CHR 0x27]"
| "exc_text (JSONDecodeError m) = m"
| "exc_text (AttributeError m) = m"
| "exc_text EOFError = ''EOF when reading a line''"
| "exc_text (RemoteError m) = m"

text \<open>The values \<open>json.load\<close> returns; an object keeps its pairs in file order.\<close>

datatype json =
    JStr string
  | JNum int
  | JBool bool
  | JNull
  | JArr "json list"
  | JObj "(string \<times> json) list"

text \<open>
  What the programs print, one constructor per \<open>print\<close> (or \<open>st.error\<close>,
  \<open>st.warning\<close>) that carries data, with the values it interpolates.  \<open>Banner\<close> is a
  fixed line of a \<open>__main__\<close> block.
\<close>

datatype msg =
    Connected
  | FolderMissing string
  | NoPdfFiles string
  | FoundPdfs nat
  | Uploading string
  | UploadedFile string
  | UploadFailed string py_exc
  | NoFilesUploaded
  | UploadSummary nat nat
  | StoreCreated string string
  | UnexpectedError py_exc
  | LoadedStore json
  | StoreIdIs json
  | StoreFileMissing string
  | CouldNotLoadFile json py_exc
  | NoFilesInStore
  | LoadedDocuments nat
  | UsingModel string
  | NoSuitableModel "string list"
  | ListModelsFailed py_exc
  | Goodbye
  | Thinking
  | AnswerIs string
  | CitationsLine string
  | NoResponse
  | ErrorLine py_exc
  | AppCreateError py_exc
  | AppLoadError py_exc
  | FreeModelsHeader
  | PaidModelsHeader
  | ModelEntry string string string
  | ModelSummary nat nat nat
  | RecommendedFree string
  | Banner string

text \<open>The values of the \<open>Inr\<close> results of a list of calls, in order.\<close>

fun successes :: "('e + 'a) list \<Rightarrow> 'a list" where
  "successes [] = []"
| "successes (Inl e # rs) = successes rs"
| "successes (Inr x # rs) = x # successes rs"

text \<open>Truthiness of an optional string attribute: present, not \<open>None\<close>, not empty.\<close>

fun truthy_str :: "string field \<Rightarrow> bool" where
  "truthy_str (Val s) = (s \<noteq> [])"
| "truthy_str _ = False"

text \<open>Truthiness of an optional list attribute: present, not \<open>None\<close>, not empty.\<close>

fun truthy_list :: "'a list field \<Rightarrow> bool" where
  "truthy_list (Val xs) = (xs \<noteq> [])"
| "truthy_list _ = False"

section \<open>String operations\<close>

abbreviation newline :: char where
  "newline \<equiv> CHR 0x0A"

text \<open>\<open>s.split(c)\<close> for a one-character separator: never empty, \<open>''.split(c) == ['']\<close>.\<close>

fun py_split :: "char \<Rightarrow> string \<Rightarrow> string list" where
  "py_split c [] = [[]]"
| "py_split c (x # xs) =
     (if x = c then [] # py_split c xs
      else (case py_split c xs of [] \<Rightarrow> [[x]] | w # ws \<Rightarrow> (x # w) # ws))"

text \<open>\<open>sep.join(xs)\<close>: the separator between consecutive elements.\<close>

fun py_join :: "string \<Rightarrow> string list \<Rightarrow> string" where
  "py_join sep [] = []"
| "py_join sep [x] = x"
| "py_join sep (x # y # zs) = x @ sep @ py_join sep (y # zs)"

text \<open>The slice \<open>xs[-n:]\<close>; note \<open>xs[-0:]\<close> is the whole list.\<close>

definition py_suffix :: "nat \<Rightarrow> 'a list \<Rightarrow> 'a list" where
  "py_suffix n xs = (if n = 0 then xs else drop (length xs - n) xs)"

text \<open>
  A \<open>char\<close> is a code point below 256.  These are the ones \<open>str.isspace\<close> accepts
  (tab to carriage return, the separators 28 to 31, space, NEL and no-break space);
  \<open>str.strip()\<close> removes them.
\<close>

text \<open>\<open>s.endswith(suf)\<close>.\<close>

definition py_endswith :: "string \<Rightarrow> string \<Rightarrow> bool" where
  "py_endswith s suf \<longleftrightarrow> length suf \<le> length s \<and> drop (length s - length suf) s = suf"

definition is_space :: "char \<Rightarrow> bool" where
  "is_space c \<longleftrightarrow> (let n = of_char c :: nat in (9 \<le> n \<and> n \<le> 13) \<or> (28 \<le> n \<and> n \<le> 32) \<or> n = 133 \<or> n = 160)"

definition py_strip :: "string \<Rightarrow> string" where
  "py_strip s = rev (dropWhile is_space (rev (dropWhile is_space s)))"

text \<open>\<open>str.lower()\<close> below 256: \<open>A\<close> to \<open>Z\<close>, and the Latin-1 capitals 192 to 222 but the sign 215.\<close>

definition lower_char :: "char \<Rightarrow> char" where
  "lower_char c = (let n = of_char c :: nat in
     if (65 \<le> n \<and> n \<le> 90) \<or> (192 \<le> n \<and> n \<le> 222 \<and> n \<noteq> 215) then char_of (n + 32) else c)"

definition py_lower :: "string \<Rightarrow> string" where
  "py_lower s = map lower_char s"

text \<open>\<open>s.replace(old, new)\<close>: every non-overlapping occurrence, left to right.\<close>

function py_replace_ne :: "string \<Rightarrow> string \<Rightarrow> string \<Rightarrow> string" where
  "py_replace_ne old new s =
     (if s = [] \<or> old = [] then s
      else if take (length old) s = old then new @ py_replace_ne old new (drop (length old) s)
      else hd s # py_replace_ne old new (tl s))"
  by pat_completeness auto
termination
  by (relation "measure (\<lambda>(old, new, s). length s)") auto

declare py_replace_ne.simps [simp del]

definition py_replace :: "string \<Rightarrow> string \<Rightarrow> string \<Rightarrow> string" where
  "py_replace old new s =
     (if old = [] then new @ concat (map (\<lambda>c. [c] @ new) s) else py_replace_ne old new s)"

text \<open>\<open>k in s\<close> for strings.\<close>

fun py_contains :: "string \<Rightarrow> string \<Rightarrow> bool" where
  "py_contains k [] \<longleftrightarrow> k = []"
| "py_contains k (c # cs) \<longleftrightarrow> take (length k) (c # cs) = k \<or> py_contains k cs"

section \<open>Lemmas on the helpers\<close>

lemma py_split_not_Nil [simp]: "py_split c s \<noteq> []"
  by (induction s) (auto split: list.splits)

lemma py_split_Cons_other [py_simps]:
  "x \<noteq> c \<Longrightarrow> py_split c (x # xs) = (x # hd (py_split c xs)) # tl (py_split c xs)"
  by (cases "py_split c xs") auto

lemma py_split_no_sep: "w \<in> set (py_split c s) \<Longrightarrow> c \<notin> set w"
proof (induction s arbitrary: w)
  case Nil
  then show ?case by simp
next
  case (Cons x xs)
  then show ?case
    by (cases "py_split c xs") (auto split: if_splits)
qed

lemma py_join_Cons [py_simps]:
  "py_join sep (x # xs) = (if xs = [] then x else x @ sep @ py_join sep xs)"
  by (cases xs) auto

text \<open>Splitting at \<open>c\<close> and joining with \<open>c\<close> gives the string back.\<close>

lemma py_join_split: "py_join [c] (py_split c s) = s"
proof (induction s)
  case Nil
  then show ?case by simp
next
  case (Cons x xs)
  show ?case
  proof (cases "x = c")
    case True
    with Cons.IH show ?thesis by (simp add: py_join_Cons)
  next
    case False
    then show ?thesis
      using Cons.IH py_split_not_Nil [of c xs]
      by (cases "py_split c xs") (auto simp: py_join_Cons)
  qed
qed

lemma py_join_snoc:
  "py_join sep (ws @ [w]) = (if ws = [] then w else py_join sep ws @ sep @ w)"
  by (induction ws) (auto simp: py_join_Cons)

lemma py_join_append:
  "xs \<noteq> [] \<Longrightarrow> ys \<noteq> [] \<Longrightarrow> py_join sep (xs @ ys) = py_join sep xs @ sep @ py_join sep ys"
  by (induction xs) (auto simp: py_join_Cons)

lemma py_split_no_sep_id: "c \<notin> set s \<Longrightarrow> py_split c s = [s]"
  by (induction s) auto

lemma py_split_append_sep:
  "c \<notin> set w \<Longrightarrow> py_split c (w @ c # r) = w # py_split c r"
  by (induction w) auto

text \<open>Joining with \<open>c\<close> pieces free of \<open>c\<close> and splitting at \<open>c\<close> gives the pieces back.\<close>

lemma py_split_join:
  "ws \<noteq> [] \<Longrightarrow> (\<forall>w \<in> set ws. c \<notin> set w) \<Longrightarrow> py_split c (py_join [c] ws) = ws"
proof (induction ws)
  case Nil
  then show ?case by simp
next
  case (Cons w ws)
  show ?case
  proof (cases "ws = []")
    case True
    with Cons.prems show ?thesis by (simp add: py_split_no_sep_id)
  next
    case False
    with Cons show ?thesis by (simp add: py_join_Cons py_split_append_sep)
  qed
qed

lemma count_list_distinct_mem: "distinct xs \<Longrightarrow> x \<in> set xs \<Longrightarrow> count_list xs x = 1"
  by (induction xs) auto

lemma length_py_suffix: "0 < n \<Longrightarrow> length (py_suffix n xs) = min n (length xs)"
  by (simp add: py_suffix_def)

lemma py_suffix_short [simp]: "length xs \<le> n \<Longrightarrow> py_suffix n xs = xs"
  by (simp add: py_suffix_def)

lemma py_suffix_append_long:
  "0 < n \<Longrightarrow> n \<le> length ys \<Longrightarrow> py_suffix n (xs @ ys) = py_suffix n ys"
  by (simp add: py_suffix_def)

end
