(* ===== verification/Remote.thy ===== *)
theory Remote
  imports Prelude
begin

text \<open>
  The remote generative-AI service, which the sources reach through
  \<open>google.generativeai\<close> (\<open>genai.upload_file\<close>, \<open>genai.get_file\<close>,
  \<open>model.generate_content\<close>).  It is an external collaborator: its objects are modelled
  by the attributes the code reads, and the service itself is an interface record
  \<open>'s remote_api\<close> over an arbitrary state \<open>'s\<close> of the service, threaded through every
  call.  \<open>remote_contract\<close> states what the store round trip needs of any
  implementation; \<open>sim_api\<close> is one implementation (an in-memory service) that meets it,
  used to run the components on concrete inputs.
\<close>

section \<open>Objects of the client library\<close>

text \<open>A file handle: \<open>uploaded_file.name\<close> is the service-assigned identifier.\<close>

record file_handle =
  fh_name :: string
  fh_display :: string

text \<open>A grounding attribution with its optional \<open>title\<close> and \<open>uri\<close> attributes.\<close>

record attribution =
  at_title :: "string field"
  at_uri :: "string field"

record candidate =
  grounding_attributions :: "attribution list field"

text \<open>
  A response: reading \<open>response.text\<close> may raise (a blocked or empty answer), and
  \<open>candidates\<close> may be missing, \<open>None\<close> or a list.
\<close>

record response =
  resp_text :: "py_exc + string"
  candidates :: "candidate list field"

section \<open>The service interface\<close>

record 's remote_api =
  upload_file :: "'s \<Rightarrow> string \<Rightarrow> (py_exc + file_handle) \<times> 's"
  get_file :: "'s \<Rightarrow> string \<Rightarrow> py_exc + file_handle"
  generate_content :: "'s \<Rightarrow> string \<Rightarrow> file_handle list \<Rightarrow> (py_exc + response) \<times> 's"

text \<open>
  The contract: a successful upload can be fetched back by its name, an upload never
  loses a file that could be fetched before, and generation does not touch the files.
\<close>

definition remote_contract :: "'s remote_api \<Rightarrow> bool" where
  "remote_contract api \<longleftrightarrow>
     (\<forall>s p h s'. upload_file api s p = (Inr h, s') \<longrightarrow> get_file api s' (fh_name h) = Inr h) \<and>
     (\<forall>s p r s' n h. upload_file api s p = (r, s') \<longrightarrow> get_file api s n = Inr h \<longrightarrow>
        get_file api s' n = Inr h) \<and>
     (\<forall>s pr fs r s'. generate_content api s pr fs = (r, s') \<longrightarrow> get_file api s' = get_file api s)"

section \<open>An in-memory service\<close>

text \<open>
  Files are kept in upload order under the name \<open>files/<path>\<close>; an upload of a
  rejected path or of a path already stored fails; each generation call records its
  prompt and answers with the next reply of a queue, and fails once the queue is empty.
\<close>

record sim_state =
  sim_files :: "(string \<times> file_handle) list"
  sim_reject :: "string list"
  sim_replies :: "(py_exc + response) list"
  sim_prompts :: "string list"

definition sim_upload :: "sim_state \<Rightarrow> string \<Rightarrow> (py_exc + file_handle) \<times> sim_state" where
  "sim_upload s p =
     (let n = ''files/'' @ p in
      if p \<in> set (sim_reject s) \<or> map_of (sim_files s) n \<noteq> None
      then (Inl (RemoteError ''upload failed''), s)
      else (let h = \<lparr>fh_name = n, fh_display = p\<rparr>
            in (Inr h, s\<lparr>sim_files := sim_files s @ [(n, h)]\<rparr>)))"

definition sim_get :: "sim_state \<Rightarrow> string \<Rightarrow> py_exc + file_handle" where
  "sim_get s n = (case map_of (sim_files s) n of
     None \<Rightarrow> Inl (RemoteError (''file not found: '' @ n)) | Some h \<Rightarrow> Inr h)"

definition sim_generate ::
  "sim_state \<Rightarrow> string \<Rightarrow> file_handle list \<Rightarrow> (py_exc + response) \<times> sim_state" where
  "sim_generate s pr fs = (case sim_replies s of
     [] \<Rightarrow> (Inl (RemoteError ''quota exceeded''), s\<lparr>sim_prompts := sim_prompts s @ [pr]\<rparr>)
   | r # rs \<Rightarrow> (r, s\<lparr>sim_replies := rs, sim_prompts := sim_prompts s @ [pr]\<rparr>))"

definition sim_api :: "sim_state remote_api" where
  "sim_api = \<lparr>upload_file = sim_upload, get_file = sim_get, generate_content = sim_generate\<rparr>"

text \<open>The two upload clauses of the contract, as the clients use them.\<close>

lemma contract_upload_get:
  "remote_contract api \<Longrightarrow> upload_file api s p = (Inr h, s') \<Longrightarrow> get_file api s' (fh_name h) = Inr h"
  unfolding remote_contract_def by blast

lemma contract_upload_keeps:
  "remote_contract api \<Longrightarrow> upload_file api s p = (r, s') \<Longrightarrow> get_file api s n = Inr h \<Longrightarrow>
     get_file api s' n = Inr h"
  unfolding remote_contract_def by blast

text \<open>The generation clause: asking the model changes no file the service resolves.\<close>

lemma contract_generate_get:
  "remote_contract api \<Longrightarrow> generate_content api s p fs = (r, s') \<Longrightarrow> get_file api s' = get_file api s"
  unfolding remote_contract_def by blast

lemma map_of_snoc_new:
  "map_of xs n = None \<Longrightarrow> map_of (xs @ [(n, h)]) n = Some h"
  by (simp add: map_add_def)

lemma map_of_snoc_old:
  "map_of xs m = Some h \<Longrightarrow> map_of (xs @ [(n, h')]) m = Some h"
  by (simp add: map_add_def)

lemma sim_api_contract: "remote_contract sim_api"
  unfolding remote_contract_def sim_api_def
  by (auto simp: sim_upload_def sim_get_def sim_generate_def Let_def map_of_snoc_new
      map_of_snoc_old split: if_splits option.splits list.splits)

end
