(* ===== verification/Store_Doc.thy ===== *)
theory Store_Doc
  imports Remote
begin

text \<open>
  The store document that both builders write and both loaders read,
  \<open>{"id": ..., "name": ..., "files": [...]}\<close>, and the file system that holds it: a map
  from file names to contents.  \<open>json.dump\<close> followed by \<open>json.load\<close> is taken to give
  back the value written (the \<open>json\<close> library is not modelled); reading a value goes
  through the accessors the code uses (\<open>d[k]\<close>, \<open>d.get(k, default)\<close>, iteration).
  \<open>store_doc_wf\<close> is the type of a store document that these accessors rely on.
\<close>

section \<open>The store document and the file system\<close>

text \<open>
  The store record and the two ends that use it.  The builder is
  \<open>create_file_search_store\<close> of \<open>src/create_store.py\<close> (per-file failures skipped) and
  \<open>create_document_store\<close> of \<open>src/app.py\<close> (the first failure aborts); the loader is
  the start of \<open>run_chatbot\<close> in \<open>src/chatbot.py\<close> and \<open>load_document_store\<close> of
  \<open>src/app.py\<close>.  The file system is a map from file names to contents; \<open>json.dump\<close>
  followed by \<open>json.load\<close> is taken to give back the value written (the \<open>json\<close>
  library is not modelled).
\<close>

datatype file_content = JsonFile json | BinaryFile string | NotJson

type_synonym fsys = "string \<rightharpoonup> file_content"

record store_record =
  store_id :: string
  store_name :: string
  store_files :: "string list"

text \<open>The dictionary \<open>{"id": ..., "name": ..., "files": [...]}\<close> as written.\<close>

definition store_doc :: "store_record \<Rightarrow> json" where
  "store_doc r = JObj [(''id'', JStr (store_id r)), (''name'', JStr (store_name r)),
                       (''files'', JArr (map JStr (store_files r)))]"

definition store_file_name :: "string \<Rightarrow> string" where
  "store_file_name sid = sid @ ''.json''"

text \<open>\<open>json.load(open(f))\<close>: a missing file, or a file that is not JSON.\<close>

definition read_json :: "fsys \<Rightarrow> string \<Rightarrow> py_exc + json" where
  "read_json fs f = (case fs f of
     None \<Rightarrow> Inl (FileNotFoundError f)
   | Some (JsonFile j) \<Rightarrow> Inr j
   | Some _ \<Rightarrow> Inl (JSONDecodeError f))"

text \<open>\<open>d[k]\<close> on a loaded value; a repeated key keeps its last value, as \<open>json.load\<close> does.\<close>

definition json_index :: "json \<Rightarrow> string \<Rightarrow> py_exc + json" where
  "json_index j k = (case j of
     JObj kvs \<Rightarrow> (case map_of (rev kvs) k of None \<Rightarrow> Inl (KeyError k) | Some v \<Rightarrow> Inr v)
   | _ \<Rightarrow> Inl (TypeError ''indices must be integers''))"

text \<open>\<open>d.get(k, default)\<close>: only a dictionary has \<open>get\<close>.\<close>

definition json_get_default :: "json \<Rightarrow> string \<Rightarrow> json \<Rightarrow> py_exc + json" where
  "json_get_default j k dflt = (case j of
     JObj kvs \<Rightarrow> (case map_of (rev kvs) k of None \<Rightarrow> Inr dflt | Some v \<Rightarrow> Inr v)
   | _ \<Rightarrow> Inl (AttributeError ''object has no attribute get''))"

text \<open>
  \<open>for x in v\<close>: a list gives its elements, a string its characters, a dictionary its
  keys, each once, in the order of their first occurrence.
\<close>

fun py_iter :: "json \<Rightarrow> py_exc + json list" where
  "py_iter (JArr xs) = Inr xs"
| "py_iter (JStr s) = Inr (map (\<lambda>c. JStr [c]) s)"
| "py_iter (JObj kvs) = Inr (map JStr (rev (remdups (rev (map fst kvs)))))"
| "py_iter _ = Inl (TypeError ''object is not iterable'')"

text \<open>\<open>store_data["files"]\<close> and iterating it.\<close>

definition store_file_names :: "json \<Rightarrow> py_exc + json list" where
  "store_file_names d = (case json_index d ''files'' of Inl e \<Rightarrow> Inl e | Inr v \<Rightarrow> py_iter v)"

text \<open>
  The shape both loaders rely on: a dictionary whose \<open>"id"\<close> is a string and whose
  \<open>"files"\<close> is a list of strings (\<open>"name"\<close> is read with a default and may be
  anything).  A file system is well formed when every JSON file in it has that shape.
\<close>

fun is_jstr :: "json \<Rightarrow> bool" where
  "is_jstr (JStr _) = True"
| "is_jstr _ = False"

definition store_doc_wf :: "json \<Rightarrow> bool" where
  "store_doc_wf d \<longleftrightarrow>
     (case d of
        JObj kvs \<Rightarrow>
          (case map_of (rev kvs) ''id'' of Some v \<Rightarrow> is_jstr v | None \<Rightarrow> False) \<and>
          (case map_of (rev kvs) ''files'' of Some (JArr xs) \<Rightarrow> list_all is_jstr xs | _ \<Rightarrow> False)
      | _ \<Rightarrow> False)"

definition fs_wf :: "fsys \<Rightarrow> bool" where
  "fs_wf fs \<longleftrightarrow> (\<forall>p d. fs p = Some (JsonFile d) \<longrightarrow> store_doc_wf d)"

section \<open>Lemmas\<close>

lemma store_doc_fields:
  "json_get_default (store_doc r) ''name'' d = Inr (JStr (store_name r))"
  "json_index (store_doc r) ''id'' = Inr (JStr (store_id r))"
  "store_file_names (store_doc r) = Inr (map JStr (store_files r))"
  by (simp_all add: store_doc_def json_get_default_def json_index_def store_file_names_def)

lemma store_doc_wf_store_doc [simp]: "store_doc_wf (store_doc r)"
  by (simp add: store_doc_wf_def store_doc_def list_all_iff)

lemma fs_wf_upd_store: "fs_wf fs \<Longrightarrow> store_doc_wf d \<Longrightarrow> fs_wf (fs(p \<mapsto> JsonFile d))"
  by (simp add: fs_wf_def)

lemma store_doc_wf_access:
  assumes "store_doc_wf d"
  shows "\<exists>i nm names. json_index d ''id'' = Inr (JStr i) \<and>
           json_get_default d ''name'' (JStr ''Unknown'') = Inr nm \<and>
           store_file_names d = Inr names \<and> list_all is_jstr names"
proof -
  from assms obtain kvs where d: "d = JObj kvs"
    by (auto simp: store_doc_wf_def split: json.splits)
  with assms obtain v xs where "map_of (rev kvs) ''id'' = Some v" "is_jstr v"
    and "map_of (rev kvs) ''files'' = Some (JArr xs)" "list_all is_jstr xs"
    by (auto simp: store_doc_wf_def split: option.splits json.splits)
  moreover from \<open>is_jstr v\<close> obtain i where "v = JStr i"
    by (cases v) auto
  ultimately show ?thesis
    using d by (auto simp: json_index_def json_get_default_def store_file_names_def split: option.splits)
qed

end
