(* ===== verification/Store_Build.thy ===== *)
theory Store_Build
  imports Store_Doc
begin

text \<open>
  The two store builders: \<open>create_file_search_store\<close> of \<open>src/create_store.py\<close>
  (\<open>create_store\<close>; a failed upload is reported and skipped, no upload at all exits with
  status 1) and \<open>create_document_store\<close> of \<open>src/app.py\<close> (the first failed upload
  aborts the batch).  Both thread the state of the remote service and the file system.
\<close>

section \<open>The builders\<close>

definition default_folder :: string where
  "default_folder = ''./papers/''"

definition default_store_name :: string where
  "default_store_name = ''My Research Papers 2025''"

text \<open>\<open>f.lower().endswith('.pdf')\<close>.\<close>

definition is_pdf :: "string \<Rightarrow> bool" where
  "is_pdf f \<longleftrightarrow> py_endswith (py_lower f) ''.pdf''"

text \<open>\<open>os.path.join(a, b)\<close>: an absolute \<open>b\<close> replaces \<open>a\<close>.\<close>

definition path_join :: "string \<Rightarrow> string \<Rightarrow> string" where
  "path_join a b =
     (if take 1 b = ''/'' then b
      else if a = [] \<or> last a = CHR ''/'' then a @ b else a @ ''/'' @ b)"

text \<open>The upload loop: a failing upload is reported and skipped.\<close>

fun upload_all ::
  "'s remote_api \<Rightarrow> string \<Rightarrow> 's \<Rightarrow> string list \<Rightarrow> file_handle list \<times> msg list \<times> 's" where
  "upload_all api folder s [] = ([], [], s)"
| "upload_all api folder s (f # fs) =
     (case upload_file api s (path_join folder f) of
        (Inr h, s1) \<Rightarrow>
          (let (hs, ms, s2) = upload_all api folder s1 fs
           in (h # hs, Uploading f # UploadedFile (fh_name h) # ms, s2))
      | (Inl e, s1) \<Rightarrow>
          (let (hs, ms, s2) = upload_all api folder s1 fs
           in (hs, Uploading f # UploadFailed f e # ms, s2)))"

text \<open>
  \<open>create_file_search_store()\<close>: the folder listing is \<open>None\<close> when the folder does not
  exist; \<open>sid\<close> is the fresh \<open>uuid4\<close>.  The result is the exit status, the printed
  messages, the service's state and the file system.
\<close>

definition create_store ::
  "'s remote_api \<Rightarrow> string \<Rightarrow> string \<Rightarrow> string \<Rightarrow> string list option \<Rightarrow> 's \<Rightarrow> fsys \<Rightarrow>
     nat \<times> msg list \<times> 's \<times> fsys" where
  "create_store api folder name sid listing s fs =
     (case listing of
        None \<Rightarrow> (1, [Connected, FolderMissing folder], s, fs)
      | Some entries \<Rightarrow>
          (let pdfs = filter is_pdf entries in
           if pdfs = [] then (1, [Connected, NoPdfFiles folder], s, fs)
           else
             (let (hs, ms, s1) = upload_all api folder s pdfs;
                  head = [Connected, FoundPdfs (length pdfs)] in
              if hs = [] then (1, head @ ms @ [NoFilesUploaded], s1, fs)
              else
                (let r = \<lparr>store_id = sid, store_name = name, store_files = map fh_name hs\<rparr>
                 in (0, head @ ms @ [UploadSummary (length hs) (length pdfs),
                                     StoreCreated sid (store_file_name sid)],
                     s1, fs(store_file_name sid \<mapsto> JsonFile (store_doc r)))))))"

text \<open>The uploaded files are first saved under \<open>papers/\<close>, one write per file.\<close>

fun save_uploads :: "fsys \<Rightarrow> (string \<times> string) list \<Rightarrow> fsys \<times> string list" where
  "save_uploads fs [] = (fs, [])"
| "save_uploads fs ((n, bytes) # us) =
     (let p = ''papers/'' @ n;
          (fs', ps) = save_uploads (fs(p \<mapsto> BinaryFile bytes)) us
      in (fs', p # ps))"

text \<open>The upload loop has no handler of its own: the first failure leaves it.\<close>

fun app_upload_all ::
  "'s remote_api \<Rightarrow> 's \<Rightarrow> string list \<Rightarrow> (py_exc + file_handle list) \<times> 's" where
  "app_upload_all api s [] = (Inr [], s)"
| "app_upload_all api s (p # ps) =
     (case upload_file api s p of
        (Inl e, s1) \<Rightarrow> (Inl e, s1)
      | (Inr h, s1) \<Rightarrow>
          (case app_upload_all api s1 ps of
             (Inl e, s2) \<Rightarrow> (Inl e, s2)
           | (Inr hs, s2) \<Rightarrow> (Inr (h # hs), s2)))"

text \<open>\<open>create_document_store(api_key, uploaded_files)\<close>: \<open>(store_id, count)\<close>.\<close>

definition create_document_store ::
  "'s remote_api \<Rightarrow> 's \<Rightarrow> fsys \<Rightarrow> (string \<times> string) list \<Rightarrow> string \<Rightarrow>
     (string option \<times> nat) \<times> msg list \<times> 's \<times> fsys" where
  "create_document_store api s fs uploads sid =
     (let (fs1, paths) = save_uploads fs uploads in
      case app_upload_all api s paths of
        (Inl e, s1) \<Rightarrow> ((None, 0), [AppCreateError e], s1, fs1)
      | (Inr hs, s1) \<Rightarrow>
          (let r = \<lparr>store_id = sid, store_name = ''Research Papers Collection'',
                    store_files = map fh_name hs\<rparr>
           in ((Some sid, length hs), [], s1, fs1(store_file_name sid \<mapsto> JsonFile (store_doc r)))))"

text \<open>The files the messages report as failed uploads.\<close>

fun failed_uploads :: "msg list \<Rightarrow> string list" where
  "failed_uploads [] = []"
| "failed_uploads (UploadFailed f e # ms) = f # failed_uploads ms"
| "failed_uploads (m # ms) = failed_uploads ms"

text \<open>The service of the specification's builder test: it rejects the second of three files.\<close>

definition reject_second :: sim_state where
  "reject_second = \<lparr>sim_files = [], sim_reject = [''./papers/b.pdf''], sim_replies = [], sim_prompts = []\<rparr>"

definition app_reject_second :: sim_state where
  "app_reject_second = \<lparr>sim_files = [], sim_reject = [''papers/b.pdf''], sim_replies = [], sim_prompts = []\<rparr>"

section \<open>Lemmas\<close>

lemma upload_all_Cons_cases:
  "upload_all api folder s (f # fs) = (hs, ms, s') \<Longrightarrow>
     (\<exists>h s1 hs'. upload_file api s (path_join folder f) = (Inr h, s1) \<and>
        upload_all api folder s1 fs = (hs', drop 2 ms, s') \<and> hs = h # hs' \<and>
        take 2 ms = [Uploading f, UploadedFile (fh_name h)]) \<or>
     (\<exists>e s1. upload_file api s (path_join folder f) = (Inl e, s1) \<and>
        upload_all api folder s1 fs = (hs, drop 2 ms, s') \<and>
        take 2 ms = [Uploading f, UploadFailed f e])"
  by (auto split: prod.splits sum.splits)

lemma failed_uploads_append:
  "failed_uploads (xs @ ys) = failed_uploads xs @ failed_uploads ys"
  by (induction xs rule: failed_uploads.induct) auto

lemma upload_all_preserves:
  assumes "remote_contract api" and "get_file api s n = Inr h"
    and "upload_all api folder s fs = (hs, ms, s')"
  shows "get_file api s' n = Inr h"
  using assms(2,3)
proof (induction fs arbitrary: s hs ms)
  case Nil
  then show ?case by simp
next
  case (Cons f fs)
  from Cons.prems(2) obtain r s1 where up: "upload_file api s (path_join folder f) = (r, s1)"
    and rest: "\<exists>hs' ms'. upload_all api folder s1 fs = (hs', ms', s')"
    by (auto split: prod.splits sum.splits)
  from contract_upload_keeps [OF assms(1) up Cons.prems(1)] have "get_file api s1 n = Inr h" .
  with rest Cons.IH show ?case by blast
qed

lemma upload_all_gettable:
  assumes "remote_contract api" and "upload_all api folder s fs = (hs, ms, s')"
  shows "\<forall>h \<in> set hs. get_file api s' (fh_name h) = Inr h"
  using assms(2)
proof (induction fs arbitrary: s hs ms)
  case Nil
  then show ?case by simp
next
  case (Cons f fs)
  from upload_all_Cons_cases [OF Cons.prems] show ?case
  proof (elim disjE exE conjE)
    fix h s1 hs'
    assume up: "upload_file api s (path_join folder f) = (Inr h, s1)"
      and rest: "upload_all api folder s1 fs = (hs', drop 2 ms, s')" and "hs = h # hs'"
    from contract_upload_get [OF assms(1) up] have "get_file api s1 (fh_name h) = Inr h" .
    from upload_all_preserves [OF assms(1) this rest]
    have "get_file api s' (fh_name h) = Inr h" .
    with Cons.IH [OF rest] \<open>hs = h # hs'\<close> show ?thesis by simp
  next
    fix e s1
    assume "upload_all api folder s1 fs = (hs, drop 2 ms, s')"
    then show ?thesis by (rule Cons.IH)
  qed
qed

lemma upload_all_length: "upload_all api folder s fs = (hs, ms, s') \<Longrightarrow> length hs \<le> length fs"
  by (induction fs arbitrary: s hs ms) (fastforce split: prod.splits sum.splits)+

lemma save_uploads_paths:
  "save_uploads fs us = (fs', ps) \<Longrightarrow> ps = map (\<lambda>u. ''papers/'' @ fst u) us"
  by (induction fs us arbitrary: fs' ps rule: save_uploads.induct) (auto simp: Let_def split: prod.splits)

lemma app_upload_all_Inr_length:
  "app_upload_all api s ps = (Inr hs, s') \<Longrightarrow> length hs = length ps"
  by (induction ps arbitrary: s hs) (auto split: prod.splits sum.splits)

lemma app_upload_all_gettable:
  assumes "remote_contract api" and "app_upload_all api s ps = (Inr hs, s')"
  shows "(\<forall>h \<in> set hs. get_file api s' (fh_name h) = Inr h) \<and>
         (\<forall>n h. get_file api s n = Inr h \<longrightarrow> get_file api s' n = Inr h)"
  using assms(2)
proof (induction ps arbitrary: s hs)
  case Nil
  then show ?case by simp
next
  case (Cons p ps)
  from Cons.prems obtain h s1 hs' where up: "upload_file api s p = (Inr h, s1)"
    and rest: "app_upload_all api s1 ps = (Inr hs', s')" and hs: "hs = h # hs'"
    by (auto split: prod.splits sum.splits)
  have "get_file api s1 (fh_name h) = Inr h"
    by (rule contract_upload_get [OF assms(1) up])
  with Cons.IH [OF rest] contract_upload_keeps [OF assms(1) up] hs show ?case
    by auto
qed

lemma create_store_success:
  assumes "create_store api folder name sid listing s fs = (0, ms, s', fs')"
  shows "\<exists>entries hs ms'. listing = Some entries \<and> hs \<noteq> [] \<and>
           upload_all api folder s (filter is_pdf entries) = (hs, ms', s') \<and>
           fs' = fs(store_file_name sid \<mapsto> JsonFile (store_doc
             \<lparr>store_id = sid, store_name = name, store_files = map fh_name hs\<rparr>))"
  using assms
  by (auto simp: create_store_def Let_def split: option.splits if_splits prod.splits)

lemma create_document_store_success:
  assumes "create_document_store api s fs uploads sid = ((Some i, n), ms, s', fs')"
  shows "\<exists>hs. i = sid \<and> n = length uploads \<and> n = length hs \<and>
           app_upload_all api s (snd (save_uploads fs uploads)) = (Inr hs, s') \<and>
           fs' = (fst (save_uploads fs uploads))(store_file_name sid \<mapsto> JsonFile (store_doc
             \<lparr>store_id = sid, store_name = ''Research Papers Collection'', store_files = map fh_name hs\<rparr>))"
proof -
  obtain fs1 ps where sv: "save_uploads fs uploads = (fs1, ps)" by (metis prod.exhaust)
  have len: "length ps = length uploads" using save_uploads_paths [OF sv] by simp
  from assms sv obtain hs where up: "app_upload_all api s ps = (Inr hs, s')"
    and res: "i = sid" "n = length hs"
    "fs' = fs1(store_file_name sid \<mapsto> JsonFile (store_doc
             \<lparr>store_id = sid, store_name = ''Research Papers Collection'', store_files = map fh_name hs\<rparr>))"
    by (auto simp: create_document_store_def split: prod.splits sum.splits)
  with sv len app_upload_all_Inr_length [OF up] show ?thesis by auto
qed

lemma failed_uploads_take_drop:
  "failed_uploads ms = failed_uploads (take 2 ms) @ failed_uploads (drop 2 ms)"
  by (metis append_take_drop_id failed_uploads_append)

lemma save_uploads_fs_wf: "fs_wf fs \<Longrightarrow> save_uploads fs us = (fs', ps) \<Longrightarrow> fs_wf fs'"
proof (induction us arbitrary: fs ps)
  case Nil
  then show ?case by simp
next
  case (Cons u us)
  obtain n b where u: "u = (n, b)" by (cases u)
  have "fs_wf (fs(''papers/'' @ n \<mapsto> BinaryFile b))"
    using Cons.prems(1) by (simp add: fs_wf_def)
  with Cons.IH Cons.prems(2) u show ?case
    by (auto simp: Let_def split: prod.splits)
qed

text \<open>The builders write only documents \<open>store_doc r\<close>: they keep the file system well
  typed as long as those documents are well typed.\<close>

lemma create_store_fs_wf:
  assumes "fs_wf fs" and "\<And>r. store_doc_wf (store_doc r)"
  shows "fs_wf (snd (snd (snd (create_store api folder name sid listing s fs))))"
  using assms(1) fs_wf_upd_store [OF assms]
  by (auto simp: create_store_def Let_def split: option.splits prod.splits)

lemma create_document_store_fs_wf:
  assumes "fs_wf fs" and "\<And>r. store_doc_wf (store_doc r)"
  shows "fs_wf (snd (snd (snd (create_document_store api s fs uploads sid))))"
proof -
  obtain fs1 ps where sv: "save_uploads fs uploads = (fs1, ps)"
    by (metis prod.exhaust)
  have "fs_wf fs1"
    by (rule save_uploads_fs_wf [OF assms(1) sv])
  then show ?thesis
    using sv fs_wf_upd_store [OF _ assms(2)]
    by (auto simp: create_document_store_def split: prod.splits sum.splits)
qed

section \<open>Properties\<close>

text \<open>
  C9.  The builder's test of the specification: of three PDF files the second fails to
  upload; the failure is reported, the batch goes on, and the store written lists the
  two uploaded files in order.
\<close>

theorem create_store_skips_failed_upload:
  assumes "is_pdf f1" and "is_pdf f2" and "is_pdf f3"
    and "upload_file api s0 (path_join folder f1) = (Inr h1, s1)"
    and "upload_file api s1 (path_join folder f2) = (Inl e, s2)"
    and "upload_file api s2 (path_join folder f3) = (Inr h3, s3)"
  shows "create_store api folder name sid (Some [f1, f2, f3]) s0 fs =
    (0, [Connected, FoundPdfs 3, Uploading f1, UploadedFile (fh_name h1),
         Uploading f2, UploadFailed f2 e, Uploading f3, UploadedFile (fh_name h3),
         UploadSummary 2 3, StoreCreated sid (store_file_name sid)],
     s3, fs(store_file_name sid \<mapsto> JsonFile (store_doc
           \<lparr>store_id = sid, store_name = name, store_files = [fh_name h1, fh_name h3]\<rparr>)))"
  using assms by (simp add: create_store_def)

theorem create_store_skips_failed_upload_witness:
  "\<exists>ms s' fs'.
     create_store sim_api default_folder default_store_name ''id1''
       (Some [''a.pdf'', ''b.pdf'', ''c.pdf'']) reject_second Map.empty = (0, ms, s', fs') \<and>
     fs' (store_file_name ''id1'') = Some (JsonFile (store_doc \<lparr>store_id = ''id1'',
        store_name = default_store_name,
        store_files = [''files/./papers/a.pdf'', ''files/./papers/c.pdf'']\<rparr>)) \<and>
     UploadFailed ''b.pdf'' (RemoteError ''upload failed'') \<in> set ms"
proof -
  let ?h1 = "\<lparr>fh_name = ''files/./papers/a.pdf'', fh_display = ''./papers/a.pdf''\<rparr>"
  let ?h3 = "\<lparr>fh_name = ''files/./papers/c.pdf'', fh_display = ''./papers/c.pdf''\<rparr>"
  let ?s1 = "reject_second\<lparr>sim_files := [(''files/./papers/a.pdf'', ?h1)]\<rparr>"
  let ?s3 = "reject_second\<lparr>sim_files := [(''files/./papers/a.pdf'', ?h1),
                                           (''files/./papers/c.pdf'', ?h3)]\<rparr>"
  have pdf: "is_pdf ''a.pdf''" "is_pdf ''b.pdf''" "is_pdf ''c.pdf''" by code_simp+
  have u1: "upload_file sim_api reject_second (path_join default_folder ''a.pdf'') = (Inr ?h1, ?s1)"
    by code_simp
  have u2: "upload_file sim_api ?s1 (path_join default_folder ''b.pdf'') =
      (Inl (RemoteError ''upload failed''), ?s1)"
    by code_simp
  have u3: "upload_file sim_api ?s1 (path_join default_folder ''c.pdf'') = (Inr ?h3, ?s3)"
    by code_simp
  show ?thesis
    using create_store_skips_failed_upload [OF pdf u1 u2 u3, of default_store_name "''id1''" Map.empty]
    by simp
qed

text \<open>
  C10.  The builder either exits with status 0 after writing, under \<open>sid.json\<close>, the
  store of the names of the uploaded files (at least one), or exits with status 1 and
  writes nothing.
\<close>

theorem create_store_outcome:
  assumes "create_store api folder name sid listing s fs = (code, ms, s', fs')"
  shows "(code = 0 \<and> (\<exists>entries hs. listing = Some entries \<and> hs \<noteq> [] \<and>
            hs = fst (upload_all api folder s (filter is_pdf entries)) \<and>
            fs' = fs(store_file_name sid \<mapsto> JsonFile (store_doc
              \<lparr>store_id = sid, store_name = name, store_files = map fh_name hs\<rparr>)))) \<or>
         (code = 1 \<and> fs' = fs)"
  using assms
  by (auto simp: create_store_def Let_def split: option.splits if_splits prod.splits)

theorem create_store_outcome_witness:
  "fst (create_store sim_api default_folder default_store_name ''id1''
          (Some [''a.pdf'', ''notes.txt'']) reject_second Map.empty) = 0 \<and>
   (\<exists>entries hs. Some [''a.pdf'', ''notes.txt''] = Some entries \<and> hs \<noteq> [] \<and>
      hs = fst (upload_all sim_api default_folder reject_second (filter is_pdf entries)))"
proof -
  obtain code ms s' fs' where run: "create_store sim_api default_folder default_store_name ''id1''
      (Some [''a.pdf'', ''notes.txt'']) reject_second Map.empty = (code, ms, s', fs')"
    by (metis prod.exhaust)
  have "fst (create_store sim_api default_folder default_store_name ''id1''
      (Some [''a.pdf'', ''notes.txt'']) reject_second Map.empty) = 0"
    by code_simp
  with run have "code = 0" by simp
  with create_store_outcome [OF run] run show ?thesis by auto
qed

text \<open>
  C11.  The upload loop of the command-line builder never aborts: every PDF file is
  either uploaded or reported as a failed upload.
\<close>

theorem upload_all_every_file_reported:
  "upload_all api folder s fs = (hs, ms, s') \<Longrightarrow>
     length hs + length (failed_uploads ms) = length fs \<and> set (failed_uploads ms) \<subseteq> set fs"
proof (induction fs arbitrary: s hs ms)
  case Nil
  then show ?case by simp
next
  case (Cons f fs)
  from upload_all_Cons_cases [OF Cons.prems] show ?case
  proof (elim disjE exE conjE)
    fix h s1 hs'
    assume rest: "upload_all api folder s1 fs = (hs', drop 2 ms, s')" and "hs = h # hs'"
      and "take 2 ms = [Uploading f, UploadedFile (fh_name h)]"
    then have "failed_uploads ms = failed_uploads (drop 2 ms)"
      using failed_uploads_take_drop [of ms] by simp
    with Cons.IH [OF rest] \<open>hs = h # hs'\<close> show ?thesis by auto
  next
    fix e s1
    assume rest: "upload_all api folder s1 fs = (hs, drop 2 ms, s')"
      and "take 2 ms = [Uploading f, UploadFailed f e]"
    then have "failed_uploads ms = f # failed_uploads (drop 2 ms)"
      using failed_uploads_take_drop [of ms] by simp
    with Cons.IH [OF rest] show ?thesis by auto
  qed
qed

theorem upload_all_every_file_reported_witness:
  "length (fst (upload_all sim_api default_folder reject_second [''a.pdf'', ''b.pdf''])) +
   length (failed_uploads (fst (snd (upload_all sim_api default_folder reject_second
      [''a.pdf'', ''b.pdf''])))) = 2"
proof -
  obtain hs ms s' where r: "upload_all sim_api default_folder reject_second [''a.pdf'', ''b.pdf''] =
      (hs, ms, s')"
    by (metis prod.exhaust)
  from upload_all_every_file_reported [OF r] have "length hs + length (failed_uploads ms) = 2"
    by simp
  then show ?thesis unfolding r by simp
qed

text \<open>
  C12.  The web application's builder is all-or-nothing: it reports either no store at
  all, or a store with every uploaded file.
\<close>

theorem create_document_store_all_or_nothing:
  "fst (create_document_store api s fs uploads sid) = (None, 0) \<or>
   fst (create_document_store api s fs uploads sid) = (Some sid, length uploads)"
proof -
  obtain fs1 ps where sv: "save_uploads fs uploads = (fs1, ps)" by (metis prod.exhaust)
  have len: "length ps = length uploads" using save_uploads_paths [OF sv] by simp
  show ?thesis
  proof (cases "app_upload_all api s ps")
    case (Pair r s1)
    then show ?thesis
      using sv len app_upload_all_Inr_length [of api s ps]
      by (cases r) (auto simp: create_document_store_def)
  qed
qed

text \<open>
  C13.  In the web application one failed upload discards the whole batch, including the
  files uploaded before it: no store is created (the specification asks for the failure
  to be skipped).
\<close>

theorem create_document_store_aborts_on_failure:
  assumes "upload_file api s0 (''papers/'' @ n1) = (Inr h1, s1)"
    and "upload_file api s1 (''papers/'' @ n2) = (Inl e, s2)"
  shows "create_document_store api s0 fs ((n1, b1) # (n2, b2) # rest) sid =
           ((None, 0), [AppCreateError e], s2, fst (save_uploads fs ((n1, b1) # (n2, b2) # rest)))"
proof -
  obtain fs1 ps where sv: "save_uploads fs ((n1, b1) # (n2, b2) # rest) = (fs1, ps)"
    by (metis prod.exhaust)
  have "ps = (''papers/'' @ n1) # (''papers/'' @ n2) # map (\<lambda>u. ''papers/'' @ fst u) rest"
    using save_uploads_paths [OF sv] by simp
  with assms sv show ?thesis by (simp add: create_document_store_def)
qed

theorem create_document_store_aborts_on_failure_witness:
  "create_document_store sim_api app_reject_second Map.empty
     [(''a.pdf'', ''A''), (''b.pdf'', ''B'')] ''id1'' =
   ((None, 0), [AppCreateError (RemoteError ''upload failed'')],
    app_reject_second\<lparr>sim_files := [(''files/papers/a.pdf'',
       \<lparr>fh_name = ''files/papers/a.pdf'', fh_display = ''papers/a.pdf''\<rparr>)]\<rparr>,
    fst (save_uploads Map.empty [(''a.pdf'', ''A''), (''b.pdf'', ''B'')]))"
proof -
  let ?h1 = "\<lparr>fh_name = ''files/papers/a.pdf'', fh_display = ''papers/a.pdf''\<rparr>"
  let ?s1 = "app_reject_second\<lparr>sim_files := [(''files/papers/a.pdf'', ?h1)]\<rparr>"
  have u1: "upload_file sim_api app_reject_second (''papers/'' @ ''a.pdf'') = (Inr ?h1, ?s1)"
    by code_simp
  have u2: "upload_file sim_api ?s1 (''papers/'' @ ''b.pdf'') =
      (Inl (RemoteError ''upload failed''), ?s1)"
    by code_simp
  show ?thesis
    using create_document_store_aborts_on_failure [OF u1 u2, of Map.empty "''A''" "''B''" "[]" "''id1''"]
    by simp
qed

text \<open>
  C34.  Both builders keep the file system well typed: the only JSON file either writes
  is a store document with a string identifier and a list of string file names, and the
  uploaded copies the web application saves are binary files.
\<close>

theorem builders_keep_fs_wf:
  assumes "fs_wf fs"
  shows "fs_wf (snd (snd (snd (create_store api folder name sid listing s fs)))) \<and>
         fs_wf (snd (snd (snd (create_document_store api s fs uploads sid))))"
  by (intro conjI create_store_fs_wf create_document_store_fs_wf assms store_doc_wf_store_doc)

theorem builders_keep_fs_wf_witness:
  "fs_wf (snd (snd (snd (create_store sim_api default_folder default_store_name ''id1''
      (Some [''a.pdf'', ''b.pdf'']) reject_second Map.empty)))) \<and>
   fs_wf (snd (snd (snd (create_document_store sim_api reject_second Map.empty
      [(''b.pdf'', ''%PDF'')] ''id1''))))"
proof -
  have "fs_wf Map.empty" by (simp add: fs_wf_def)
  from builders_keep_fs_wf [OF this, where api = sim_api and folder = default_folder
      and name = default_store_name and sid = "''id1''" and listing = "Some [''a.pdf'', ''b.pdf'']"
      and s = reject_second and uploads = "[(''b.pdf'', ''%PDF'')]"]
  show ?thesis .
qed

text \<open>
  C37.  Bounds of the builder's summary: a run that exits with status 0 reports \<open>k\<close>
  uploaded files of the \<open>m\<close> PDF files of the folder, where \<open>k\<close> is the number of
  handles the upload loop returned, all of them listed in the store written, and
  \<open>0 < k \<le> m\<close>.
\<close>

theorem create_store_summary_bounds:
  assumes "create_store api folder name sid (Some entries) s fs = (0, ms, s', fs')"
  shows "\<exists>hs. fst (upload_all api folder s (filter is_pdf entries)) = hs \<and>
             UploadSummary (length hs) (length (filter is_pdf entries)) \<in> set ms \<and>
             fs' (store_file_name sid) = Some (JsonFile (store_doc
               \<lparr>store_id = sid, store_name = name, store_files = map fh_name hs\<rparr>)) \<and>
             0 < length hs \<and> length hs \<le> length (filter is_pdf entries)"
proof -
  obtain hs ums s1 where up: "upload_all api folder s (filter is_pdf entries) = (hs, ums, s1)"
    by (metis prod.exhaust)
  from assms up have "hs \<noteq> []" and "UploadSummary (length hs) (length (filter is_pdf entries)) \<in> set ms"
    and "fs' (store_file_name sid) = Some (JsonFile (store_doc
               \<lparr>store_id = sid, store_name = name, store_files = map fh_name hs\<rparr>))"
    by (auto simp: create_store_def Let_def split: if_splits)
  with upload_all_length [OF up] up show ?thesis by auto
qed

theorem create_store_summary_bounds_witness:
  "case create_store sim_api default_folder default_store_name ''id1''
          (Some [''a.pdf'', ''b.pdf'', ''c.pdf'']) reject_second Map.empty of
     (_, ms, _, fs') \<Rightarrow>
       \<exists>hs. fst (upload_all sim_api default_folder reject_second
                (filter is_pdf [''a.pdf'', ''b.pdf'', ''c.pdf''])) = hs \<and>
            UploadSummary (length hs) (length (filter is_pdf [''a.pdf'', ''b.pdf'', ''c.pdf''])) \<in> set ms \<and>
            fs' (store_file_name ''id1'') = Some (JsonFile (store_doc
              \<lparr>store_id = ''id1'', store_name = default_store_name, store_files = map fh_name hs\<rparr>)) \<and>
            0 < length hs \<and> length hs \<le> length (filter is_pdf [''a.pdf'', ''b.pdf'', ''c.pdf''])"
proof -
  obtain code ms s' fs' where run: "create_store sim_api default_folder default_store_name ''id1''
      (Some [''a.pdf'', ''b.pdf'', ''c.pdf'']) reject_second Map.empty = (code, ms, s', fs')"
    by (metis prod.exhaust)
  have "fst (create_store sim_api default_folder default_store_name ''id1''
      (Some [''a.pdf'', ''b.pdf'', ''c.pdf'']) reject_second Map.empty) = 0"
    by code_simp
  with run have run0: "create_store sim_api default_folder default_store_name ''id1''
      (Some [''a.pdf'', ''b.pdf'', ''c.pdf'']) reject_second Map.empty = (0, ms, s', fs')"
    by simp
  from create_store_summary_bounds [OF run0] run0 show ?thesis by simp
qed

end
