(* ===== verification/Store_Load.thy ===== *)
theory Store_Load
  imports Store_Doc
begin

text \<open>
  The two store loaders: the start of \<open>run_chatbot\<close> in \<open>src/chatbot.py\<close>
  (\<open>cli_load_store\<close>, with the exits of the script as \<open>load_error\<close>) and
  \<open>load_document_store\<close> of \<open>src/app.py\<close> (\<open>app_load_store\<close>).  Both resolve the
  names of the document with the service's \<open>get_file\<close>, warn about a name that fails and
  skip it (\<open>resolve_files\<close>).
\<close>

section \<open>The loaders\<close>

text \<open>\<open>genai.get_file(name)\<close> on a loaded value; a name that is not a string fails.\<close>

definition get_file_json :: "'s remote_api \<Rightarrow> 's \<Rightarrow> json \<Rightarrow> py_exc + file_handle" where
  "get_file_json api s v = (case v of
     JStr n \<Rightarrow> get_file api s n
   | _ \<Rightarrow> Inl (TypeError ''file name must be a string''))"

text \<open>The resolution loop shared by both loaders: a failing name is warned about and skipped.\<close>

fun resolve_files :: "'s remote_api \<Rightarrow> 's \<Rightarrow> json list \<Rightarrow> file_handle list \<times> msg list" where
  "resolve_files api s [] = ([], [])"
| "resolve_files api s (n # ns) =
     (let (hs, ms) = resolve_files api s ns in
      case get_file_json api s n of
        Inr h \<Rightarrow> (h # hs, ms)
      | Inl e \<Rightarrow> (hs, CouldNotLoadFile n e # ms))"

datatype load_error = StoreNotFound | NoFilesAvailable | LoadFailed py_exc

text \<open>
  Lines 62 to 87 of \<open>run_chatbot\<close>: only \<open>FileNotFoundError\<close> is handled next to the
  read; every other exception reaches the outer handler (\<open>Unexpected error\<close>).
  Every error ends the process with status 1.
\<close>

definition cli_load_store ::
  "'s remote_api \<Rightarrow> 's \<Rightarrow> fsys \<Rightarrow> string \<Rightarrow> (load_error + file_handle list) \<times> msg list" where
  "cli_load_store api s fs sid =
     (let f = store_file_name sid in
      case read_json fs f of
        Inl (FileNotFoundError _) \<Rightarrow> (Inl StoreNotFound, [StoreFileMissing f])
      | Inl e \<Rightarrow> (Inl (LoadFailed e), [UnexpectedError e])
      | Inr d \<Rightarrow>
          (case json_get_default d ''name'' (JStr ''Unknown'') of
             Inl e \<Rightarrow> (Inl (LoadFailed e), [UnexpectedError e])
           | Inr nm \<Rightarrow>
               (case json_index d ''id'' of
                  Inl e \<Rightarrow> (Inl (LoadFailed e), [LoadedStore nm, UnexpectedError e])
                | Inr i \<Rightarrow>
                    (let head = [LoadedStore nm, StoreIdIs i] in
                     case store_file_names d of
                       Inl e \<Rightarrow> (Inl (LoadFailed e), head @ [UnexpectedError e])
                     | Inr names \<Rightarrow>
                         (let (hs, ms) = resolve_files api s names in
                          if hs = [] then (Inl NoFilesAvailable, head @ ms @ [NoFilesInStore])
                          else (Inr hs, head @ ms @ [LoadedDocuments (length hs)]))))))"

text \<open>
  \<open>load_document_store(store_id)\<close>: any failure is reported and gives the empty list.
  \<open>st.session_state.api_key\<close> is read in between (\<open>None\<close>: never set).
\<close>

definition app_load_store ::
  "'s remote_api \<Rightarrow> 's \<Rightarrow> fsys \<Rightarrow> string option \<Rightarrow> string \<Rightarrow> file_handle list \<times> msg list" where
  "app_load_store api s fs key sid =
     (case read_json fs (store_file_name sid) of
        Inl e \<Rightarrow> ([], [AppLoadError e])
      | Inr d \<Rightarrow>
          (case key of
             None \<Rightarrow> ([], [AppLoadError (AttributeError ''api_key'')])
           | Some _ \<Rightarrow>
               (case store_file_names d of
                  Inl e \<Rightarrow> ([], [AppLoadError e])
                | Inr names \<Rightarrow> resolve_files api s names)))"

definition one_stored :: sim_state where
  "one_stored = \<lparr>sim_files = [(''files/a'', \<lparr>fh_name = ''files/a'', fh_display = ''a.pdf''\<rparr>)],
                  sim_reject = [], sim_replies = [], sim_prompts = []\<rparr>"

section \<open>Lemmas\<close>

lemma resolve_files_all_found:
  "(\<forall>h \<in> set hs. get_file api s (fh_name h) = Inr h) \<Longrightarrow>
     resolve_files api s (map (JStr \<circ> fh_name) hs) = (hs, [])"
  by (induction hs) (auto simp: get_file_json_def)

lemma resolve_files_successes:
  "resolve_files api s ns = (hs, ms) \<Longrightarrow>
     hs = successes (map (get_file_json api s) ns) \<and> length hs + length ms = length ns"
  by (induction ns arbitrary: hs ms) (auto split: prod.splits sum.splits)

lemma resolve_files_none_found:
  "(\<forall>n \<in> set ns. \<exists>e. get_file api s n = Inl e) \<Longrightarrow> fst (resolve_files api s (map JStr ns)) = []"
  by (induction ns) (auto simp: get_file_json_def split: prod.splits sum.splits)

lemma load_stored_doc:
  assumes "fs (store_file_name sid) = Some (JsonFile (store_doc r))"
    and "store_files r = map fh_name hs" and "hs \<noteq> []"
    and "\<forall>h \<in> set hs. get_file api s (fh_name h) = Inr h"
  shows "fst (cli_load_store api s fs sid) = Inr hs \<and> app_load_store api s fs (Some key) sid = (hs, [])"
proof -
  have "resolve_files api s (map JStr (store_files r)) = (hs, [])"
    using resolve_files_all_found [OF assms(4)] assms(2) by simp
  with assms(1,3) show ?thesis
    by (simp add: cli_load_store_def app_load_store_def read_json_def store_doc_fields)
qed

lemma resolve_files_no_load_error: "AppLoadError e \<notin> set (snd (resolve_files api s ns))"
  by (induction ns) (auto split: prod.splits sum.splits)

text \<open>The loaders read the service only through \<open>get_file\<close>.\<close>

lemma resolve_files_get_file_cong:
  assumes "get_file api s' = get_file api s"
  shows "resolve_files api s' ns = resolve_files api s ns"
proof -
  have "get_file_json api s' = get_file_json api s"
    using assms by (simp add: get_file_json_def fun_eq_iff split: json.splits)
  then show ?thesis by (induction ns) simp_all
qed

lemma loaders_get_file_cong:
  assumes "get_file api s' = get_file api s"
  shows "cli_load_store api s' fs i = cli_load_store api s fs i \<and>
         app_load_store api s' fs key i = app_load_store api s fs key i"
  unfolding cli_load_store_def app_load_store_def resolve_files_get_file_cong [OF assms] by simp

section \<open>Properties\<close>

text \<open>
  C14.  Resolving the names of a store keeps exactly the names the service resolves, in
  order, and warns once about each name it cannot resolve.
\<close>

theorem resolve_files_partial:
  assumes "resolve_files api s ns = (hs, ms)"
  shows "hs = successes (map (get_file_json api s) ns) \<and> length hs + length ms = length ns \<and>
         (\<forall>m \<in> set ms. \<exists>n e. n \<in> set ns \<and> get_file_json api s n = Inl e \<and> m = CouldNotLoadFile n e)"
  using assms
proof (induction ns arbitrary: hs ms)
  case Nil
  then show ?case by simp
next
  case (Cons n ns)
  then show ?case
    by (fastforce split: prod.splits sum.splits)
qed

theorem resolve_files_partial_witness:
  "resolve_files sim_api one_stored [JStr ''files/a'', JStr ''files/b''] =
     ([\<lparr>fh_name = ''files/a'', fh_display = ''a.pdf''\<rparr>],
      [CouldNotLoadFile (JStr ''files/b'') (RemoteError ''file not found: files/b'')]) \<and>
   [\<lparr>fh_name = ''files/a'', fh_display = ''a.pdf''\<rparr>] =
     successes (map (get_file_json sim_api one_stored) [JStr ''files/a'', JStr ''files/b''])"
proof -
  have r: "resolve_files sim_api one_stored [JStr ''files/a'', JStr ''files/b''] =
     ([\<lparr>fh_name = ''files/a'', fh_display = ''a.pdf''\<rparr>],
      [CouldNotLoadFile (JStr ''files/b'') (RemoteError ''file not found: files/b'')])"
    by code_simp
  show ?thesis using resolve_files_partial [OF r] r by simp
qed

text \<open>
  C15.  The command-line loader fails with \<open>StoreNotFound\<close> when the store file is
  missing, and with \<open>NoFilesAvailable\<close> when none of the store's names resolves.
\<close>

theorem cli_load_store_errors:
  "(fs (store_file_name sid) = None \<longrightarrow>
      cli_load_store api s fs sid = (Inl StoreNotFound, [StoreFileMissing (store_file_name sid)])) \<and>
   (fs (store_file_name sid) = Some (JsonFile (store_doc r)) \<longrightarrow>
      (\<forall>n \<in> set (store_files r). \<exists>e. get_file api s n = Inl e) \<longrightarrow>
      fst (cli_load_store api s fs sid) = Inl NoFilesAvailable)"
proof (intro conjI impI)
  assume "fs (store_file_name sid) = None"
  then show "cli_load_store api s fs sid = (Inl StoreNotFound, [StoreFileMissing (store_file_name sid)])"
    by (simp add: cli_load_store_def read_json_def)
next
  assume doc: "fs (store_file_name sid) = Some (JsonFile (store_doc r))"
    and none: "\<forall>n \<in> set (store_files r). \<exists>e. get_file api s n = Inl e"
  obtain hs ms where res: "resolve_files api s (map JStr (store_files r)) = (hs, ms)"
    by (metis prod.exhaust)
  with resolve_files_none_found [OF none] have "hs = []" by simp
  with doc res show "fst (cli_load_store api s fs sid) = Inl NoFilesAvailable"
    by (simp add: cli_load_store_def read_json_def store_doc_fields)
qed

theorem cli_load_store_errors_witness:
  "cli_load_store sim_api one_stored Map.empty ''id1'' =
     (Inl StoreNotFound, [StoreFileMissing (store_file_name ''id1'')]) \<and>
   fst (cli_load_store sim_api one_stored
     [store_file_name ''id1'' \<mapsto> JsonFile (store_doc \<lparr>store_id = ''id1'', store_name = ''n'',
        store_files = [''files/b'']\<rparr>)] ''id1'') = Inl NoFilesAvailable"
proof -
  have "\<forall>n \<in> set [''files/b'']. \<exists>e. get_file sim_api one_stored n = Inl e"
    by (simp add: sim_api_def sim_get_def one_stored_def)
  then show ?thesis
    using cli_load_store_errors [of Map.empty "''id1''" sim_api one_stored]
      cli_load_store_errors [of "[store_file_name ''id1'' \<mapsto> JsonFile (store_doc \<lparr>store_id = ''id1'',
        store_name = ''n'', store_files = [''files/b'']\<rparr>)]" "''id1''" sim_api one_stored
        "\<lparr>store_id = ''id1'', store_name = ''n'', store_files = [''files/b'']\<rparr>"]
    by simp
qed

text \<open>
  C35.  A well-typed store never makes a loader fail on its document: the command-line
  loader either returns handles or reports that none is available, never a
  \<open>KeyError\<close> or \<open>TypeError\<close> of the document, and the web application's loader, with a
  key set, warns only about single files.
\<close>

theorem well_typed_store_loads:
  assumes "fs (store_file_name sid) = Some (JsonFile d)" and "store_doc_wf d"
  shows "((\<exists>hs. fst (cli_load_store api s fs sid) = Inr hs) \<or>
          fst (cli_load_store api s fs sid) = Inl NoFilesAvailable) \<and>
         (\<forall>e. AppLoadError e \<notin> set (snd (app_load_store api s fs (Some key) sid)))"
proof -
  from store_doc_wf_access [OF assms(2)] obtain i nm names where
    acc: "json_index d ''id'' = Inr (JStr i)" "json_get_default d ''name'' (JStr ''Unknown'') = Inr nm"
      "store_file_names d = Inr names"
    by blast
  obtain hs ms where res: "resolve_files api s names = (hs, ms)"
    by (metis prod.exhaust)
  show ?thesis
    using assms(1) acc res resolve_files_no_load_error [of _ api s names]
    by (auto simp: cli_load_store_def app_load_store_def read_json_def Let_def)
qed

theorem well_typed_store_loads_witness:
  "fst (cli_load_store sim_api one_stored [store_file_name ''id1'' \<mapsto> JsonFile (JObj
      [(''id'', JStr ''id1''), (''files'', JArr [JStr ''files/b''])])] ''id1'') = Inl NoFilesAvailable \<and>
   (\<forall>e. AppLoadError e \<notin> set (snd (app_load_store sim_api one_stored [store_file_name ''id1'' \<mapsto> JsonFile (JObj
      [(''id'', JStr ''id1''), (''files'', JArr [JStr ''files/b''])])] (Some ''k'') ''id1'')))"
proof -
  let ?d = "JObj [(''id'', JStr ''id1''), (''files'', JArr [JStr ''files/b''])]"
  have wf: "store_doc_wf ?d" by code_simp
  have "fst (cli_load_store sim_api one_stored [store_file_name ''id1'' \<mapsto> JsonFile ?d] ''id1'') \<noteq>
      Inr hs" for hs
  proof -
    have "fst (cli_load_store sim_api one_stored [store_file_name ''id1'' \<mapsto> JsonFile ?d] ''id1'') =
        Inl NoFilesAvailable"
      by code_simp
    then show ?thesis by simp
  qed
  with well_typed_store_loads [of "[store_file_name ''id1'' \<mapsto> JsonFile ?d]" "''id1''" ?d sim_api one_stored
      "''k''", OF _ wf]
  show ?thesis by auto
qed


text \<open>
  C33.  The two loaders are equivalent on well-typed file systems: when every JSON file is
  a well-typed store document, the command-line loader returns the handles \<open>hs\<close>
  exactly when the web application's loader, with a key set, returns the same non-empty
  \<open>hs\<close>.  A missing or unreadable store file fails in both.
\<close>

theorem loaders_agree_on_well_typed:
  assumes "fs_wf fs"
  shows "fst (cli_load_store api s fs sid) = Inr hs \<longleftrightarrow>
           fst (app_load_store api s fs (Some key) sid) = hs \<and> hs \<noteq> []"
proof (cases "fs (store_file_name sid)")
  case None
  then show ?thesis
    by (auto simp: cli_load_store_def app_load_store_def read_json_def)
next
  case (Some c)
  show ?thesis
  proof (cases c)
    case (JsonFile d)
    with Some assms have "store_doc_wf d"
      by (auto simp: fs_wf_def)
    from store_doc_wf_access [OF this] obtain i nm names where
      acc: "json_index d ''id'' = Inr (JStr i)" "json_get_default d ''name'' (JStr ''Unknown'') = Inr nm"
        "store_file_names d = Inr names"
      by blast
    obtain hs0 ms where res: "resolve_files api s names = (hs0, ms)"
      by (metis prod.exhaust)
    show ?thesis
      using Some JsonFile acc res
      by (auto simp: cli_load_store_def app_load_store_def read_json_def Let_def)
  qed (use Some in \<open>auto simp: cli_load_store_def app_load_store_def read_json_def Let_def\<close>)
qed

theorem loaders_agree_on_well_typed_witness:
  "fs_wf [store_file_name ''id1'' \<mapsto> JsonFile (store_doc
       \<lparr>store_id = ''id1'', store_name = ''n'', store_files = [''files/a'']\<rparr>)] \<and>
   (fst (cli_load_store sim_api one_stored [store_file_name ''id1'' \<mapsto> JsonFile (store_doc
       \<lparr>store_id = ''id1'', store_name = ''n'', store_files = [''files/a'']\<rparr>)] ''id1'') =
      Inr [\<lparr>fh_name = ''files/a'', fh_display = ''a.pdf''\<rparr>] \<longleftrightarrow>
    fst (app_load_store sim_api one_stored [store_file_name ''id1'' \<mapsto> JsonFile (store_doc
       \<lparr>store_id = ''id1'', store_name = ''n'', store_files = [''files/a'']\<rparr>)] (Some ''k'') ''id1'') =
      [\<lparr>fh_name = ''files/a'', fh_display = ''a.pdf''\<rparr>] \<and>
    [\<lparr>fh_name = ''files/a'', fh_display = ''a.pdf''\<rparr>] \<noteq> [])"
proof -
  have wf: "fs_wf [store_file_name ''id1'' \<mapsto> JsonFile (store_doc
       \<lparr>store_id = ''id1'', store_name = ''n'', store_files = [''files/a'']\<rparr>)]"
    by (auto simp: fs_wf_def)
  show ?thesis
    using wf loaders_agree_on_well_typed [OF wf, of sim_api one_stored "''id1''"
        "[\<lparr>fh_name = ''files/a'', fh_display = ''a.pdf''\<rparr>]" "''k''"]
    by blast
qed

text \<open>
  Without the condition the loaders differ: a store document without \<open>"id"\<close> makes
  the chatbot fail with \<open>KeyError\<close>, while the web application loads its files.
\<close>

lemma loaders_differ_without_id:
  "fst (cli_load_store sim_api one_stored
      [store_file_name ''id1'' \<mapsto> JsonFile (JObj [(''files'', JArr [JStr ''files/a''])])] ''id1'') =
     Inl (LoadFailed (KeyError ''id'')) \<and>
   fst (app_load_store sim_api one_stored
      [store_file_name ''id1'' \<mapsto> JsonFile (JObj [(''files'', JArr [JStr ''files/a''])])] (Some ''k'') ''id1'') =
     [\<lparr>fh_name = ''files/a'', fh_display = ''a.pdf''\<rparr>]"
  by code_simp

end
