(* ===== verification/Store.thy ===== *)
theory Store
  imports Store_Build Store_Load
begin

text \<open>
  The round trips of the store between its builders (theory \<open>Store_Build\<close>) and its
  loaders (theory \<open>Store_Load\<close>): with any remote service that meets its contract, a
  store either builder writes loads back, in either loader, as the handles it uploaded.
  The two programs can therefore share a store.
\<close>

section \<open>Lemmas\<close>

text \<open>A store the web application creates, from a non-empty batch, loads back in both loaders.\<close>

lemma created_store_loads:
  assumes "remote_contract api"
    and "create_document_store api s fs uploads sid = ((Some i, n), ms, s', fs')"
    and "uploads \<noteq> []"
  shows "\<exists>hs. hs \<noteq> [] \<and> length hs = n \<and> app_load_store api s' fs' (Some key) i = (hs, []) \<and>
              fst (cli_load_store api s' fs' i) = Inr hs \<and>
              app_upload_all api s (snd (save_uploads fs uploads)) = (Inr hs, s')"
proof -
  from create_document_store_success [OF assms(2)] obtain hs where
    i: "i = sid" and n: "n = length uploads" "n = length hs"
    and up: "app_upload_all api s (snd (save_uploads fs uploads)) = (Inr hs, s')"
    and fs': "fs' = (fst (save_uploads fs uploads))(store_file_name sid \<mapsto> JsonFile (store_doc
             \<lparr>store_id = sid, store_name = ''Research Papers Collection'', store_files = map fh_name hs\<rparr>))"
    by blast
  have ne: "hs \<noteq> []"
    using n assms(3) by auto
  have get: "\<forall>h \<in> set hs. get_file api s' (fh_name h) = Inr h"
    using app_upload_all_gettable [OF assms(1) up] by blast
  have doc: "fs' (store_file_name i) = Some (JsonFile (store_doc
      \<lparr>store_id = sid, store_name = ''Research Papers Collection'', store_files = map fh_name hs\<rparr>))"
    using fs' i by simp
  have "fst (cli_load_store api s' fs' i) = Inr hs \<and> app_load_store api s' fs' (Some key) i = (hs, [])"
    using load_stored_doc [where fs = fs' and sid = i and hs = hs and s = s' and api = api, OF doc] ne get
    by simp
  with n ne up show ?thesis by auto
qed

section \<open>Properties\<close>

text \<open>
  C16.  Round trip of the store: with any remote service that meets its contract, a store
  that the command-line builder writes loads back, in both loaders, as exactly the handles
  its upload loop returned, in order, with no warning.
\<close>

theorem build_then_load:
  assumes "remote_contract api"
    and "create_store api folder name sid (Some entries) s fs = (0, ms, s', fs')"
  shows "fst (cli_load_store api s' fs' sid) = Inr (fst (upload_all api folder s (filter is_pdf entries))) \<and>
         app_load_store api s' fs' (Some key) sid = (fst (upload_all api folder s (filter is_pdf entries)), [])"
proof -
  from create_store_success [OF assms(2)] obtain hs ms'
    where up: "upload_all api folder s (filter is_pdf entries) = (hs, ms', s')"
      and ne: "hs \<noteq> []"
      and fs': "fs' = fs(store_file_name sid \<mapsto> JsonFile (store_doc
                 \<lparr>store_id = sid, store_name = name, store_files = map fh_name hs\<rparr>))"
    by blast
  have get: "\<forall>h \<in> set hs. get_file api s' (fh_name h) = Inr h"
    by (rule upload_all_gettable [OF assms(1) up])
  have doc: "fs' (store_file_name sid) = Some (JsonFile (store_doc
      \<lparr>store_id = sid, store_name = name, store_files = map fh_name hs\<rparr>))"
    using fs' by simp
  have "fst (cli_load_store api s' fs' sid) = Inr hs \<and> app_load_store api s' fs' (Some key) sid = (hs, [])"
    using load_stored_doc [where fs = fs' and sid = sid and hs = hs and s = s' and api = api,
        OF doc] ne get
    by simp
  with up show ?thesis by simp
qed

theorem build_then_load_witness:
  "case create_store sim_api default_folder default_store_name ''id1''
          (Some [''a.pdf'', ''b.pdf'', ''c.pdf'']) reject_second Map.empty of
     (_, _, s', fs') \<Rightarrow>
       fst (cli_load_store sim_api s' fs' ''id1'') =
         Inr (fst (upload_all sim_api default_folder reject_second (filter is_pdf [''a.pdf'', ''b.pdf'', ''c.pdf'']))) \<and>
       app_load_store sim_api s' fs' (Some ''key'') ''id1'' =
         (fst (upload_all sim_api default_folder reject_second (filter is_pdf [''a.pdf'', ''b.pdf'', ''c.pdf''])), [])"
proof -
  obtain code ms s' fs' where run: "create_store sim_api default_folder default_store_name ''id1''
      (Some [''a.pdf'', ''b.pdf'', ''c.pdf'']) reject_second Map.empty = (code, ms, s', fs')"
    by (metis prod.exhaust)
  have "fst (create_store sim_api default_folder default_store_name ''id1''
      (Some [''a.pdf'', ''b.pdf'', ''c.pdf'']) reject_second Map.empty) = 0"
    by code_simp
  with run have run0: "create_store sim_api default_folder default_store_name ''id1''
      (Some [''a.pdf'', ''b.pdf'', ''c.pdf'']) reject_second Map.empty = (0, ms, s', fs')"
    by simp
  from build_then_load [OF sim_api_contract run0, of "''key''"] run0 show ?thesis by simp
qed

text \<open>
  C29.  The two programs share the store file: with any remote service that meets its
  contract, a store that the web application builds from a non-empty batch loads back,
  in the web application and in the command-line chatbot alike, as exactly the handles
  its upload loop returned, one per file of the batch, with no warning.
\<close>

theorem app_build_then_load:
  assumes "remote_contract api"
    and "create_document_store api s fs uploads sid = ((Some i, n), ms, s', fs')"
    and "uploads \<noteq> []"
  shows "\<exists>hs. app_upload_all api s (snd (save_uploads fs uploads)) = (Inr hs, s') \<and> length hs = n \<and>
              app_load_store api s' fs' (Some key) i = (hs, []) \<and>
              fst (cli_load_store api s' fs' i) = Inr hs"
  using created_store_loads [OF assms] by blast

theorem app_build_then_load_witness:
  "case create_document_store sim_api one_stored Map.empty [(''b.pdf'', ''%PDF-1.4'')] ''id2'' of
     ((Some i, n), ms, s', fs') \<Rightarrow>
       \<exists>hs. app_upload_all sim_api one_stored (snd (save_uploads Map.empty [(''b.pdf'', ''%PDF-1.4'')])) =
              (Inr hs, s') \<and> length hs = n \<and>
            app_load_store sim_api s' fs' (Some ''key'') i = (hs, []) \<and>
            fst (cli_load_store sim_api s' fs' i) = Inr hs
   | _ \<Rightarrow> False"
proof -
  obtain r ms s' fs' where run: "create_document_store sim_api one_stored Map.empty
      [(''b.pdf'', ''%PDF-1.4'')] ''id2'' = (r, ms, s', fs')"
    by (metis prod.exhaust)
  have "fst (create_document_store sim_api one_stored Map.empty [(''b.pdf'', ''%PDF-1.4'')] ''id2'') =
      (Some ''id2'', 1)"
    by code_simp
  with run have run1: "create_document_store sim_api one_stored Map.empty
      [(''b.pdf'', ''%PDF-1.4'')] ''id2'' = ((Some ''id2'', 1), ms, s', fs')"
    by simp
  from app_build_then_load [OF sim_api_contract run1, of "''key''"] run1 show ?thesis
    by simp
qed

end
