(* ===== verification/Model_Select.thy ===== *)
theory Model_Select
  imports Prelude
begin

text \<open>
  Choosing the generative model.  \<open>run_chatbot\<close> of \<open>src/chatbot.py\<close> (lines 89 to 112)
  tries a list of model names: for each it constructs \<open>genai.GenerativeModel(name)\<close>,
  assigns it to \<open>model\<close>, then reads \<open>model.model_name\<close> as a probe; the first name
  whose probe succeeds is kept.  How the service answers each attempt is a parameter
  \<open>attempt\<close>.  The specification asks for \<open>selectFirstAvailable\<close> (section 9), here
  \<open>select_first_available\<close>.  The listing of models that follows a failed selection
  is modelled over the listed \<open>model_info\<close> records, which the model lister
  (theory \<open>Model_Lister\<close>) reads as well.
\<close>

section \<open>Definitions\<close>

text \<open>How one attempt ends: the constructor raises, the probe raises, or both succeed.\<close>

datatype attempt = CtorFails py_exc | ProbeFails py_exc | Works

definition model_names :: "string list" where
  "model_names = [''gemini-2.5-flash'', ''gemini-2.0-flash-001'', ''gemini-flash-latest'', ''gemini-2.0-flash'']"

text \<open>
  The \<open>for model_name in model_names\<close> loop over the current value of \<open>model\<close>: a failing
  constructor leaves \<open>model\<close> as it was, a failing probe leaves the new model assigned.
\<close>

fun select_model :: "(string \<Rightarrow> attempt) \<Rightarrow> string option \<Rightarrow> string list \<Rightarrow> string option \<times> msg list" where
  "select_model att m [] = (m, [])"
| "select_model att m (n # ns) =
     (case att n of
        CtorFails e \<Rightarrow> select_model att m ns
      | ProbeFails e \<Rightarrow> select_model att (Some n) ns
      | Works \<Rightarrow> (Some n, [UsingModel n]))"

text \<open>The specification's \<open>selectFirstAvailable(candidates, probe)\<close>.\<close>

definition select_first_available :: "(string \<Rightarrow> bool) \<Rightarrow> string list \<Rightarrow> string option" where
  "select_first_available probe cs = find probe cs"

text \<open>A model as \<open>genai.list_models()\<close> lists it.\<close>

record model_info =
  mi_name :: string
  mi_methods :: "string list"
  mi_description :: "string field"

definition supports_generate :: "model_info \<Rightarrow> bool" where
  "supports_generate m \<longleftrightarrow> ''generateContent'' \<in> set (mi_methods m)"

text \<open>
  After the loop: with no model, the models that support \<open>generateContent\<close> are listed
  and the process exits with status 1; listing may itself fail.  \<open>None\<close> in the result
  is the exit.
\<close>

definition choose_model ::
  "(string \<Rightarrow> attempt) \<Rightarrow> (py_exc + model_info list) \<Rightarrow> string option \<times> msg list" where
  "choose_model att listing =
     (case select_model att None model_names of
        (Some m, ms) \<Rightarrow> (Some m, ms)
      | (None, ms) \<Rightarrow>
          (case listing of
             Inl e \<Rightarrow> (None, ms @ [ListModelsFailed e])
           | Inr models \<Rightarrow>
               (None, ms @ [NoSuitableModel (map mi_name (filter supports_generate models))])))"

section \<open>Lemmas\<close>

lemma select_model_no_probe_failure:
  "(\<forall>n \<in> set ns. \<forall>e. att n \<noteq> ProbeFails e) \<Longrightarrow>
     fst (select_model att m ns) = (case find (\<lambda>n. att n = Works) ns of None \<Rightarrow> m | Some n \<Rightarrow> Some n)"
proof (induction ns arbitrary: m)
  case Nil
  then show ?case by simp
next
  case (Cons n ns)
  then show ?case by (cases "att n") auto
qed

lemma select_model_keeps_some:
  "m \<noteq> None \<Longrightarrow> fst (select_model att m ns) \<noteq> None"
  by (induction ns arbitrary: m) (auto split: attempt.splits)

section \<open>Properties\<close>

text \<open>
  C17.  Refinement: when no probe fails on its own (every attempt either fails to
  construct or works), the selection loop returns the specification's
  \<open>select_first_available\<close>: the first name that works, or no model.
\<close>

theorem select_model_refines_spec:
  assumes "\<forall>n \<in> set ns. \<forall>e. att n \<noteq> ProbeFails e"
  shows "fst (select_model att None ns) = select_first_available (\<lambda>n. att n = Works) ns"
  using select_model_no_probe_failure [OF assms, of None]
  by (simp add: select_first_available_def split: option.splits)

theorem select_model_refines_spec_witness:
  "fst (select_model (\<lambda>n. if n = ''gemini-2.0-flash-001'' then Works else CtorFails EOFError) None
     model_names) = Some ''gemini-2.0-flash-001''"
proof -
  let ?att = "\<lambda>n. if n = ''gemini-2.0-flash-001'' then Works else CtorFails EOFError"
  have "\<forall>n \<in> set model_names. \<forall>e. ?att n \<noteq> ProbeFails e"
    by (simp add: model_names_def)
  from select_model_refines_spec [OF this] show ?thesis
    by (simp add: select_first_available_def model_names_def)
qed

text \<open>
  C18.  A failing probe goes undetected: when no candidate works but some constructor
  succeeds and its probe fails, the loop still returns a model (the last one whose
  probe failed), where the specification's selection finds none and the code's own
  \<open>model is None\<close> test was meant to stop.
\<close>

theorem select_model_probe_failure_undetected:
  assumes "\<forall>n \<in> set ns. att n \<noteq> Works" and "cand \<in> set ns" and "att cand = ProbeFails e"
  shows "fst (select_model att None ns) \<noteq> None \<and> select_first_available (\<lambda>n. att n = Works) ns = None"
proof -
  have "fst (select_model att m ns) \<noteq> None" for m
    using assms
  proof (induction ns arbitrary: m)
    case Nil
    then show ?case by simp
  next
    case (Cons n ns)
    show ?case
    proof (cases "n = cand")
      case True
      with Cons.prems have "select_model att m (n # ns) = select_model att (Some n) ns"
        by simp
      then show ?thesis by (simp add: select_model_keeps_some)
    next
      case False
      with Cons.prems have "cand \<in> set ns" by simp
      with Cons.prems have ih: "\<And>m'. fst (select_model att m' ns) \<noteq> None"
        by (intro Cons.IH) simp_all
      from Cons.prems(1) have "att n \<noteq> Works" by simp
      with ih show ?thesis
        by (cases "att n") simp_all
    qed
  qed
  moreover have "find (\<lambda>n. att n = Works) ns = None"
    using assms(1) by (simp add: find_None_iff)
  ultimately show ?thesis by (simp add: select_first_available_def)
qed

theorem select_model_probe_failure_undetected_witness:
  "fst (select_model (\<lambda>_. ProbeFails (RemoteError ''model_name'')) None model_names) =
     Some ''gemini-2.0-flash'' \<and>
   select_first_available (\<lambda>n. ProbeFails (RemoteError ''model_name'') = Works) model_names = None"
proof -
  have "fst (select_model (\<lambda>_. ProbeFails (RemoteError ''model_name'')) None model_names) \<noteq> None \<and>
    select_first_available (\<lambda>n. ProbeFails (RemoteError ''model_name'') = Works) model_names = None"
    by (rule select_model_probe_failure_undetected [where cand = "''gemini-2.5-flash''"])
       (simp_all add: model_names_def)
  moreover have "fst (select_model (\<lambda>_. ProbeFails (RemoteError ''model_name'')) None model_names) =
     Some ''gemini-2.0-flash''"
    by (simp add: model_names_def)
  ultimately show ?thesis by simp
qed

end
