(* ===== verification/Prompt.thy ===== *)
theory Prompt
  imports Prelude
begin

text \<open>
  The prompt assembler.  The specification's \<open>assemble\<close> (section 4.4) renders a window
  of turns as \<open>User:\<close>/\<open>Assistant:\<close> line pairs.  The command-line chatbot
  (\<open>run_chatbot\<close> of \<open>src/chatbot.py\<close>) keeps its history as a flat list of
  rendered messages and takes the last four of them; the web application
  (\<open>chat_with_documents\<close> of \<open>src/app.py\<close>) keeps turns and renders the last three.
  The refinement lemmas show that both are \<open>assemble\<close> of a window of turns: two turns
  for the chatbot (as long as its history is made of whole turns, which \<open>Chat_Loop\<close>
  proves it is), three for the application.
\<close>

section \<open>Definitions\<close>

definition system_prompt :: string where
  "system_prompt = ''You are a helpful Q&A assistant for research papers. Answer questions based on the provided documents. Include citations to specific sources when possible.''"

text \<open>A turn of the conversation, \<open>{"question": q, "answer": a}\<close> in the application.\<close>

record turn =
  question :: string
  answer :: string

definition user_line :: "string \<Rightarrow> string" where
  "user_line q = ''User: '' @ q"

definition assistant_line :: "string \<Rightarrow> string" where
  "assistant_line a = ''Assistant: '' @ a"

definition turn_lines :: "turn \<Rightarrow> string list" where
  "turn_lines t = [user_line (question t), assistant_line (answer t)]"

definition prompt_with_context :: "string \<Rightarrow> string \<Rightarrow> string" where
  "prompt_with_context context q =
     system_prompt @ [newline, newline] @ ''Previous conversation:'' @ [newline] @ context @
     [newline, newline] @ ''Current question: '' @ q"

definition prompt_without_context :: "string \<Rightarrow> string" where
  "prompt_without_context q = system_prompt @ [newline, newline] @ ''Question: '' @ q"

subsection \<open>The specification\<close>

definition assemble :: "turn list \<Rightarrow> string \<Rightarrow> string" where
  "assemble window q =
     (if window = [] then prompt_without_context q
      else prompt_with_context (py_join [newline] (concat (map turn_lines window))) q)"

subsection \<open>The command-line chatbot\<close>

text \<open>\<open>"\n".join(history[-4:])\<close> over the flat message history.\<close>

definition cli_prompt :: "string list \<Rightarrow> string \<Rightarrow> string" where
  "cli_prompt history user_input =
     (if history \<noteq> [] then prompt_with_context (py_join [newline] (py_suffix 4 history)) user_input
      else prompt_without_context user_input)"

text \<open>The history update after an answer: the two messages of the turn.\<close>

definition cli_record_turn :: "string list \<Rightarrow> string \<Rightarrow> string \<Rightarrow> string list" where
  "cli_record_turn history user_input text =
     history @ [''User: '' @ user_input, ''Assistant: '' @ text]"

subsection \<open>The web application\<close>

text \<open>\<open>f"User: {h['question']}\nAssistant: {h['answer']}"\<close>.\<close>

definition render_turn :: "turn \<Rightarrow> string" where
  "render_turn h = ''User: '' @ question h @ [newline] @ ''Assistant: '' @ answer h"

definition app_context :: "turn list \<Rightarrow> string" where
  "app_context history = py_join [newline] (map render_turn (py_suffix 3 history))"

definition app_prompt :: "turn list \<Rightarrow> string \<Rightarrow> string" where
  "app_prompt history q =
     (if history \<noteq> [] then prompt_with_context (app_context history) q
      else prompt_without_context q)"

text \<open>The flat history that a list of whole turns corresponds to.\<close>

definition flat_history :: "turn list \<Rightarrow> string list" where
  "flat_history ts = concat (map turn_lines ts)"

section \<open>Lemmas\<close>

lemma length_turn_lines [simp]: "length (turn_lines t) = 2"
  by (simp add: turn_lines_def)

lemma length_flat_history: "length (flat_history ts) = 2 * length ts"
  by (induction ts) (auto simp: flat_history_def)

lemma flat_history_Nil_iff [simp]: "flat_history ts = [] \<longleftrightarrow> ts = []"
  by (cases ts) (auto simp: flat_history_def turn_lines_def)

lemma flat_history_snoc:
  "flat_history (ts @ [t]) = flat_history ts @ [user_line (question t), assistant_line (answer t)]"
  by (simp add: flat_history_def turn_lines_def)

lemma drop_concat_pairs:
  "(\<And>t. length (f t) = 2) \<Longrightarrow> drop (2 * k) (concat (map f ts)) = concat (map f (drop k ts))"
proof (induction ts arbitrary: k)
  case Nil
  then show ?case by simp
next
  case (Cons t ts)
  then show ?case
    by (cases k) simp_all
qed

text \<open>The last \<open>2 n\<close> messages of whole turns are the last \<open>n\<close> turns.\<close>

lemma py_suffix_flat_history:
  "0 < n \<Longrightarrow> py_suffix (2 * n) (flat_history ts) = flat_history (py_suffix n ts)"
  unfolding py_suffix_def flat_history_def
  using drop_concat_pairs [of turn_lines "length ts - n" ts]
  by (simp add: length_flat_history [unfolded flat_history_def] diff_mult_distrib2)

lemma py_suffix_Nil_iff: "0 < n \<Longrightarrow> py_suffix n xs = [] \<longleftrightarrow> xs = []"
  unfolding py_suffix_def by (cases xs) auto

lemma render_turn_join: "render_turn t = py_join [newline] (turn_lines t)"
  by (simp add: render_turn_def turn_lines_def user_line_def assistant_line_def)

lemma py_join_map_join:
  "(\<And>t. f t \<noteq> []) \<Longrightarrow>
     py_join sep (map (\<lambda>t. py_join sep (f t)) ts) = py_join sep (concat (map f ts))"
proof (induction ts)
  case Nil
  then show ?case by simp
next
  case (Cons t ts)
  show ?case
  proof (cases "ts = []")
    case True
    then show ?thesis by simp
  next
    case False
    then have "concat (map f ts) \<noteq> []"
      using Cons.prems by (cases ts) auto
    with Cons show ?thesis
      by (simp add: py_join_Cons py_join_append False)
  qed
qed

lemma app_context_spec:
  "app_context history = py_join [newline] (concat (map turn_lines (py_suffix 3 history)))"
  unfolding app_context_def render_turn_join
  by (rule py_join_map_join) (simp add: turn_lines_def)

lemma turn_lines_no_newline:
  "newline \<notin> set (question t) \<Longrightarrow> newline \<notin> set (answer t) \<Longrightarrow>
     \<forall>w \<in> set (turn_lines t). newline \<notin> set w"
  by (simp add: turn_lines_def user_line_def assistant_line_def)

lemma cli_prompt_window:
  "cli_prompt (flat_history ts) q = assemble (py_suffix 2 ts) q"
proof (cases "ts = []")
  case True
  then show ?thesis by (simp add: cli_prompt_def assemble_def py_suffix_def)
next
  case False
  have "py_suffix 4 (flat_history ts) = flat_history (py_suffix 2 ts)"
    using py_suffix_flat_history [of 2 ts] by simp
  with False show ?thesis
    by (simp add: cli_prompt_def assemble_def py_suffix_Nil_iff flat_history_def [symmetric])
qed

section \<open>Properties\<close>


text \<open>
  C2.  Refinement for the command-line chatbot: over a history of whole turns, the prompt
  built from the last four messages is \<open>assemble\<close> of the last two turns (not three or
  four turns).
\<close>

theorem cli_prompt_refines_assemble:
  "cli_prompt (flat_history ts) q = assemble (py_suffix 2 ts) q"
  by (rule cli_prompt_window)

text \<open>
  C3.  Refinement for the web application: its prompt is \<open>assemble\<close> of the last three
  turns of the history it is given.
\<close>

theorem app_prompt_refines_assemble:
  "app_prompt history q = assemble (py_suffix 3 history) q"
  by (simp add: app_prompt_def assemble_def py_suffix_Nil_iff app_context_spec)

text \<open>
  C4.  When no question or answer contains a newline, the application's context splits
  into exactly two lines per turn of the window, \<open>User:\<close> then \<open>Assistant:\<close>,
  oldest turn first, for \<open>min 3 k\<close> turns of a history of \<open>k\<close>.
\<close>

theorem app_context_lines:
  assumes "history \<noteq> []"
    and "\<forall>t \<in> set history. newline \<notin> set (question t) \<and> newline \<notin> set (answer t)"
  shows "py_split newline (app_context history) = concat (map turn_lines (py_suffix 3 history)) \<and>
         length (py_split newline (app_context history)) = 2 * min 3 (length history)"
proof -
  let ?w = "py_suffix 3 history"
  have sub: "set ?w \<subseteq> set history"
    by (simp add: py_suffix_def set_drop_subset)
  have "concat (map turn_lines ?w) \<noteq> []"
    using assms(1) by (simp add: py_suffix_Nil_iff flat_history_def [symmetric])
  moreover have "\<forall>l \<in> set (concat (map turn_lines ?w)). newline \<notin> set l"
    using assms(2) sub turn_lines_no_newline by fastforce
  ultimately have "py_split newline (app_context history) = concat (map turn_lines ?w)"
    by (simp add: app_context_spec py_split_join)
  moreover have "length (concat (map turn_lines ?w)) = 2 * min 3 (length history)"
    using length_flat_history [of ?w] length_py_suffix [of 3 history]
    by (simp add: flat_history_def)
  ultimately show ?thesis by simp
qed

theorem app_context_lines_witness:
  "py_split newline (app_context [\<lparr>question = ''What is X?'', answer = ''X is Y.''\<rparr>]) =
     [''User: What is X?'', ''Assistant: X is Y.''] \<and>
   length (py_split newline (app_context [\<lparr>question = ''What is X?'', answer = ''X is Y.''\<rparr>])) = 2"
  using app_context_lines [of "[\<lparr>question = ''What is X?'', answer = ''X is Y.''\<rparr>]"]
  by (simp add: py_suffix_def turn_lines_def user_line_def assistant_line_def)

end
