(* ===== verification/Citations.thy ===== *)
theory Citations
  imports Remote
begin

text \<open>
  The citation extractor: \<open>extract_citations\<close> of \<open>src/chatbot.py\<close> and its inlined copy
  in \<open>chat_with_documents\<close> of \<open>src/app.py\<close>.  Both walk the grounding attributions of
  the first candidate, take the title of each or else the last path segment of its URI,
  and format the de-duplicated labels after a prefix.  De-duplication is
  \<open>list(set(citations))\<close>, whose order is CPython's set iteration order; it is modelled
  by a parameter \<open>enum\<close>, on which the lemmas assume only that it lists the same
  labels once each (\<open>set_listing\<close>).
\<close>

section \<open>Definitions\<close>

text \<open>\<open>attr.uri.split('/')[-1]\<close>.\<close>

definition uri_source :: "string \<Rightarrow> string" where
  "uri_source u = last (py_split CHR ''/'' u)"

fun uri_citation :: "string field \<Rightarrow> string option" where
  "uri_citation (Val u) = (if u \<noteq> [] then Some (uri_source u) else None)"
| "uri_citation _ = None"

text \<open>One iteration of the loop: the title if truthy, else the URI's segment, else nothing.\<close>

fun title_or_uri :: "string field \<Rightarrow> string field \<Rightarrow> string option" where
  "title_or_uri (Val t) u = (if t \<noteq> [] then Some t else uri_citation u)"
| "title_or_uri _ u = uri_citation u"

definition citation_of :: "attribution \<Rightarrow> string option" where
  "citation_of a = title_or_uri (at_title a) (at_uri a)"

text \<open>The \<open>for attr in candidate.grounding_attributions\<close> loop.\<close>

fun collect_citations :: "attribution list \<Rightarrow> string list" where
  "collect_citations [] = []"
| "collect_citations (a # as) =
     (case citation_of a of None \<Rightarrow> collect_citations as | Some c \<Rightarrow> c # collect_citations as)"

text \<open>
  The labels of a response.  Iterating a \<open>grounding_attributions\<close> that is \<open>None\<close>
  raises \<open>TypeError\<close>, which the function does not catch.
\<close>

definition response_citations :: "response \<Rightarrow> py_exc + string list" where
  "response_citations r =
     (case candidates r of
        Val (c # _) \<Rightarrow>
          (case grounding_attributions c of
             Missing \<Rightarrow> Inr []
           | PyNone \<Rightarrow> Inl (TypeError ''NoneType object is not iterable'')
           | Val as \<Rightarrow> Inr (collect_citations as))
      | _ \<Rightarrow> Inr [])"

definition books_emoji :: string where
  "books_emoji = [CHR 0xF0, CHR 0x9F, CHR 0x93, CHR 0x9A]"

text \<open>\<open>"\n\<^emph>\<open>books\<close> Sources: "\<close> in the command-line chatbot.\<close>

definition cli_sources_prefix :: string where
  "cli_sources_prefix = [newline] @ books_emoji @ '' Sources: ''"

text \<open>\<open>"\n\n\<^emph>\<open>books\<close> **Sources:** "\<close> in the web application.\<close>

definition app_sources_prefix :: string where
  "app_sources_prefix = [newline, newline] @ books_emoji @ '' **Sources:** ''"

definition sources_block :: "(string list \<Rightarrow> string list) \<Rightarrow> string \<Rightarrow> string list \<Rightarrow> string" where
  "sources_block enum prefix cs = (if cs \<noteq> [] then prefix @ py_join '', '' (enum cs) else [])"

text \<open>\<open>extract_citations(response)\<close> of the command-line chatbot.\<close>

definition extract_citations :: "(string list \<Rightarrow> string list) \<Rightarrow> response \<Rightarrow> py_exc + string" where
  "extract_citations enum r =
     (case response_citations r of
        Inl e \<Rightarrow> Inl e
      | Inr cs \<Rightarrow> Inr (sources_block enum cli_sources_prefix cs))"

text \<open>The citation text of the web application's \<open>chat_with_documents\<close>.\<close>

definition app_citation_text :: "(string list \<Rightarrow> string list) \<Rightarrow> response \<Rightarrow> py_exc + string" where
  "app_citation_text enum r =
     (case response_citations r of
        Inl e \<Rightarrow> Inl e
      | Inr cs \<Rightarrow> Inr (sources_block enum app_sources_prefix cs))"

text \<open>What \<open>list(set(xs))\<close> guarantees: each element once, no other element.\<close>

definition set_listing :: "(string list \<Rightarrow> string list) \<Rightarrow> bool" where
  "set_listing enum \<longleftrightarrow> (\<forall>xs. distinct (enum xs) \<and> set (enum xs) = set xs)"

text \<open>The attributions of the example of the specification, section 8.\<close>

definition spec_example_response :: response where
  "spec_example_response =
     \<lparr>resp_text = Inr ''answer'',
      candidates = Val [\<lparr>grounding_attributions = Val
        [\<lparr>at_title = Val ''Paper A'', at_uri = Missing\<rparr>,
         \<lparr>at_title = Missing, at_uri = Val ''https://x/y/Paper A.pdf''\<rparr>,
         \<lparr>at_title = Val ''Paper A'', at_uri = Missing\<rparr>]\<rparr>]\<rparr>"

section \<open>Lemmas\<close>

lemma set_listing_remdups: "set_listing remdups"
  by (simp add: set_listing_def)

lemma set_listing_Nil: "set_listing enum \<Longrightarrow> enum [] = []"
  unfolding set_listing_def by (metis set_empty)

lemma uri_source_no_slash: "CHR ''/'' \<notin> set (uri_source u)"
  unfolding uri_source_def
  by (rule py_split_no_sep [of _ _ u]) simp

text \<open>The segment is what follows the last slash: the URI is a prefix joined to it.\<close>

lemma uri_source_suffix: "\<exists>p. u = p @ uri_source u \<and> (p = [] \<or> last p = CHR ''/'')"
proof -
  obtain ws w where split: "py_split CHR ''/'' u = ws @ [w]"
    using py_split_not_Nil by (metis rev_exhaust)
  have "u = py_join ''/'' (ws @ [w])"
    using py_join_split [of "CHR ''/''" u] split by simp
  also have "\<dots> = (if ws = [] then [] else py_join ''/'' ws @ ''/'') @ w"
    by (simp add: py_join_snoc)
  finally have "u = (if ws = [] then [] else py_join ''/'' ws @ ''/'') @ uri_source u"
    using split by (simp add: uri_source_def)
  moreover have "(if ws = [] then [] else py_join ''/'' ws @ ''/'') = [] \<or>
      last (if ws = [] then [] else py_join ''/'' ws @ ''/'') = CHR ''/''"
    by simp
  ultimately show ?thesis by blast
qed

lemma uri_source_no_slash_id: "CHR ''/'' \<notin> set u \<Longrightarrow> uri_source u = u"
  by (simp add: uri_source_def py_split_no_sep_id)

lemma citation_of_cases:
  "citation_of a = Some c \<Longrightarrow>
     at_title a = Val c \<and> c \<noteq> [] \<or>
     (\<exists>u. at_uri a = Val u \<and> u \<noteq> [] \<and> c = uri_source u \<and> \<not> truthy_str (at_title a))"
  unfolding citation_of_def
  by (cases "at_title a"; cases "at_uri a") (auto split: if_splits)

lemma set_collect_citations:
  "set (collect_citations as) = {c. \<exists>a \<in> set as. citation_of a = Some c}"
  by (induction as) (auto split: option.splits)

lemma collect_citations_Nil_iff:
  "collect_citations as = [] \<longleftrightarrow> (\<forall>a \<in> set as. citation_of a = None)"
  by (induction as) (auto split: option.splits)

lemma sources_block_listing:
  assumes "set_listing enum" "cs \<noteq> []"
  shows "sources_block enum prefix cs = prefix @ py_join '', '' (enum cs) \<and>
         distinct (enum cs) \<and> set (enum cs) = set cs"
  using assms by (simp add: sources_block_def set_listing_def)

lemma cli_sources_prefix_not_Nil [simp]: "cli_sources_prefix \<noteq> []"
  by (simp add: cli_sources_prefix_def)

lemma sources_block_Nil_iff: "prefix \<noteq> [] \<Longrightarrow> sources_block enum prefix cs = [] \<longleftrightarrow> cs = []"
  by (simp add: sources_block_def)

lemma spec_example_citations:
  "response_citations spec_example_response = Inr [''Paper A'', ''Paper A.pdf'', ''Paper A'']"
  by (simp add: spec_example_response_def response_citations_def citation_of_def uri_source_def)

section \<open>Properties\<close>

text \<open>
  C5.  The extractor returns the empty string exactly when the first candidate carries
  no attribution with a title or a URI (or there is no candidate, or its attributions
  are missing); it fails instead of returning when the attributions are \<open>None\<close>.
\<close>

theorem extract_citations_empty_iff:
  "extract_citations enum r = Inr [] \<longleftrightarrow>
     (case candidates r of
        Val (c # _) \<Rightarrow>
          (case grounding_attributions c of
             Missing \<Rightarrow> True
           | PyNone \<Rightarrow> False
           | Val as \<Rightarrow> (\<forall>a \<in> set as. citation_of a = None))
      | _ \<Rightarrow> True)"
  by (auto simp: extract_citations_def response_citations_def sources_block_Nil_iff
      collect_citations_Nil_iff split: field.splits list.splits)

theorem extract_citations_empty_iff_witness:
  "extract_citations remdups
     \<lparr>resp_text = Inr ''a'', candidates = Val [\<lparr>grounding_attributions =
        Val [\<lparr>at_title = Val [], at_uri = PyNone\<rparr>]\<rparr>]\<rparr> = Inr []"
  using extract_citations_empty_iff [of remdups
     "\<lparr>resp_text = Inr ''a'', candidates = Val [\<lparr>grounding_attributions =
        Val [\<lparr>at_title = Val [], at_uri = PyNone\<rparr>]\<rparr>]\<rparr>"]
  by (simp add: citation_of_def)

text \<open>
  C6.  When the response yields labels, the extractor returns the prefix
  \<open>"\n\<^emph>\<open>books\<close> Sources: "\<close> followed by the labels joined with \<open>", "\<close>, each
  label exactly once and no other, in whatever order the set gives them.
\<close>

theorem extract_citations_listing:
  assumes "set_listing enum" and "response_citations r = Inr cs" and "cs \<noteq> []"
  shows "\<exists>us. extract_citations enum r = Inr (cli_sources_prefix @ py_join '', '' us) \<and>
             distinct us \<and> set us = set cs"
  using assms sources_block_listing [OF assms(1,3)]
  by (auto simp: extract_citations_def)

theorem extract_citations_listing_witness:
  "\<exists>us. extract_citations remdups spec_example_response =
      Inr (cli_sources_prefix @ py_join '', '' us) \<and> distinct us \<and>
      set us = set [''Paper A'', ''Paper A.pdf'', ''Paper A'']"
  by (rule extract_citations_listing [OF set_listing_remdups spec_example_citations]) simp

text \<open>
  C8.  Every label comes from an attribution of the first candidate, in one of two ways.
  It is the attribution's non-empty title.  Or the title is not truthy, the URI is
  non-empty, and the label is the segment after the URI's last slash: the URI is a prefix
  that is empty or ends in a slash, followed by the label, which holds no slash.
\<close>

theorem citation_label_provenance:
  assumes "response_citations r = Inr cs" and "l \<in> set cs"
  shows "\<exists>c rest as a. candidates r = Val (c # rest) \<and> grounding_attributions c = Val as \<and>
           a \<in> set as \<and>
           (at_title a = Val l \<and> l \<noteq> [] \<or>
            \<not> truthy_str (at_title a) \<and>
            (\<exists>u p. at_uri a = Val u \<and> u \<noteq> [] \<and> u = p @ l \<and> (p = [] \<or> last p = CHR ''/'') \<and>
                   CHR ''/'' \<notin> set l))"
proof -
  obtain c rest as where cand: "candidates r = Val (c # rest)"
    and ga: "grounding_attributions c = Val as" and cs: "cs = collect_citations as"
    using assms
    by (auto simp: response_citations_def split: field.splits list.splits)
  with assms obtain a where a: "a \<in> set as" and lab: "citation_of a = Some l"
    by (auto simp: set_collect_citations)
  have "at_title a = Val l \<and> l \<noteq> [] \<or>
        \<not> truthy_str (at_title a) \<and>
        (\<exists>u p. at_uri a = Val u \<and> u \<noteq> [] \<and> u = p @ l \<and> (p = [] \<or> last p = CHR ''/'') \<and>
               CHR ''/'' \<notin> set l)"
  proof (cases "at_title a = Val l \<and> l \<noteq> []")
    case True
    then show ?thesis by (rule disjI1)
  next
    case False
    with citation_of_cases [OF lab] obtain u where
      u: "at_uri a = Val u" "u \<noteq> []" "l = uri_source u" "\<not> truthy_str (at_title a)"
      by blast
    from uri_source_suffix [of u] u(3) obtain p where p: "u = p @ l" "p = [] \<or> last p = CHR ''/''"
      by blast
    have slash: "CHR ''/'' \<notin> set l"
      using uri_source_no_slash [of u] u(3) by simp
    have "\<exists>u' p'. at_uri a = Val u' \<and> u' \<noteq> [] \<and> u' = p' @ l \<and> (p' = [] \<or> last p' = CHR ''/'') \<and>
        CHR ''/'' \<notin> set l"
      by (rule exI [of _ u], rule exI [of _ p]) (use u(2) in \<open>simp add: u(1) p slash\<close>)
    with u(4) show ?thesis by (intro disjI2 conjI)
  qed
  from cand ga a this show ?thesis
    by (intro exI conjI) assumption+
qed

theorem citation_label_provenance_witness:
  "\<exists>c rest as a. candidates spec_example_response = Val (c # rest) \<and>
      grounding_attributions c = Val as \<and> a \<in> set as \<and>
      (at_title a = Val ''Paper A.pdf'' \<and> ''Paper A.pdf'' \<noteq> [] \<or>
       \<not> truthy_str (at_title a) \<and>
       (\<exists>u p. at_uri a = Val u \<and> u \<noteq> [] \<and> u = p @ ''Paper A.pdf'' \<and>
              (p = [] \<or> last p = CHR ''/'') \<and> CHR ''/'' \<notin> set ''Paper A.pdf''))"
  by (rule citation_label_provenance [OF spec_example_citations]) simp

end
