(* ===== verification/Chat_Loop.thy ===== *)
theory Chat_Loop
  imports Prompt Citations
begin

text \<open>
  The interactive loop of the command-line chatbot, \<open>while True\<close> in \<open>run_chatbot\<close> of
  \<open>src/chatbot.py\<close> (lines 123 to 166).  Each iteration reads a line with \<open>input()\<close>;
  an exit keyword leaves the loop; an empty line is skipped; otherwise the prompt is built
  from the history, sent with the files, and the answer printed, with its citations, and
  recorded in the history.  Every exception inside the iteration is caught and printed,
  the loop goes on.  That includes \<open>EOFError\<close>, which \<open>input()\<close> raises at the end of
  the input: there the loop prints the error and reads again, for ever.  The loop is
  therefore a \<open>partial_function (option)\<close>, whose \<open>None\<close> is this non-termination.
\<close>

section \<open>Definitions\<close>

record 's chat_state =
  history :: "string list"
  remote :: 's
  inputs :: "string list"
  out :: "msg list"

definition exit_words :: "string list" where
  "exit_words = [''quit'', ''exit'', ''q'']"

text \<open>\<open>user_input.lower() in ['quit', 'exit', 'q']\<close> on the stripped line.\<close>

definition is_exit_command :: "string \<Rightarrow> bool" where
  "is_exit_command line \<longleftrightarrow> py_lower (py_strip line) \<in> set exit_words"

text \<open>Lines 151 to 163: what the answer (or the exception of the call) does to the state.\<close>

definition chat_answer ::
  "(string list \<Rightarrow> string list) \<Rightarrow> string \<Rightarrow> py_exc + response \<Rightarrow> 's chat_state \<Rightarrow> 's chat_state" where
  "chat_answer enum ui r st =
     (case r of
        Inl e \<Rightarrow> st\<lparr>out := out st @ [ErrorLine e]\<rparr>
      | Inr resp \<Rightarrow>
          (case resp_text resp of
             Inl e \<Rightarrow> st\<lparr>out := out st @ [ErrorLine e]\<rparr>
           | Inr txt \<Rightarrow>
               (if txt \<noteq> [] then
                  (case extract_citations enum resp of
                     Inl e \<Rightarrow> st\<lparr>out := out st @ [AnswerIs txt, ErrorLine e]\<rparr>
                   | Inr c \<Rightarrow>
                       st\<lparr>out := out st @ [AnswerIs txt] @ (if c \<noteq> [] then [CitationsLine c] else []),
                          history := cli_record_turn (history st) ui txt\<rparr>)
                else st\<lparr>out := out st @ [NoResponse]\<rparr>)))"

text \<open>One iteration: \<open>Inl\<close> leaves the loop (\<open>break\<close>), \<open>Inr\<close> goes on.\<close>

definition chat_step ::
  "'s remote_api \<Rightarrow> (string list \<Rightarrow> string list) \<Rightarrow> file_handle list \<Rightarrow> 's chat_state \<Rightarrow>
     's chat_state + 's chat_state" where
  "chat_step api enum files st =
     (case inputs st of
        [] \<Rightarrow> Inr (st\<lparr>out := out st @ [ErrorLine EOFError]\<rparr>)
      | line # rest \<Rightarrow>
          (let ui = py_strip line in
           if is_exit_command line then Inl (st\<lparr>inputs := rest, out := out st @ [Goodbye]\<rparr>)
           else if ui = [] then Inr (st\<lparr>inputs := rest\<rparr>)
           else
             (case generate_content api (remote st) (cli_prompt (history st) ui) files of
                (r, s') \<Rightarrow>
                  Inr (chat_answer enum ui r
                         (st\<lparr>inputs := rest, remote := s', out := out st @ [Thinking]\<rparr>)))))"

partial_function (option) chat_loop ::
  "'s remote_api \<Rightarrow> (string list \<Rightarrow> string list) \<Rightarrow> file_handle list \<Rightarrow> 's chat_state \<Rightarrow>
     's chat_state option" where
  "chat_loop api enum files st =
     (case chat_step api enum files st of
        Inl st' \<Rightarrow> Some st'
      | Inr st' \<Rightarrow> chat_loop api enum files st')"

text \<open>The input of the concrete runs below: a question, an empty line, and \<open>QUIT\<close>.\<close>

definition sample_session :: "sim_state chat_state" where
  "sample_session =
     \<lparr>history = [],
      remote = \<lparr>sim_files = [], sim_reject = [],
                sim_replies = [Inr \<lparr>resp_text = Inr ''X is Y.'', candidates = Missing\<rparr>],
                sim_prompts = []\<rparr>,
      inputs = [''  What is X? '', [], ''QUIT''], out = []\<rparr>"

section \<open>Lemmas\<close>

lemma chat_answer_frame:
  "inputs (chat_answer enum ui r st) = inputs st"
  "remote (chat_answer enum ui r st) = remote st"
  by (simp_all add: chat_answer_def split: sum.splits if_splits)

lemma chat_answer_history:
  "history (chat_answer enum ui r st) = history st \<or>
   (\<exists>txt. history (chat_answer enum ui r st) = cli_record_turn (history st) ui txt)"
  by (auto simp: chat_answer_def split: sum.splits if_splits)

lemma chat_step_Inl:
  "chat_step api enum files st = Inl st' \<Longrightarrow> \<exists>l rest. inputs st = l # rest \<and> is_exit_command l"
  by (auto simp: chat_step_def Let_def split: list.splits if_splits prod.splits)

lemma chat_step_Inr:
  "chat_step api enum files st = Inr st' \<Longrightarrow>
     (inputs st = [] \<and> inputs st' = []) \<or>
     (\<exists>l. inputs st = l # inputs st' \<and> \<not> is_exit_command l)"
  by (auto simp: chat_step_def Let_def chat_answer_frame split: list.splits if_splits prod.splits)

lemma chat_step_exit:
  "inputs st = l # rest \<Longrightarrow> is_exit_command l \<Longrightarrow> \<exists>st'. chat_step api enum files st = Inl st'"
  by (simp add: chat_step_def)

lemma chat_step_go_on:
  "inputs st = l # rest \<Longrightarrow> \<not> is_exit_command l \<Longrightarrow>
     \<exists>st'. chat_step api enum files st = Inr st' \<and> inputs st' = rest"
  by (auto simp: chat_step_def Let_def chat_answer_frame split: prod.splits)

lemma cli_record_turn_flat:
  "cli_record_turn (flat_history ts) ui txt = flat_history (ts @ [\<lparr>question = ui, answer = txt\<rparr>])"
  by (simp add: cli_record_turn_def flat_history_snoc user_line_def assistant_line_def)

lemma chat_step_history:
  assumes "chat_step api enum files st = r" and "history st = flat_history ts"
  shows "\<exists>ts'. history (case r of Inl st' \<Rightarrow> st' | Inr st' \<Rightarrow> st') = flat_history (ts @ ts')"
proof -
  have whole: "\<exists>ts'. history (chat_answer enum ui x st1) = flat_history (ts @ ts')"
    if "history st1 = flat_history ts" for ui x and st1 :: "'a chat_state"
    using chat_answer_history [of enum ui x st1] that cli_record_turn_flat
    by (metis append.right_neutral)
  show ?thesis
    using assms whole
    by (fastforce simp: chat_step_def Let_def split: list.splits if_splits prod.splits
        intro: exI [of _ "[]"])
qed

text \<open>Enough input: an exit keyword somewhere in it makes the loop return.\<close>

lemma chat_loop_returns:
  "\<exists>l \<in> set (inputs st). is_exit_command l \<Longrightarrow> \<exists>st'. chat_loop api enum files st = Some st'"
proof (induction "inputs st" arbitrary: st)
  case Nil
  then show ?case by simp
next
  case (Cons l rest)
  show ?case
  proof (cases "is_exit_command l")
    case True
    then obtain st' where "chat_step api enum files st = Inl st'"
      using chat_step_exit [OF Cons.hyps(2) [symmetric]] by blast
    then show ?thesis by (simp add: chat_loop.simps)
  next
    case False
    then obtain st' where step: "chat_step api enum files st = Inr st'" and rest: "inputs st' = rest"
      using chat_step_go_on [OF Cons.hyps(2) [symmetric]] by blast
    from Cons.prems False Cons.hyps(2) rest have "\<exists>l \<in> set (inputs st'). is_exit_command l"
      by (metis set_ConsD)
    with Cons.hyps(1) rest obtain st'' where "chat_loop api enum files st' = Some st''"
      by blast
    with step show ?thesis by (simp add: chat_loop.simps)
  qed
qed

text \<open>A loop that returns has met an exit keyword.\<close>

lemma chat_loop_Some_exit:
  assumes "chat_loop api enum files st = Some st'"
  shows "\<exists>l \<in> set (inputs st). is_exit_command l"
proof (rule chat_loop.raw_induct [where P = "\<lambda>api enum files st r. \<exists>l \<in> set (inputs st). is_exit_command l", OF _ assms])
  fix f :: "'a remote_api \<Rightarrow> (string list \<Rightarrow> string list) \<Rightarrow> file_handle list \<Rightarrow> 'a chat_state \<Rightarrow> 'a chat_state option"
    and api enum files st r
  assume IH: "\<And>api enum files st r. f api enum files st = Some r \<Longrightarrow> \<exists>l \<in> set (inputs st). is_exit_command l"
    and body: "(case chat_step api enum files st of Inl st' \<Rightarrow> Some st' | Inr st' \<Rightarrow> f api enum files st') = Some r"
  show "\<exists>l \<in> set (inputs st). is_exit_command l"
  proof (cases "chat_step api enum files st")
    case (Inl st')
    then show ?thesis using chat_step_Inl by fastforce
  next
    case (Inr st')
    with body have "f api enum files st' = Some r" by simp
    then have "\<exists>l \<in> set (inputs st'). is_exit_command l" by (rule IH)
    with chat_step_Inr [OF Inr] show ?thesis by auto
  qed
qed

lemma chat_loop_history:
  assumes "chat_loop api enum files st = Some st'"
  shows "\<forall>ts. history st = flat_history ts \<longrightarrow> (\<exists>ts'. history st' = flat_history (ts @ ts'))"
proof (rule chat_loop.raw_induct [where P = "\<lambda>api enum files st r. \<forall>ts. history st = flat_history ts \<longrightarrow>
    (\<exists>ts'. history r = flat_history (ts @ ts'))", OF _ assms])
  fix f :: "'a remote_api \<Rightarrow> (string list \<Rightarrow> string list) \<Rightarrow> file_handle list \<Rightarrow> 'a chat_state \<Rightarrow> 'a chat_state option"
    and api enum files st r
  assume IH: "\<And>api enum files st r. f api enum files st = Some r \<Longrightarrow>
      \<forall>ts. history st = flat_history ts \<longrightarrow> (\<exists>ts'. history r = flat_history (ts @ ts'))"
    and body: "(case chat_step api enum files st of Inl st' \<Rightarrow> Some st' | Inr st' \<Rightarrow> f api enum files st') = Some r"
  show "\<forall>ts. history st = flat_history ts \<longrightarrow> (\<exists>ts'. history r = flat_history (ts @ ts'))"
  proof (intro allI impI)
    fix ts
    assume h: "history st = flat_history ts"
    show "\<exists>ts'. history r = flat_history (ts @ ts')"
    proof (cases "chat_step api enum files st")
      case (Inl st')
      with body have "r = st'" by simp
      with chat_step_history [OF Inl h] show ?thesis by simp
    next
      case (Inr st')
      with body have f: "f api enum files st' = Some r" by simp
      from chat_step_history [OF Inr h] obtain ts1 where "history st' = flat_history (ts @ ts1)"
        by auto
      with IH [OF f] obtain ts2 where "history r = flat_history ((ts @ ts1) @ ts2)" by blast
      then show ?thesis by auto
    qed
  qed
qed

text \<open>Every iteration only appends to what has been printed; leaving the loop prints the farewell.\<close>

lemma chat_answer_out: "\<exists>ms. out (chat_answer enum ui r st) = out st @ ms"
  by (auto simp: chat_answer_def split: sum.splits if_splits)

lemma chat_step_out_Inl:
  "chat_step api enum files st = Inl st' \<Longrightarrow> out st' = out st @ [Goodbye]"
  by (auto simp: chat_step_def Let_def split: list.splits if_splits prod.splits)

lemma chat_step_out_Inr:
  assumes "chat_step api enum files st = Inr st'"
  shows "\<exists>ms. out st' = out st @ ms"
proof -
  have ans: "\<exists>ms. out (chat_answer enum ui r (st\<lparr>inputs := rest, remote := s', out := out st @ [Thinking]\<rparr>)) =
      out st @ ms" for ui r rest s'
    using chat_answer_out [of enum ui r "st\<lparr>inputs := rest, remote := s', out := out st @ [Thinking]\<rparr>"]
    by (metis append.assoc chat_state.select_convs(4) chat_state.surjective chat_state.update_convs(4))
  show ?thesis
    using assms ans by (auto simp: chat_step_def Let_def split: list.splits if_splits prod.splits)
qed

lemma chat_loop_out:
  assumes "chat_loop api enum files st = Some st'"
  shows "\<exists>ms. out st' = out st @ ms @ [Goodbye]"
proof (rule chat_loop.raw_induct [where P = "\<lambda>api enum files st r. \<exists>ms. out r = out st @ ms @ [Goodbye]",
      OF _ assms])
  fix f :: "'a remote_api \<Rightarrow> (string list \<Rightarrow> string list) \<Rightarrow> file_handle list \<Rightarrow> 'a chat_state \<Rightarrow> 'a chat_state option"
    and api enum files st r
  assume IH: "\<And>api enum files st r. f api enum files st = Some r \<Longrightarrow> \<exists>ms. out r = out st @ ms @ [Goodbye]"
    and body: "(case chat_step api enum files st of Inl st' \<Rightarrow> Some st' | Inr st' \<Rightarrow> f api enum files st') = Some r"
  show "\<exists>ms. out r = out st @ ms @ [Goodbye]"
  proof (cases "chat_step api enum files st")
    case (Inl st')
    with body chat_step_out_Inl [OF Inl] show ?thesis by auto
  next
    case (Inr st')
    with body have "f api enum files st' = Some r" by simp
    from IH [OF this] chat_step_out_Inr [OF Inr] show ?thesis by auto
  qed
qed

text \<open>Under the contract, the loop changes no file the service resolves.\<close>

lemma chat_step_get_file:
  assumes "remote_contract api"
  shows "get_file api (remote (case chat_step api enum files st of Inl st' \<Rightarrow> st' | Inr st' \<Rightarrow> st')) =
         get_file api (remote st)"
  using contract_generate_get [OF assms]
  by (auto simp: chat_step_def Let_def chat_answer_frame split: list.splits if_splits prod.splits)

lemma chat_loop_get_file:
  assumes "remote_contract api" and "chat_loop api enum files st = Some st'"
  shows "get_file api (remote st') = get_file api (remote st)"
proof -
  have "remote_contract api \<longrightarrow> get_file api (remote st') = get_file api (remote st)"
  proof (rule chat_loop.raw_induct [where P = "\<lambda>api enum files st r. remote_contract api \<longrightarrow>
      get_file api (remote r) = get_file api (remote st)", OF _ assms(2)])
    fix f :: "'a remote_api \<Rightarrow> (string list \<Rightarrow> string list) \<Rightarrow> file_handle list \<Rightarrow> 'a chat_state \<Rightarrow> 'a chat_state option"
      and api enum files st r
    assume IH: "\<And>api enum files st r. f api enum files st = Some r \<Longrightarrow>
        remote_contract api \<longrightarrow> get_file api (remote r) = get_file api (remote st)"
      and body: "(case chat_step api enum files st of Inl st' \<Rightarrow> Some st' | Inr st' \<Rightarrow> f api enum files st') = Some r"
    show "remote_contract api \<longrightarrow> get_file api (remote r) = get_file api (remote st)"
    proof
      assume c: "remote_contract api"
      show "get_file api (remote r) = get_file api (remote st)"
      proof (cases "chat_step api enum files st")
        case (Inl st')
        with body chat_step_get_file [OF c, of enum files st] show ?thesis by simp
      next
        case (Inr st')
        with body have "f api enum files st' = Some r" by simp
        with IH c have "get_file api (remote r) = get_file api (remote st')" by blast
        with Inr chat_step_get_file [OF c, of enum files st] show ?thesis by simp
      qed
    qed
  qed
  with assms(1) show ?thesis by blast
qed

section \<open>Properties\<close>

text \<open>
  C20.  The chat loop returns exactly when its input holds a line that is an exit keyword
  (\<open>quit\<close>, \<open>exit\<close> or \<open>q\<close>, in any case, around any spaces).
\<close>

theorem chat_loop_terminates_iff:
  "(\<exists>st'. chat_loop api enum files st = Some st') \<longleftrightarrow> (\<exists>l \<in> set (inputs st). is_exit_command l)"
  using chat_loop_returns chat_loop_Some_exit by metis

theorem chat_loop_terminates_iff_witness:
  "(\<exists>st'. chat_loop sim_api remdups [] sample_session = Some st') \<and>
   (\<exists>l \<in> set (inputs sample_session). is_exit_command l)"
proof -
  have "is_exit_command ''QUIT''" by code_simp
  then have "\<exists>l \<in> set (inputs sample_session). is_exit_command l"
    by (simp add: sample_session_def)
  with chat_loop_terminates_iff [of sim_api remdups "[]" sample_session] show ?thesis by simp
qed

text \<open>
  C21.  The chatbot's flat history always holds whole turns: a run of the loop from a
  history of turns \<open>ts\<close> ends with the history of \<open>ts\<close> followed by further turns,
  each a \<open>User:\<close> line followed by an \<open>Assistant:\<close> line.
\<close>

theorem chat_loop_history_whole_turns:
  assumes "chat_loop api enum files st = Some st'" and "history st = flat_history ts"
  shows "\<exists>ts'. history st' = flat_history (ts @ ts')"
  using chat_loop_history [OF assms(1)] assms(2) by blast

theorem chat_loop_history_whole_turns_witness:
  "\<exists>st'. chat_loop sim_api remdups [] sample_session = Some st' \<and>
     (\<exists>ts'. history st' = flat_history ([] @ ts'))"
proof -
  have "is_exit_command ''QUIT''" by code_simp
  then obtain st' where run: "chat_loop sim_api remdups [] sample_session = Some st'"
    using chat_loop_returns [of sample_session sim_api remdups "[]"]
    by (auto simp: sample_session_def)
  have "history sample_session = flat_history []"
    by (simp add: sample_session_def flat_history_def)
  from chat_loop_history_whole_turns [OF run this] run show ?thesis by blast
qed

text \<open>
  C22.  When the answer is printed but extracting its citations raises (attributions that
  are \<open>None\<close>), the error is printed after the answer and the turn is not recorded:
  later prompts leave out a question and answer the user has seen.
\<close>

theorem chat_answer_citation_error_drops_turn:
  assumes "resp_text resp = Inr txt" and "txt \<noteq> []"
    and "candidates resp = Val (c # cs)" and "grounding_attributions c = PyNone"
  shows "chat_answer enum ui (Inr resp) st =
           st\<lparr>out := out st @ [AnswerIs txt, ErrorLine (TypeError ''NoneType object is not iterable'')]\<rparr> \<and>
         history (chat_answer enum ui (Inr resp) st) = history st"
  using assms by (simp add: chat_answer_def extract_citations_def response_citations_def)

theorem chat_answer_citation_error_drops_turn_witness:
  "chat_answer remdups ''q'' (Inr \<lparr>resp_text = Inr ''A'', candidates = Val [\<lparr>grounding_attributions = PyNone\<rparr>]\<rparr>)
     sample_session =
   sample_session\<lparr>out := out sample_session @
     [AnswerIs ''A'', ErrorLine (TypeError ''NoneType object is not iterable'')]\<rparr> \<and>
   history (chat_answer remdups ''q''
     (Inr \<lparr>resp_text = Inr ''A'', candidates = Val [\<lparr>grounding_attributions = PyNone\<rparr>]\<rparr>)
     sample_session) = history sample_session"
  by (rule chat_answer_citation_error_drops_turn [where c = "\<lparr>grounding_attributions = PyNone\<rparr>" and cs = "[]"])
     simp_all

end
