(* ===== verification/Chatbot.thy ===== *)
theory Chatbot
  imports Store Model_Select Chat_Loop
begin

text \<open>
  \<open>run_chatbot()\<close> of \<open>src/chatbot.py\<close> composed from its parts: load the store
  (\<open>cli_load_store\<close>), choose a model (\<open>choose_model\<close>), then run the chat loop
  (\<open>chat_loop\<close>) with an empty history over the input lines.  The result is the exit
  status, everything printed and the final state of the service, or \<open>None\<close> when the
  chat loop never returns.  The chosen model name is not passed on: the service interface
  stands for the model.
\<close>

definition run_chatbot ::
  "'s remote_api \<Rightarrow> (string list \<Rightarrow> string list) \<Rightarrow> (string \<Rightarrow> attempt) \<Rightarrow> py_exc + model_info list \<Rightarrow>
     string \<Rightarrow> 's \<Rightarrow> fsys \<Rightarrow> string list \<Rightarrow> (nat \<times> msg list \<times> 's) option" where
  "run_chatbot api enum att listing sid s fs lines =
     (case cli_load_store api s fs sid of
        (Inl err, ms) \<Rightarrow> Some (1, Connected # ms, s)
      | (Inr files, ms) \<Rightarrow>
          (case choose_model att listing of
             (None, ms2) \<Rightarrow> Some (1, Connected # ms @ ms2, s)
           | (Some m, ms2) \<Rightarrow>
               map_option (\<lambda>st'. (0, Connected # ms @ ms2 @ out st', remote st'))
                 (chat_loop api enum files \<lparr>history = [], remote = s, inputs = lines, out = []\<rparr>)))"

text \<open>The state the chat loop starts from, after the store and the model.\<close>

definition chat_start :: "'s \<Rightarrow> string list \<Rightarrow> 's chat_state" where
  "chat_start s lines = \<lparr>history = [], remote = s, inputs = lines, out = []\<rparr>"

text \<open>The store of the example runs: one file, known to the service of \<open>one_stored\<close>.\<close>

definition one_file_fs :: fsys where
  "one_file_fs = [store_file_name ''id1'' \<mapsto> JsonFile (store_doc
     \<lparr>store_id = ''id1'', store_name = ''n'', store_files = [''files/a'']\<rparr>)]"

section \<open>Lemmas\<close>

lemma run_chatbot_cases:
  obtains (load_failed) e ms where "cli_load_store api s fs sid = (Inl e, ms)"
      and "run_chatbot api enum att listing sid s fs lines = Some (1, Connected # ms, s)"
  | (no_model) files ms ms2 where "cli_load_store api s fs sid = (Inr files, ms)"
      and "choose_model att listing = (None, ms2)"
      and "run_chatbot api enum att listing sid s fs lines = Some (1, Connected # ms @ ms2, s)"
  | (chat) files ms m ms2 where "cli_load_store api s fs sid = (Inr files, ms)"
      and "choose_model att listing = (Some m, ms2)"
      and "run_chatbot api enum att listing sid s fs lines =
             map_option (\<lambda>st'. (0, Connected # ms @ ms2 @ out st', remote st'))
               (chat_loop api enum files (chat_start s lines))"
proof -
  obtain res ms where ld: "cli_load_store api s fs sid = (res, ms)"
    by (metis prod.exhaust)
  show thesis
  proof (cases res)
    case (Inl e)
    with ld that(1) show ?thesis by (simp add: run_chatbot_def)
  next
    case (Inr files)
    obtain mo ms2 where ch: "choose_model att listing = (mo, ms2)"
      by (metis prod.exhaust)
    show ?thesis
    proof (cases mo)
      case None
      with ld Inr ch that(2) show ?thesis by (simp add: run_chatbot_def)
    next
      case (Some m)
      with ld Inr ch that(3) show ?thesis by (simp add: run_chatbot_def chat_start_def)
    qed
  qed
qed

lemma chat_start_inputs [simp]: "inputs (chat_start s lines) = lines"
  by (simp add: chat_start_def)

section \<open>Properties\<close>

text \<open>
  C27.  The chatbot returns (exits) exactly when the store fails to load, or no model can
  be chosen, or a line of the input is an exit keyword; otherwise it runs for ever.
\<close>

theorem run_chatbot_returns_iff:
  "(\<exists>r. run_chatbot api enum att listing sid s fs lines = Some r) \<longleftrightarrow>
     (\<exists>e. fst (cli_load_store api s fs sid) = Inl e) \<or> fst (choose_model att listing) = None \<or>
     (\<exists>l \<in> set lines. is_exit_command l)"
proof (cases rule: run_chatbot_cases [of api s fs sid enum att listing lines])
  case (load_failed e ms)
  then show ?thesis by simp
next
  case (no_model files ms ms2)
  then show ?thesis by simp
next
  case (chat files ms m ms2)
  have "(\<exists>st'. chat_loop api enum files (chat_start s lines) = Some st') \<longleftrightarrow>
      (\<exists>l \<in> set lines. is_exit_command l)"
    using chat_loop_returns [of "chat_start s lines" api enum files] chat_loop_Some_exit [of api enum files "chat_start s lines"]
    by auto
  with chat show ?thesis by auto
qed

theorem run_chatbot_returns_iff_witness:
  "(\<exists>r. run_chatbot sim_api remdups (\<lambda>_. Works) (Inr []) ''id1'' one_stored Map.empty [''What is X?'']
      = Some r) \<and>
   \<not> (\<exists>r. run_chatbot sim_api remdups (\<lambda>_. Works) (Inr []) ''id1'' one_stored one_file_fs
      [''What is X?''] = Some r)"
proof -
  have "fst (cli_load_store sim_api one_stored Map.empty ''id1'') = Inl StoreNotFound"
    by code_simp
  moreover have "fst (cli_load_store sim_api one_stored one_file_fs ''id1'') =
      Inr [\<lparr>fh_name = ''files/a'', fh_display = ''a.pdf''\<rparr>]"
    by code_simp
  moreover have "fst (choose_model (\<lambda>_. Works) (Inr [])) = Some ''gemini-2.5-flash''"
    by code_simp
  moreover have "\<not> is_exit_command ''What is X?''"
    by code_simp
  ultimately show ?thesis
    using run_chatbot_returns_iff [of sim_api remdups "\<lambda>_. Works" "Inr []" "''id1''" one_stored Map.empty
        "[''What is X?'']"]
      run_chatbot_returns_iff [of sim_api remdups "\<lambda>_. Works" "Inr []" "''id1''" one_stored one_file_fs
        "[''What is X?'']"]
    by auto
qed

text \<open>
  C28.  Exit status: a run that ends with status 0 has loaded the store, chosen a model
  and said goodbye last; a run that ends with status 1 failed to load the store or to find
  a model, and left the service as it was.
\<close>

theorem run_chatbot_exit_status:
  assumes "run_chatbot api enum att listing sid s fs lines = Some (code, ms, s')"
  shows "(code = 0 \<and> (\<exists>files. fst (cli_load_store api s fs sid) = Inr files) \<and>
            fst (choose_model att listing) \<noteq> None \<and> last ms = Goodbye) \<or>
         (code = 1 \<and> s' = s \<and>
            ((\<exists>e. fst (cli_load_store api s fs sid) = Inl e) \<or> fst (choose_model att listing) = None))"
proof (cases rule: run_chatbot_cases [of api s fs sid enum att listing lines])
  case (load_failed e ms)
  with assms show ?thesis by simp
next
  case (no_model files ms ms2)
  with assms show ?thesis by simp
next
  case (chat files ms0 m ms2)
  with assms obtain st' where loop: "chat_loop api enum files (chat_start s lines) = Some st'"
    and res: "code = 0" "ms = Connected # ms0 @ ms2 @ out st'"
    by (cases "chat_loop api enum files (chat_start s lines)") auto
  from chat_loop_out [OF loop] obtain ms3 where "out st' = ms3 @ [Goodbye]"
    by (auto simp: chat_start_def)
  with chat res show ?thesis by simp
qed

theorem run_chatbot_exit_status_witness:
  "\<exists>ms s'. run_chatbot sim_api remdups (\<lambda>_. Works) (Inr []) ''id1'' one_stored one_file_fs
       [''What is X?'', ''q''] = Some (0, ms, s') \<and>
     last ms = Goodbye \<and> ErrorLine (RemoteError ''quota exceeded'') \<in> set ms"
proof -
  have run: "run_chatbot sim_api remdups (\<lambda>_. Works) (Inr []) ''id1'' one_stored one_file_fs
      [''What is X?'', ''q''] =
    Some (0, [Connected, LoadedStore (JStr ''n''), StoreIdIs (JStr ''id1''), LoadedDocuments 1,
              UsingModel ''gemini-2.5-flash'', Thinking, ErrorLine (RemoteError ''quota exceeded''),
              Goodbye],
          one_stored\<lparr>sim_prompts := [cli_prompt [] ''What is X?'']\<rparr>)"
    apply code_simp
    apply (subst chat_loop.simps)
    apply code_simp
    apply (subst chat_loop.simps)
    apply code_simp
    done
  from run_chatbot_exit_status [OF run] run show ?thesis by auto
qed

end
