(* ===== verification/Session_Spec.thy ===== *)
theory Session_Spec
  imports Prompt
begin

text \<open>
  The specification's Conversation Session (section 4.3) as an abstract data type: an
  append-only log of turns, each marked answered or not.  \<open>add_question\<close> appends a turn
  with an empty answer and returns its index, \<open>set_answer\<close> fills in that turn, and
  \<open>recent_window n\<close> is the last \<open>n\<close> answered turns, the window the prompt assembler
  receives.  The entry points keep plain lists of turns, all of them answered; the
  abstraction \<open>answered_log\<close> maps such a list to a log.  The web application is shown to
  refine this specification in theory \<open>App_Session\<close>.
\<close>

section \<open>The abstract session\<close>

type_synonym session_log = "(turn \<times> bool) list"

definition add_question :: "session_log \<Rightarrow> string \<Rightarrow> session_log \<times> nat" where
  "add_question s q = (s @ [(\<lparr>question = q, answer = []\<rparr>, False)], length s)"

definition set_answer :: "session_log \<Rightarrow> nat \<Rightarrow> string \<Rightarrow> session_log" where
  "set_answer s i a =
     (if i < length s then s[i := (\<lparr>question = question (fst (s ! i)), answer = a\<rparr>, True)] else s)"

definition recent_window :: "nat \<Rightarrow> session_log \<Rightarrow> turn list" where
  "recent_window n s = py_suffix n (map fst (filter snd s))"

definition answered_log :: "turn list \<Rightarrow> session_log" where
  "answered_log ts = map (\<lambda>t. (t, True)) ts"

section \<open>Laws of the session\<close>

lemma answered_log_eq_iff [simp]: "answered_log ts = answered_log ts' \<longleftrightarrow> ts = ts'"
  by (auto simp: answered_log_def inj_on_def intro: map_injective)

text \<open>Asking and answering a question appends one answered turn.\<close>

lemma set_answer_add_question:
  "set_answer (fst (add_question (answered_log ts) q)) (snd (add_question (answered_log ts) q)) a =
     answered_log (ts @ [\<lparr>question = q, answer = a\<rparr>])"
  by (simp add: set_answer_def add_question_def answered_log_def nth_append list_update_append)

text \<open>The question being asked is not yet in the window.\<close>

lemma recent_window_pending:
  "recent_window n (fst (add_question (answered_log ts) q)) = py_suffix n ts"
  by (simp add: recent_window_def add_question_def answered_log_def comp_def)

end
