(* ===== verification/App_Session.thy ===== *)
theory App_Session
  imports Store Session_Spec Citations
begin

text \<open>
  The web application \<open>src/app.py\<close>.  Streamlit runs the whole script again on every
  interaction; what survives a run is \<open>st.session_state\<close>, here the record
  \<open>session\<close>.  A run (\<open>app_run\<close>) reads the widgets of that interaction: the API key
  field and at most one action (a button, or a question in the chat input).
  \<open>st.rerun()\<close> ends the run at once, and Streamlit then runs the script again with
  no action.  The session starts with \<open>store_id\<close>, \<open>chat_history\<close> and
  \<open>files_loaded\<close> initialised (lines 17 to 22); \<open>api_key\<close> is set only once a
  non-empty key is typed (line 147), so it can be missing (\<open>None\<close>).
  \<open>chat_with_documents\<close> answers one question; \<open>app_step\<close> and
  \<open>app_reachable\<close> are the runs as a step relation and its reachable states.
\<close>

section \<open>Definitions\<close>

text \<open>\<open>chat_with_documents(question, files, history)\<close>: the answer text, or \<open>Error: ...\<close>.\<close>

definition chat_with_documents ::
  "'s remote_api \<Rightarrow> (string list \<Rightarrow> string list) \<Rightarrow> 's \<Rightarrow> string \<Rightarrow> file_handle list \<Rightarrow> turn list \<Rightarrow>
     string \<times> 's" where
  "chat_with_documents api enum s q files hist =
     (case generate_content api s (app_prompt hist q) files of
        (Inl e, s') \<Rightarrow> (''Error: '' @ exc_text e, s')
      | (Inr resp, s') \<Rightarrow>
          (case app_citation_text enum resp of
             Inl e \<Rightarrow> (''Error: '' @ exc_text e, s')
           | Inr ct \<Rightarrow>
               (case resp_text resp of
                  Inl e \<Rightarrow> (''Error: '' @ exc_text e, s')
                | Inr txt \<Rightarrow> (txt @ ct, s'))))"

record session =
  ss_store_id :: "string option"
  ss_chat_history :: "turn list"
  ss_files_loaded :: bool
  ss_api_key :: "string option"

definition session_init :: session where
  "session_init = \<lparr>ss_store_id = None, ss_chat_history = [], ss_files_loaded = False, ss_api_key = None\<rparr>"

text \<open>What the user does in one interaction, besides the key field.\<close>

datatype action =
    NoAction
  | CreateClicked "(string \<times> string) list"
  | LoadClicked string
  | ClearClicked
  | Ask string

record 's app_world =
  aw_session :: session
  aw_remote :: 's
  aw_fs :: fsys

text \<open>How a run ends: \<open>st.rerun()\<close>, the end of the script, or an uncaught exception.\<close>

datatype run_end = Rerun | Done | Crashed py_exc

text \<open>Lines 225 to 248: a question, when the files of the store load.\<close>

definition ask_question ::
  "'s remote_api \<Rightarrow> (string list \<Rightarrow> string list) \<Rightarrow> string \<Rightarrow> 's app_world \<Rightarrow> msg list \<times> 's app_world" where
  "ask_question api enum q w =
     (let ss = aw_session w in
      case app_load_store api (aw_remote w) (aw_fs w) (ss_api_key ss)
             (case ss_store_id ss of None \<Rightarrow> ''None'' | Some i \<Rightarrow> i) of
        (files, ms) \<Rightarrow>
          (if files = [] then (ms, w)
           else
             (let hist = ss_chat_history ss @ [\<lparr>question = q, answer = []\<rparr>];
                  (a, s') = chat_with_documents api enum (aw_remote w) q files (butlast hist)
              in (ms, w\<lparr>aw_session := ss\<lparr>ss_chat_history := butlast hist @ [\<lparr>question = q, answer = a\<rparr>]\<rparr>,
                       aw_remote := s'\<rparr>))))"

text \<open>
  Lines 211 to 254, the main area: the chat when files are loaded and the key is set,
  otherwise a hint; reading \<open>st.session_state.api_key\<close> when it was never set raises.
\<close>

definition main_area ::
  "'s remote_api \<Rightarrow> (string list \<Rightarrow> string list) \<Rightarrow> action \<Rightarrow> 's app_world \<Rightarrow>
     run_end \<times> msg list \<times> 's app_world" where
  "main_area api enum a w =
     (let ss = aw_session w in
      if ss_files_loaded ss then
        (case ss_api_key ss of
           None \<Rightarrow> (Crashed (AttributeError ''api_key''), [], w)
         | Some k \<Rightarrow>
             (if k \<noteq> [] then
                (case a of
                   Ask q \<Rightarrow> (if q \<noteq> [] then (case ask_question api enum q w of (ms, w') \<Rightarrow> (Done, ms, w'))
                             else (Done, [], w))
                 | _ \<Rightarrow> (Done, [], w))
              else (Done, [], w)))
      else
        (case ss_api_key ss of
           None \<Rightarrow> (Crashed (AttributeError ''api_key''), [], w)
         | Some k \<Rightarrow> (Done, [], w)))"

text \<open>
  One run of the script with the key field \<open>k\<close>, the action \<open>a\<close> and the fresh
  \<open>uuid4\<close> \<open>sid\<close> that a store creation would use.
\<close>

definition app_run ::
  "'s remote_api \<Rightarrow> (string list \<Rightarrow> string list) \<Rightarrow> string \<Rightarrow> string \<Rightarrow> action \<Rightarrow> 's app_world \<Rightarrow>
     run_end \<times> msg list \<times> 's app_world" where
  "app_run api enum sid k a w0 =
     (let w = (if k \<noteq> [] then w0\<lparr>aw_session := (aw_session w0)\<lparr>ss_api_key := Some k\<rparr>\<rparr> else w0) in
      case a of
        CreateClicked ups \<Rightarrow>
          (if ups \<noteq> [] \<and> k \<noteq> [] then
             (case create_document_store api (aw_remote w) (aw_fs w) ups sid of
                ((Some i, n), ms, s', fs') \<Rightarrow>
                  (Rerun, ms, w\<lparr>aw_session := (aw_session w)\<lparr>ss_store_id := Some i, ss_files_loaded := True\<rparr>,
                                aw_remote := s', aw_fs := fs'\<rparr>)
              | ((None, n), ms, s', fs') \<Rightarrow>
                  (case main_area api enum a (w\<lparr>aw_remote := s', aw_fs := fs'\<rparr>) of
                     (e, ms2, w') \<Rightarrow> (e, ms @ ms2, w')))
           else main_area api enum a w)
      | LoadClicked i \<Rightarrow>
          (if i \<noteq> [] \<and> k \<noteq> [] then
             (case app_load_store api (aw_remote w) (aw_fs w) (ss_api_key (aw_session w)) i of
                (files, ms) \<Rightarrow>
                  (if files \<noteq> [] then
                     (Rerun, ms, w\<lparr>aw_session := (aw_session w)\<lparr>ss_store_id := Some i, ss_files_loaded := True\<rparr>\<rparr>)
                   else (case main_area api enum a w of (e, ms2, w') \<Rightarrow> (e, ms @ ms2, w'))))
           else main_area api enum a w)
      | ClearClicked \<Rightarrow>
          (Rerun, [], w\<lparr>aw_session := (aw_session w)\<lparr>ss_store_id := None, ss_chat_history := [],
                                                     ss_files_loaded := False\<rparr>\<rparr>)
      | _ \<Rightarrow> main_area api enum a w)"

text \<open>Any run is a step; the run that follows \<open>st.rerun()\<close> is one with no action.\<close>

inductive app_step :: "'s remote_api \<Rightarrow> (string list \<Rightarrow> string list) \<Rightarrow> 's app_world \<Rightarrow> 's app_world \<Rightarrow> bool"
  for api enum where
  run: "app_run api enum sid k a w = (e, ms, w') \<Longrightarrow> app_step api enum w w'"

inductive app_reachable :: "'s remote_api \<Rightarrow> (string list \<Rightarrow> string list) \<Rightarrow> 's app_world \<Rightarrow> bool"
  for api enum where
  start: "aw_session w = session_init \<Longrightarrow> app_reachable api enum w"
| step: "app_reachable api enum w \<Longrightarrow> app_step api enum w w' \<Longrightarrow> app_reachable api enum w'"

text \<open>
  What the session keeps true between runs: loaded files come with a store and a key,
  and a key that is set is not empty.
\<close>

definition session_ok :: "session \<Rightarrow> bool" where
  "session_ok ss \<longleftrightarrow>
     (ss_files_loaded ss \<longrightarrow> ss_store_id ss \<noteq> None \<and> ss_api_key ss \<noteq> None) \<and>
     (\<forall>k. ss_api_key ss = Some k \<longrightarrow> k \<noteq> [])"

definition fresh_world :: "sim_state app_world" where
  "fresh_world = \<lparr>aw_session = session_init,
     aw_remote = \<lparr>sim_files = [], sim_reject = [], sim_replies = [], sim_prompts = []\<rparr>,
     aw_fs = Map.empty\<rparr>"

text \<open>A session with a store of one file loaded and a key set, and its service.\<close>

definition ask_world :: "sim_state app_world" where
  "ask_world = \<lparr>aw_session = \<lparr>ss_store_id = Some ''id1'', ss_chat_history = [], ss_files_loaded = True,
                                ss_api_key = Some ''key''\<rparr>,
     aw_remote = \<lparr>sim_files = [(''files/a'', \<lparr>fh_name = ''files/a'', fh_display = ''a.pdf''\<rparr>)],
                  sim_reject = [], sim_replies = [Inr \<lparr>resp_text = Inr ''X is Y.'', candidates = Missing\<rparr>],
                  sim_prompts = []\<rparr>,
     aw_fs = [store_file_name ''id1'' \<mapsto> JsonFile (store_doc
                \<lparr>store_id = ''id1'', store_name = ''n'', store_files = [''files/a'']\<rparr>)]\<rparr>"

text \<open>The same session, with a service that has no answer left.\<close>

definition ask_world_no_reply :: "sim_state app_world" where
  "ask_world_no_reply = ask_world\<lparr>aw_remote := (aw_remote ask_world)\<lparr>sim_replies := []\<rparr>\<rparr>"

section \<open>Lemmas\<close>

lemma ask_question_session:
  "ask_question api enum q w = (ms, w') \<Longrightarrow>
     ss_store_id (aw_session w') = ss_store_id (aw_session w) \<and>
     ss_files_loaded (aw_session w') = ss_files_loaded (aw_session w) \<and>
     ss_api_key (aw_session w') = ss_api_key (aw_session w)"
  by (auto simp: ask_question_def Let_def split: prod.splits if_splits)

lemma main_area_session:
  "main_area api enum a w = (e, ms, w') \<Longrightarrow>
     ss_store_id (aw_session w') = ss_store_id (aw_session w) \<and>
     ss_files_loaded (aw_session w') = ss_files_loaded (aw_session w) \<and>
     ss_api_key (aw_session w') = ss_api_key (aw_session w)"
  by (auto simp: main_area_def Let_def dest: ask_question_session
      split: option.splits if_splits action.splits prod.splits)

lemma main_area_session_ok:
  "main_area api enum a w = (e, ms, w') \<Longrightarrow> session_ok (aw_session w) \<Longrightarrow> session_ok (aw_session w')"
  by (drule main_area_session) (simp add: session_ok_def)

lemma main_area_crash:
  "fst (main_area api enum a w) = Crashed e \<longleftrightarrow>
     ss_api_key (aw_session w) = None \<and> e = AttributeError ''api_key''"
  by (auto simp: main_area_def Let_def split: option.splits if_splits action.splits prod.splits)

lemma key_update_session_ok:
  "session_ok ss \<Longrightarrow> session_ok (if k \<noteq> [] then ss\<lparr>ss_api_key := Some k\<rparr> else ss)"
  by (auto simp: session_ok_def)

lemma app_run_session_ok:
  assumes "app_run api enum sid k a w = (e, ms, w')" and "session_ok (aw_session w)"
  shows "session_ok (aw_session w')"
proof -
  define w1 where "w1 = (if k \<noteq> [] then w\<lparr>aw_session := (aw_session w)\<lparr>ss_api_key := Some k\<rparr>\<rparr> else w)"
  have ok1: "session_ok (aw_session w1)"
    using key_update_session_ok [OF assms(2), of k] by (cases "k = []") (simp_all add: w1_def)
  have key1: "k \<noteq> [] \<Longrightarrow> ss_api_key (aw_session w1) = Some k"
    by (simp add: w1_def)
  have run: "app_run api enum sid k a w =
      (case a of
        CreateClicked ups \<Rightarrow>
          (if ups \<noteq> [] \<and> k \<noteq> [] then
             (case create_document_store api (aw_remote w1) (aw_fs w1) ups sid of
                ((Some i, n), ms, s', fs') \<Rightarrow>
                  (Rerun, ms, w1\<lparr>aw_session := (aw_session w1)\<lparr>ss_store_id := Some i, ss_files_loaded := True\<rparr>,
                                 aw_remote := s', aw_fs := fs'\<rparr>)
              | ((None, n), ms, s', fs') \<Rightarrow>
                  (case main_area api enum a (w1\<lparr>aw_remote := s', aw_fs := fs'\<rparr>) of
                     (e, ms2, w') \<Rightarrow> (e, ms @ ms2, w')))
           else main_area api enum a w1)
      | LoadClicked i \<Rightarrow>
          (if i \<noteq> [] \<and> k \<noteq> [] then
             (case app_load_store api (aw_remote w1) (aw_fs w1) (ss_api_key (aw_session w1)) i of
                (files, ms) \<Rightarrow>
                  (if files \<noteq> [] then
                     (Rerun, ms, w1\<lparr>aw_session := (aw_session w1)\<lparr>ss_store_id := Some i, ss_files_loaded := True\<rparr>\<rparr>)
                   else (case main_area api enum a w1 of (e, ms2, w') \<Rightarrow> (e, ms @ ms2, w'))))
           else main_area api enum a w1)
      | ClearClicked \<Rightarrow>
          (Rerun, [], w1\<lparr>aw_session := (aw_session w1)\<lparr>ss_store_id := None, ss_chat_history := [],
                                                       ss_files_loaded := False\<rparr>\<rparr>)
      | _ \<Rightarrow> main_area api enum a w1)"
    unfolding app_run_def Let_def w1_def by (rule refl)
  show ?thesis
  proof (cases a)
    case (CreateClicked ups)
    with assms(1) ok1 key1 show ?thesis
      unfolding run
      by (auto simp: session_ok_def dest: main_area_session split: if_splits option.splits prod.splits)
  next
    case (LoadClicked i)
    with assms(1) ok1 key1 show ?thesis
      unfolding run
      by (auto simp: session_ok_def dest: main_area_session split: if_splits prod.splits)
  next
    case ClearClicked
    with assms(1) ok1 show ?thesis
      unfolding run by (auto simp: session_ok_def)
  next
    case NoAction
    with assms(1) ok1 show ?thesis
      unfolding run by (auto intro: main_area_session_ok)
  next
    case (Ask q)
    with assms(1) ok1 show ?thesis
      unfolding run by (auto intro: main_area_session_ok)
  qed
qed

lemma fst_prepend_msgs [simp]:
  "fst (case p of (e, ms2, w') \<Rightarrow> (e, ms @ ms2, w')) = fst p"
  by (cases p) auto

lemma session_init_ok: "session_ok session_init"
  by (simp add: session_ok_def session_init_def)

lemma main_area_crash_run:
  "main_area api enum a w = (r, ms, w') \<Longrightarrow>
     (r = Crashed e \<longleftrightarrow> ss_api_key (aw_session w) = None \<and> e = AttributeError ''api_key'')"
  using main_area_crash [of api enum a w e] by simp

lemma main_area_not_Rerun: "fst (main_area api enum a w) \<noteq> Rerun"
  by (auto simp: main_area_def Let_def split: option.splits if_splits action.splits prod.splits)

text \<open>A run on a click of \<open>Create\<close> that asks for a rerun has created the store and recorded it.\<close>

lemma app_run_create_Rerun:
  assumes "app_run api enum sid k (CreateClicked ups) w = (Rerun, ms, w1)"
  shows "\<exists>i n s' fs'. k \<noteq> [] \<and> ups \<noteq> [] \<and>
           create_document_store api (aw_remote w) (aw_fs w) ups sid = ((Some i, n), ms, s', fs') \<and>
           w1 = w\<lparr>aw_session := (aw_session w)\<lparr>ss_api_key := Some k, ss_store_id := Some i,
                                                ss_files_loaded := True\<rparr>,
                  aw_remote := s', aw_fs := fs'\<rparr>"
proof -
  have ma: "\<And>w' x y. main_area api enum (CreateClicked ups) w' \<noteq> (Rerun, x, y)"
    using main_area_not_Rerun by (metis fst_conv)
  have k: "k \<noteq> []" and ups: "ups \<noteq> []"
    using assms ma by (auto simp: app_run_def split: if_splits)
  obtain r n ms' s' fs' where cds: "create_document_store api (aw_remote w) (aw_fs w) ups sid = ((r, n), ms', s', fs')"
    by (metis prod.exhaust)
  show ?thesis
  proof (cases r)
    case None
    with assms k ups cds ma show ?thesis
      by (auto simp: app_run_def split: prod.splits)
  next
    case (Some i)
    with assms k ups cds show ?thesis
      by (auto simp: app_run_def)
  qed
qed

lemma main_area_fs: "main_area api enum a w = (e, ms, w') \<Longrightarrow> aw_fs w' = aw_fs w"
  by (auto simp: main_area_def ask_question_def Let_def
      split: option.splits if_splits action.splits prod.splits)

lemma app_run_fs_wf:
  assumes "app_run api enum sid k a w = (e, ms, w')" and "fs_wf (aw_fs w)"
  shows "fs_wf (aw_fs w')"
proof (cases a)
  case (CreateClicked ups)
  obtain r n ms0 s' fs' where cds: "create_document_store api (aw_remote w) (aw_fs w) ups sid = ((r, n), ms0, s', fs')"
    by (metis prod.exhaust)
  have wf': "fs_wf fs'"
    using create_document_store_fs_wf [OF assms(2) store_doc_wf_store_doc, of api "aw_remote w" ups sid] cds by simp
  show ?thesis
  proof (cases r)
    case None
    with assms CreateClicked cds wf' show ?thesis
      by (auto simp: app_run_def Let_def dest!: main_area_fs split: if_splits prod.splits)
  next
    case (Some i)
    with assms CreateClicked cds wf' show ?thesis
      by (auto simp: app_run_def Let_def dest!: main_area_fs split: if_splits)
  qed
next
  case (LoadClicked i)
  with assms show ?thesis
    by (auto simp: app_run_def Let_def dest!: main_area_fs split: if_splits prod.splits)
next
  case ClearClicked
  with assms show ?thesis by (auto simp: app_run_def Let_def)
next
  case NoAction
  with assms show ?thesis by (auto simp: app_run_def Let_def dest!: main_area_fs)
next
  case (Ask q)
  with assms show ?thesis by (auto simp: app_run_def Let_def dest!: main_area_fs)
qed

text \<open>Under the contract, a run without \<open>Create\<close> changes neither the file system nor any
  file the service resolves.\<close>

lemma main_area_get_file:
  "remote_contract api \<Longrightarrow> main_area api enum a w = (e, ms, w') \<Longrightarrow>
     get_file api (aw_remote w') = get_file api (aw_remote w)"
  by (auto simp: main_area_def ask_question_def chat_with_documents_def Let_def
      dest: contract_generate_get split: option.splits if_splits action.splits prod.splits sum.splits)

lemma main_area_frame:
  "remote_contract api \<Longrightarrow> main_area api enum a w = (e, ms, w') \<Longrightarrow>
     get_file api (aw_remote w') = get_file api (aw_remote w) \<and> aw_fs w' = aw_fs w"
  using main_area_get_file main_area_fs by blast

lemma app_run_get_file:
  assumes "remote_contract api" and "\<forall>ups. a \<noteq> CreateClicked ups"
    and "app_run api enum sid k a w = (e, ms, w')"
  shows "get_file api (aw_remote w') = get_file api (aw_remote w) \<and> aw_fs w' = aw_fs w"
proof (cases a)
  case (CreateClicked ups)
  with assms(2) show ?thesis by simp
next
  case (LoadClicked i)
  with assms(3) show ?thesis
    by (auto simp: app_run_def Let_def dest!: main_area_frame [OF assms(1)]
        split: if_splits prod.splits)
next
  case ClearClicked
  with assms(3) show ?thesis by (auto simp: app_run_def Let_def)
next
  case NoAction
  with assms(3) show ?thesis
    by (auto simp: app_run_def Let_def dest!: main_area_frame [OF assms(1)])
next
  case (Ask q)
  with assms(3) show ?thesis
    by (auto simp: app_run_def Let_def dest!: main_area_frame [OF assms(1)])
qed

text \<open>A question asked with files loaded, a key set and a store that loads: the run.\<close>

lemma app_run_ask:
  assumes "ss_files_loaded (aw_session w)" and "ss_api_key (aw_session w) = Some k" and "k \<noteq> []"
    and "ss_store_id (aw_session w) = Some i"
    and "app_load_store api (aw_remote w) (aw_fs w) (Some k) i = (files, ms)" and "files \<noteq> []"
    and "q \<noteq> []"
  shows "app_run api enum sid k (Ask q) w =
     (Done, ms, w\<lparr>aw_session := (aw_session w)\<lparr>ss_chat_history := ss_chat_history (aw_session w) @
         [\<lparr>question = q, answer = fst (chat_with_documents api enum (aw_remote w) q files
                                            (ss_chat_history (aw_session w)))\<rparr>]\<rparr>,
       aw_remote := snd (chat_with_documents api enum (aw_remote w) q files (ss_chat_history (aw_session w)))\<rparr>)"
proof -
  have same: "w\<lparr>aw_session := (aw_session w)\<lparr>ss_api_key := Some k\<rparr>\<rparr> = w"
    using assms(2) by simp
  show ?thesis
    using assms
    by (auto simp: app_run_def same main_area_def ask_question_def Let_def split: prod.splits)
qed

section \<open>Properties\<close>

text \<open>
  C24.  In every session the application can reach, loaded files come with a store
  identifier and an API key, and a key that is set is not empty.
\<close>

theorem app_reachable_session_ok:
  assumes "app_reachable api enum w"
  shows "session_ok (aw_session w)"
  using assms
proof (induction rule: app_reachable.induct)
  case (start w)
  then show ?case by (simp add: session_init_ok)
next
  case (step w w')
  from step.hyps(2) obtain sid k a e ms where "app_run api enum sid k a w = (e, ms, w')"
    by (auto elim: app_step.cases)
  from app_run_session_ok [OF this step.IH] show ?case .
qed

theorem app_reachable_session_ok_witness:
  "app_reachable sim_api remdups fresh_world \<and> session_ok (aw_session fresh_world)"
proof -
  have "app_reachable sim_api remdups fresh_world"
    by (rule app_reachable.start) (simp add: fresh_world_def)
  with app_reachable_session_ok [OF this] show ?thesis by simp
qed

text \<open>
  C25.  A run of the application raises \<open>AttributeError\<close> exactly when the key field is
  empty, no key was ever entered in the session, and the action is not \<open>Clear\<close>: the
  first page of every new session fails, at line 251, before the user can type a key.
\<close>

theorem app_run_crash_iff:
  "fst (app_run api enum sid k a w) = Crashed e \<longleftrightarrow>
     k = [] \<and> ss_api_key (aw_session w) = None \<and> a \<noteq> ClearClicked \<and> e = AttributeError ''api_key''"
proof (cases "k = []")
  case True
  then show ?thesis
    by (cases a) (simp_all add: app_run_def main_area_crash)
next
  case False
  define w1 where "w1 = w\<lparr>aw_session := (aw_session w)\<lparr>ss_api_key := Some k\<rparr>\<rparr>"
  have key: "ss_api_key (aw_session w1) = Some k"
    by (simp add: w1_def)
  have ma: "\<And>a' w'. ss_api_key (aw_session w') = Some k \<Longrightarrow> fst (main_area api enum a' w') \<noteq> Crashed e"
    by (simp add: main_area_crash)
  have "fst (app_run api enum sid k a w) \<noteq> Crashed e"
  proof (cases a)
    case (CreateClicked ups)
    obtain r n ms s' fs' where cds: "create_document_store api (aw_remote w1) (aw_fs w1) ups sid = ((r, n), ms, s', fs')"
      by (metis prod.exhaust)
    show ?thesis
    proof (cases r)
      case None
      have k2: "ss_api_key (aw_session (w1\<lparr>aw_remote := s', aw_fs := fs'\<rparr>)) = Some k"
        by (simp add: w1_def)
      with None CreateClicked False cds ma [OF k2] ma [OF key] show ?thesis
        by (auto simp: app_run_def Let_def w1_def [symmetric])
    next
      case (Some i)
      with CreateClicked False cds ma [OF key] show ?thesis
        by (auto simp: app_run_def Let_def w1_def [symmetric])
    qed
  next
    case (LoadClicked i)
    obtain files ms where ld: "app_load_store api (aw_remote w1) (aw_fs w1) (ss_api_key (aw_session w1)) i = (files, ms)"
      by (metis prod.exhaust)
    with LoadClicked False ma [OF key] show ?thesis
      by (auto simp: app_run_def Let_def w1_def [symmetric])
  next
    case ClearClicked
    then show ?thesis by (simp add: app_run_def)
  next
    case NoAction
    with False ma [OF key] show ?thesis by (simp add: app_run_def w1_def)
  next
    case (Ask q)
    with False ma [OF key] show ?thesis by (simp add: app_run_def w1_def)
  qed
  with False show ?thesis by simp
qed

theorem app_run_crash_iff_witness:
  "fst (app_run sim_api remdups ''sid'' [] NoAction fresh_world) = Crashed (AttributeError ''api_key'')"
  using app_run_crash_iff [of sim_api remdups "''sid''" "[]" NoAction fresh_world "AttributeError ''api_key''"]
  by (simp add: fresh_world_def session_init_def)

text \<open>
  C26.  Refinement of the specification's Conversation Session: a question asked with
  files loaded and a key set, whose store loads, turns the history into the log of
  \<open>add_question\<close> followed by \<open>set_answer\<close> of the new turn.  The answer is the one
  \<open>chat_with_documents\<close> gets for the prompt \<open>assemble\<close> of \<open>recent_window 3\<close> of the log
  after \<open>add_question\<close>, the last three answered turns without the pending one.
\<close>

theorem app_ask_refines_session:
  assumes "ss_files_loaded (aw_session w)" and "ss_api_key (aw_session w) = Some k" and "k \<noteq> []"
    and "ss_store_id (aw_session w) = Some i"
    and "app_load_store api (aw_remote w) (aw_fs w) (Some k) i = (files, ms)" and "files \<noteq> []"
    and "q \<noteq> []"
  shows "\<exists>ms' w' a. app_run api enum sid k (Ask q) w = (Done, ms', w') \<and>
           answered_log (ss_chat_history (aw_session w')) =
             set_answer (fst (add_question (answered_log (ss_chat_history (aw_session w))) q))
                        (snd (add_question (answered_log (ss_chat_history (aw_session w))) q)) a \<and>
           a = fst (chat_with_documents api enum (aw_remote w) q files (ss_chat_history (aw_session w))) \<and>
           app_prompt (ss_chat_history (aw_session w)) q =
             assemble (recent_window 3 (fst (add_question (answered_log (ss_chat_history (aw_session w))) q))) q"
proof -
  let ?h = "ss_chat_history (aw_session w)"
  have "app_prompt ?h q = assemble (py_suffix 3 ?h) q"
    by (simp add: app_prompt_def assemble_def py_suffix_Nil_iff app_context_spec)
  with app_run_ask [OF assms] show ?thesis
    by (simp add: set_answer_add_question recent_window_pending)
qed

theorem app_ask_refines_session_witness:
  "\<exists>ms' w' a. app_run sim_api remdups ''sid'' ''key'' (Ask ''What is X?'') ask_world = (Done, ms', w') \<and>
     answered_log (ss_chat_history (aw_session w')) =
       set_answer (fst (add_question (answered_log []) ''What is X?''))
                  (snd (add_question (answered_log []) ''What is X?'')) a \<and>
     a = fst (chat_with_documents sim_api remdups (aw_remote ask_world) ''What is X?''
                [\<lparr>fh_name = ''files/a'', fh_display = ''a.pdf''\<rparr>] []) \<and>
     app_prompt [] ''What is X?'' =
       assemble (recent_window 3 (fst (add_question (answered_log []) ''What is X?''))) ''What is X?''"
proof -
  have load: "app_load_store sim_api (aw_remote ask_world) (aw_fs ask_world) (Some ''key'') ''id1'' =
      ([\<lparr>fh_name = ''files/a'', fh_display = ''a.pdf''\<rparr>], [])"
    by code_simp
  have "ss_chat_history (aw_session ask_world) = []" by (simp add: ask_world_def)
  with app_ask_refines_session [of ask_world "''key''" "''id1''" sim_api _ _ "''What is X?''" remdups "''sid''",
      OF _ _ _ _ load]
  show ?thesis by (simp add: ask_world_def)
qed

text \<open>
  C7.  A failed generation in the web application becomes the turn's answer, as the
  specification's \<open>GenerationFailure\<close> asks (section 4.6): when the service raises
  \<open>e\<close>, the question is recorded with the answer \<open>Error: \<close> followed by \<open>str(e)\<close>, the run
  ends normally and the session goes on.
\<close>

theorem app_generation_failure_answer:
  assumes "ss_files_loaded (aw_session w)" and "ss_api_key (aw_session w) = Some k" and "k \<noteq> []"
    and "ss_store_id (aw_session w) = Some i"
    and "app_load_store api (aw_remote w) (aw_fs w) (Some k) i = (files, ms)" and "files \<noteq> []"
    and "q \<noteq> []"
    and "generate_content api (aw_remote w) (app_prompt (ss_chat_history (aw_session w)) q) files = (Inl e, s')"
  shows "\<exists>ms'. app_run api enum sid k (Ask q) w =
           (Done, ms', w\<lparr>aw_session := (aw_session w)\<lparr>ss_chat_history := ss_chat_history (aw_session w) @
              [\<lparr>question = q, answer = ''Error: '' @ exc_text e\<rparr>]\<rparr>, aw_remote := s'\<rparr>)"
  using app_run_ask [OF assms(1-7)] assms(8) by (simp add: chat_with_documents_def)

theorem app_generation_failure_answer_witness:
  "\<exists>ms'. app_run sim_api remdups ''sid'' ''key'' (Ask ''What is X?'') ask_world_no_reply =
     (Done, ms', ask_world_no_reply\<lparr>aw_session := (aw_session ask_world_no_reply)\<lparr>ss_chat_history :=
        ss_chat_history (aw_session ask_world_no_reply) @
          [\<lparr>question = ''What is X?'', answer = ''Error: '' @ exc_text (RemoteError ''quota exceeded'')\<rparr>]\<rparr>,
        aw_remote := (aw_remote ask_world_no_reply)\<lparr>sim_prompts := [app_prompt [] ''What is X?'']\<rparr>\<rparr>)"
proof -
  have load: "app_load_store sim_api (aw_remote ask_world_no_reply) (aw_fs ask_world_no_reply) (Some ''key'')
      ''id1'' = ([\<lparr>fh_name = ''files/a'', fh_display = ''a.pdf''\<rparr>], [])"
    by code_simp
  have gen: "generate_content sim_api (aw_remote ask_world_no_reply)
      (app_prompt (ss_chat_history (aw_session ask_world_no_reply)) ''What is X?'')
      [\<lparr>fh_name = ''files/a'', fh_display = ''a.pdf''\<rparr>] =
    (Inl (RemoteError ''quota exceeded''), (aw_remote ask_world_no_reply)\<lparr>sim_prompts := [app_prompt [] ''What is X?'']\<rparr>)"
    by (simp add: sim_api_def sim_generate_def ask_world_no_reply_def ask_world_def)
  show ?thesis
    by (rule app_generation_failure_answer [OF _ _ _ _ load _ _ gen])
       (simp_all add: ask_world_no_reply_def ask_world_def)
qed

text \<open>
  C30.  A store created in the web application can be queried at once: with any remote
  service that meets its contract, after a run on a click of \<open>Create\<close> that reruns the
  script, a run that asks a non-empty question loads every file of the new store without
  warning and adds exactly that question, answered, to the history.
\<close>

theorem app_create_then_ask:
  assumes "remote_contract api" and "q \<noteq> []"
    and "app_run api enum sid k (CreateClicked ups) w = (Rerun, ms1, w1)"
  shows "\<exists>w2 a. app_run api enum sid' k (Ask q) w1 = (Done, [], w2) \<and>
           ss_chat_history (aw_session w2) = ss_chat_history (aw_session w) @ [\<lparr>question = q, answer = a\<rparr>]"
proof -
  from app_run_create_Rerun [OF assms(3)] obtain i n s' fs' where k: "k \<noteq> []" and ups: "ups \<noteq> []"
    and cds: "create_document_store api (aw_remote w) (aw_fs w) ups sid = ((Some i, n), ms1, s', fs')"
    and w1: "w1 = w\<lparr>aw_session := (aw_session w)\<lparr>ss_api_key := Some k, ss_store_id := Some i,
                                                ss_files_loaded := True\<rparr>,
                  aw_remote := s', aw_fs := fs'\<rparr>"
    by blast
  from created_store_loads [OF assms(1) cds ups, of k] obtain hs where
    ne: "hs \<noteq> []" and ld: "app_load_store api s' fs' (Some k) i = (hs, [])"
    by blast
  show ?thesis
    using k ne ld assms(2)
    by (auto simp: w1 app_run_def main_area_def ask_question_def Let_def split: prod.splits)
qed

theorem app_create_then_ask_witness:
  "case app_run sim_api remdups ''id1'' ''key'' (CreateClicked [(''a.pdf'', ''%PDF-1.4'')]) fresh_world of
     (Rerun, ms1, w1) \<Rightarrow>
       \<exists>w2 a. app_run sim_api remdups ''id2'' ''key'' (Ask ''What is X?'') w1 = (Done, [], w2) \<and>
          ss_chat_history (aw_session w2) = [] @ [\<lparr>question = ''What is X?'', answer = a\<rparr>]
   | _ \<Rightarrow> False"
proof -
  obtain e ms1 w1 where run: "app_run sim_api remdups ''id1'' ''key'' (CreateClicked [(''a.pdf'', ''%PDF-1.4'')])
      fresh_world = (e, ms1, w1)"
    by (metis prod.exhaust)
  have "fst (app_run sim_api remdups ''id1'' ''key'' (CreateClicked [(''a.pdf'', ''%PDF-1.4'')]) fresh_world) =
      Rerun"
    by code_simp
  with run have run1: "app_run sim_api remdups ''id1'' ''key'' (CreateClicked [(''a.pdf'', ''%PDF-1.4'')])
      fresh_world = (Rerun, ms1, w1)"
    by simp
  have "ss_chat_history (aw_session fresh_world) = []"
    by (simp add: fresh_world_def session_init_def)
  with app_create_then_ask [OF sim_api_contract _ run1, of "''What is X?''" "''id2''"] run1 show ?thesis
    by simp
qed

text \<open>
  C36.  The well-typed file system is an invariant of the web application: every
  sequence of runs, whatever the user clicks and types, from a file system whose JSON
  files are store documents ends in one whose JSON files are store documents.
\<close>

theorem app_steps_keep_fs_wf:
  assumes "(app_step api enum)\<^sup>*\<^sup>* w w'" and "fs_wf (aw_fs w)"
  shows "fs_wf (aw_fs w')"
  using assms
proof (induction rule: rtranclp_induct)
  case base
  then show ?case .
next
  case (step w1 w2)
  from step.hyps(2) obtain sid k a e ms where "app_run api enum sid k a w1 = (e, ms, w2)"
    by (auto elim: app_step.cases)
  from app_run_fs_wf [OF this step.IH [OF step.prems]] show ?case .
qed

theorem app_steps_keep_fs_wf_witness:
  "fs_wf (aw_fs (snd (snd (app_run sim_api remdups ''id1'' ''key''
      (CreateClicked [(''a.pdf'', ''%PDF-1.4'')]) fresh_world))))"
proof -
  obtain e ms w' where run: "app_run sim_api remdups ''id1'' ''key''
      (CreateClicked [(''a.pdf'', ''%PDF-1.4'')]) fresh_world = (e, ms, w')"
    by (metis prod.exhaust)
  then have "(app_step sim_api remdups)\<^sup>*\<^sup>* fresh_world w'"
    by (blast intro: app_step.run)
  moreover have "fs_wf (aw_fs fresh_world)"
    by (simp add: fresh_world_def fs_wf_def)
  ultimately have "fs_wf (aw_fs w')"
    by (rule app_steps_keep_fs_wf)
  with run show ?thesis by simp
qed

end
