(* ===== verification/Model_Lister.thy ===== *)
theory Model_Lister
  imports Model_Select
begin

text \<open>
  The script \<open>src/list_models.py\<close>: \<open>list_available_models()\<close> reads the listing of
  \<open>genai.list_models()\<close> (the same \<open>model_info\<close> records as the chatbot's fallback
  listing), keeps the models that support \<open>generateContent\<close>, sorts them into free and
  paid models by their short name, and prints the two groups, a summary of the counts and
  the recommended free models.  An exception of the listing is printed as
  \<open>Error: ...\<close>.  The output is a list of \<open>msg\<close>; the banners and separators without
  data are left out, the group headers are kept because they depend on the data.
\<close>

section \<open>Definitions\<close>

text \<open>\<open>model.name.replace('models/', '')\<close>.\<close>

definition short_name :: "model_info \<Rightarrow> string" where
  "short_name m = py_replace ''models/'' [] (mi_name m)"

text \<open>\<open>any(keyword in model_name.lower() for keyword in ['flash', '1.0'])\<close>.\<close>

definition is_free :: "string \<Rightarrow> bool" where
  "is_free n \<longleftrightarrow> list_ex (\<lambda>k. py_contains k (py_lower n)) [''flash'', ''1.0'']"

text \<open>The dictionary \<open>model_info\<close> that the script builds for each kept model.\<close>

record listed_model =
  lm_name :: string
  lm_methods :: "string list"
  lm_description :: string

text \<open>\<open>getattr(model, 'description', 'No description available')\<close>; \<open>None\<close> prints as \<open>None\<close>.\<close>

fun description_text :: "string field \<Rightarrow> string" where
  "description_text Missing = ''No description available''"
| "description_text PyNone = ''None''"
| "description_text (Val d) = d"

definition model_entry :: "model_info \<Rightarrow> listed_model" where
  "model_entry m = \<lparr>lm_name = short_name m, lm_methods = mi_methods m,
                    lm_description = description_text (mi_description m)\<rparr>"

text \<open>The sorting loop, lines 31 to 49: the free and the paid models, in listing order.\<close>

fun classify_models :: "model_info list \<Rightarrow> listed_model list \<times> listed_model list" where
  "classify_models [] = ([], [])"
| "classify_models (m # ms) =
     (let (free, paid) = classify_models ms; n = short_name m in
      if supports_generate m then
        (if is_free n then (model_entry m # free, paid) else (free, model_entry m # paid))
      else (free, paid))"

text \<open>Lines 56 to 59 (and 66 to 69): name, methods joined with \<open>", "\<close>, description.\<close>

definition entry_line :: "listed_model \<Rightarrow> msg" where
  "entry_line e = ModelEntry (lm_name e) (py_join '', '' (lm_methods e)) (lm_description e)"

text \<open>\<open>list_available_models()\<close>, lines 13 to 80.\<close>

definition list_available_models :: "py_exc + model_info list \<Rightarrow> msg list" where
  "list_available_models listing =
     Connected #
     (case listing of
        Inl e \<Rightarrow> [ErrorLine e]
      | Inr models \<Rightarrow>
          (let (free, paid) = classify_models models in
           (if free \<noteq> [] then FreeModelsHeader # map entry_line free else []) @
           (if paid \<noteq> [] then PaidModelsHeader # map entry_line paid else []) @
           [ModelSummary (length free) (length paid) (length free + length paid)] @
           (if free \<noteq> [] then [RecommendedFree (py_join '', '' (map lm_name free))] else [])))"

text \<open>Which lines of the report are entries and which is the summary.\<close>

fun is_entry_line :: "msg \<Rightarrow> bool" where
  "is_entry_line (ModelEntry _ _ _) = True"
| "is_entry_line _ = False"

fun is_summary_line :: "msg \<Rightarrow> bool" where
  "is_summary_line (ModelSummary _ _ _) = True"
| "is_summary_line _ = False"

text \<open>A listing with a free model without a description, a paid model whose description
  is \<open>None\<close>, and an embedding model the script skips.\<close>

definition sample_listing :: "model_info list" where
  "sample_listing =
     [\<lparr>mi_name = ''models/gemini-1.5-flash'', mi_methods = [''generateContent'', ''countTokens''],
       mi_description = Missing\<rparr>,
      \<lparr>mi_name = ''models/gemini-pro'', mi_methods = [''generateContent''], mi_description = PyNone\<rparr>,
      \<lparr>mi_name = ''models/embedding-001'', mi_methods = [''embedContent''], mi_description = Val ''E''\<rparr>]"

section \<open>Lemmas\<close>

lemma lm_name_model_entry [simp]: "lm_name (model_entry m) = short_name m"
  by (simp add: model_entry_def)

lemma classify_models_eq:
  "classify_models ms =
     (filter (\<lambda>e. is_free (lm_name e)) (map model_entry (filter supports_generate ms)),
      filter (\<lambda>e. \<not> is_free (lm_name e)) (map model_entry (filter supports_generate ms)))"
  by (induction ms) (simp_all add: Let_def)

lemma length_filter_split:
  "length (filter P xs) + length (filter (\<lambda>x. \<not> P x) xs) = length xs"
  by (induction xs) auto

lemma list_available_models_Inr:
  assumes "classify_models models = (free, paid)"
  shows "list_available_models (Inr models) =
     Connected #
     (if free \<noteq> [] then FreeModelsHeader # map entry_line free else []) @
     (if paid \<noteq> [] then PaidModelsHeader # map entry_line paid else []) @
     [ModelSummary (length free) (length paid) (length free + length paid)] @
     (if free \<noteq> [] then [RecommendedFree (py_join '', '' (map lm_name free))] else [])"
  using assms by (simp add: list_available_models_def)

lemma classify_models_lengths:
  "classify_models models = (free, paid) \<Longrightarrow> length free + length paid = length (filter supports_generate models)"
  using length_filter_split [of "\<lambda>e. is_free (lm_name e)" "map model_entry (filter supports_generate models)"]
  by (simp add: classify_models_eq)

section \<open>Properties\<close>

text \<open>
  C19.  The model lister sorts exactly the models that support \<open>generateContent\<close>,
  each once, into free models (short name containing \<open>flash\<close> or \<open>1.0\<close> in lower
  case) and paid models (the rest), in listing order.
\<close>

theorem classify_models_partition:
  assumes "classify_models ms = (free, paid)"
  shows "free = filter (\<lambda>e. is_free (lm_name e)) (map model_entry (filter supports_generate ms)) \<and>
         paid = filter (\<lambda>e. \<not> is_free (lm_name e)) (map model_entry (filter supports_generate ms)) \<and>
         length free + length paid = length (filter supports_generate ms)"
  using assms classify_models_lengths [OF assms] by (simp add: classify_models_eq)

theorem classify_models_partition_witness:
  "classify_models sample_listing =
     ([model_entry (hd sample_listing)], [model_entry (sample_listing ! 1)]) \<and>
   [model_entry (hd sample_listing)] = filter (\<lambda>e. is_free (lm_name e))
      (map model_entry (filter supports_generate sample_listing)) \<and>
   length [model_entry (hd sample_listing)] + length [model_entry (sample_listing ! 1)] =
     length (filter supports_generate sample_listing)"
proof -
  have c: "classify_models sample_listing =
     ([model_entry (hd sample_listing)], [model_entry (sample_listing ! 1)])"
    by code_simp
  show ?thesis using c classify_models_partition [OF c] by blast
qed

text \<open>
  C31.  Bounds of the summary: the report has exactly one summary line.  Its free count
  is the number of listed models that support \<open>generateContent\<close> and have a free
  short name, its paid count the number of the others that support it, and its total
  is their sum, at most the number of models listed.
\<close>

theorem lister_summary_bounds:
  "filter is_summary_line (list_available_models (Inr models)) =
     [ModelSummary (length (filter (\<lambda>m. supports_generate m \<and> is_free (short_name m)) models))
                   (length (filter (\<lambda>m. supports_generate m \<and> \<not> is_free (short_name m)) models))
                   (length (filter supports_generate models))] \<and>
   length (filter supports_generate models) \<le> length models"
proof -
  obtain free paid where c: "classify_models models = (free, paid)"
    by (metis prod.exhaust)
  have f: "length free = length (filter (\<lambda>m. supports_generate m \<and> is_free (short_name m)) models)"
    and p: "length paid = length (filter (\<lambda>m. supports_generate m \<and> \<not> is_free (short_name m)) models)"
    using c by (auto simp: classify_models_eq filter_map comp_def model_entry_def)
  have "filter is_summary_line (list_available_models (Inr models)) =
      [ModelSummary (length free) (length paid) (length free + length paid)]"
    by (simp add: list_available_models_Inr [OF c] entry_line_def)
  with f p classify_models_lengths [OF c] show ?thesis
    by simp
qed

text \<open>
  C32.  The report shows one entry per model that supports \<open>generateContent\<close>, free
  models first, each in listing order, and recommends exactly the free models, by name,
  when there is one.
\<close>

theorem lister_entries:
  assumes "classify_models models = (free, paid)"
  shows "filter is_entry_line (list_available_models (Inr models)) = map entry_line (free @ paid) \<and>
         length (free @ paid) = length (filter supports_generate models) \<and>
         (RecommendedFree (py_join '', '' (map lm_name free)) \<in> set (list_available_models (Inr models))
            \<longleftrightarrow> free \<noteq> [])"
proof -
  have "filter is_entry_line (map entry_line xs) = map entry_line xs" for xs
    by (induction xs) (simp_all add: entry_line_def)
  then show ?thesis
    using classify_models_lengths [OF assms]
    by (auto simp: list_available_models_Inr [OF assms] entry_line_def)
qed

theorem lister_entries_witness:
  "filter is_entry_line (list_available_models (Inr sample_listing)) =
     [ModelEntry ''gemini-1.5-flash'' ''generateContent, countTokens'' ''No description available'',
      ModelEntry ''gemini-pro'' ''generateContent'' ''None''] \<and>
   RecommendedFree ''gemini-1.5-flash'' \<in> set (list_available_models (Inr sample_listing))"
proof -
  have c: "classify_models sample_listing =
     ([model_entry (hd sample_listing)], [model_entry (sample_listing ! 1)])"
    by code_simp
  have e: "map entry_line ([model_entry (hd sample_listing)] @ [model_entry (sample_listing ! 1)]) =
     [ModelEntry ''gemini-1.5-flash'' ''generateContent, countTokens'' ''No description available'',
      ModelEntry ''gemini-pro'' ''generateContent'' ''None'']"
    by code_simp
  have n: "py_join '', '' (map lm_name [model_entry (hd sample_listing)]) = ''gemini-1.5-flash''"
    by code_simp
  from lister_entries [OF c] e n show ?thesis by simp
qed

end
