(* ===== verification/Entry_Points.thy ===== *)
theory Entry_Points
  imports Chatbot Model_Lister
begin

text \<open>
  The \<open>if __name__ == "__main__"\<close> blocks of the three scripts.  Each prints the
  script's title and a rule of forty \<open>=\<close>, then calls the script's main function with
  the configuration constants at the top of its file: \<open>FOLDER\<close> and \<open>STORE_NAME\<close> in
  \<open>src/create_store.py\<close>, \<open>STORE_ID\<close> in \<open>src/chatbot.py\<close>.  The lemmas connect the
  two command-line scripts as their docstrings ask: run the builder, then configure the
  chatbot with the store id it printed.
\<close>

section \<open>Definitions\<close>

text \<open>\<open>print(title)\<close> and \<open>print("=" * 40)\<close>.\<close>

definition banner :: "string \<Rightarrow> msg list" where
  "banner title = [Banner title, Banner (replicate 40 (CHR ''=''))]"

text \<open>\<open>STORE_ID\<close> of \<open>src/chatbot.py\<close>, the store the chatbot opens.\<close>

definition default_store_id :: string where
  "default_store_id = ''f9abee98-c29b-4cc2-bf22-aa008d32271d''"

text \<open>
  \<open>python create_store.py\<close>: the builder over \<open>FOLDER\<close> and \<open>STORE_NAME\<close>; \<open>sid\<close> is
  the fresh \<open>uuid4\<close> and \<open>listing\<close> the folder's entries (\<open>None\<close>: no such folder).
\<close>

definition create_store_main ::
  "'s remote_api \<Rightarrow> string \<Rightarrow> string list option \<Rightarrow> 's \<Rightarrow> fsys \<Rightarrow> nat \<times> msg list \<times> 's \<times> fsys" where
  "create_store_main api sid listing s fs =
     (case create_store api default_folder default_store_name sid listing s fs of
        (code, ms, s', fs') \<Rightarrow> (code, banner ''Gemini File Search Store Creator'' @ ms, s', fs'))"

text \<open>\<open>python chatbot.py\<close>: the chatbot over the store \<open>STORE_ID\<close>.\<close>

definition chatbot_main ::
  "'s remote_api \<Rightarrow> (string list \<Rightarrow> string list) \<Rightarrow> (string \<Rightarrow> attempt) \<Rightarrow> py_exc + model_info list \<Rightarrow>
     's \<Rightarrow> fsys \<Rightarrow> string list \<Rightarrow> (nat \<times> msg list \<times> 's) option" where
  "chatbot_main api enum att listing s fs lines =
     map_option (\<lambda>(code, ms, s'). (code, banner ''Gemini Research Papers Chatbot'' @ ms, s'))
       (run_chatbot api enum att listing default_store_id s fs lines)"

text \<open>\<open>python list_models.py\<close>: the lister never sets an exit status.\<close>

definition list_models_main :: "py_exc + model_info list \<Rightarrow> msg list" where
  "list_models_main listing = banner ''Gemini Models Lister'' @ list_available_models listing"

text \<open>A service with every upload accepted and one answer ready.\<close>

definition entry_remote :: sim_state where
  "entry_remote =
     \<lparr>sim_files = [], sim_reject = [],
      sim_replies = [Inr \<lparr>resp_text = Inr ''X is Y.'', candidates = Missing\<rparr>], sim_prompts = []\<rparr>"

section \<open>Lemmas\<close>


text \<open>Without the folder \<open>./papers/\<close> the builder exits with status 1 and changes nothing.\<close>

lemma create_store_main_no_folder:
  "create_store_main api sid None s fs =
     (1, banner ''Gemini File Search Store Creator'' @ [Connected, FolderMissing ''./papers/''], s, fs)"
  by (simp add: create_store_main_def create_store_def default_folder_def)

text \<open>
  The shipped configuration: without the file \<open>f9abee98-...json\<close> beside it, the chatbot
  exits with status 1 after its banner, whatever the service and the input.
\<close>

lemma chatbot_main_store_missing:
  assumes "fs (store_file_name default_store_id) = None"
  shows "chatbot_main api enum att listing s fs lines =
           Some (1, banner ''Gemini Research Papers Chatbot'' @
                    [Connected, StoreFileMissing ''f9abee98-c29b-4cc2-bf22-aa008d32271d.json''], s)"
  using assms
  by (simp add: chatbot_main_def run_chatbot_def cli_load_store_def read_json_def
      default_store_id_def store_file_name_def)



text \<open>
  The workflow on the simulated service: the builder run with the chatbot's id uploads
  the one PDF of the folder; the chatbot then answers a question over it and says goodbye.
\<close>

lemma workflow_example:
  "case create_store_main sim_api default_store_id (Some [''a.pdf'', ''notes.txt'']) entry_remote Map.empty of
     (code, ms, s1, fs1) \<Rightarrow>
       code = 0 \<and>
       (case chatbot_main sim_api remdups (\<lambda>_. Works) (Inr []) s1 fs1 [''What is X?'', ''quit''] of
          Some (c, ms2, s2) \<Rightarrow>
            c = 0 \<and> take 2 ms2 = banner ''Gemini Research Papers Chatbot'' \<and>
            AnswerIs ''X is Y.'' \<in> set ms2 \<and> last ms2 = Goodbye
        | None \<Rightarrow> False)"
  apply code_simp
  apply (subst chat_loop.simps)
  apply code_simp
  apply (subst chat_loop.simps)
  apply code_simp
  done

end
