(* ===== verification/Spec2Isabelle.thy ===== *)
theory Spec2Isabelle
  imports Chatbot App_Session Model_Lister Entry_Points
begin

text \<open>
  A verification development for the Gemini research-papers chatbot
  (\<open>src/create_store.py\<close>, \<open>src/chatbot.py\<close>, \<open>src/app.py\<close>,
  \<open>src/list_models.py\<close>).  The program uploads PDF files to a remote generative-AI
  service and records their remote names in a JSON store document.  It then answers
  questions with the files attached, puts a window of recent turns in the prompt, and
  appends the citations of the answer.  A command-line builder and chatbot share the
  store file with a Streamlit web application that builds, loads and chats by itself.

  \<^bold>\<open>How the theories map to the code.\<close>
  \<^item> \<open>Prelude\<close>: Python values and built-ins.  An attribute is missing, \<open>None\<close> or
    set (\<open>field\<close>).  The exceptions the code meets are \<open>py_exc\<close>, with \<open>str(e)\<close>
    as \<open>exc_text\<close>.  \<open>json.load\<close> values are \<open>json\<close>, and the prints are \<open>msg\<close>.
    The built-ins are \<open>str.split\<close>, \<open>str.join\<close>, the slice \<open>xs[-n:]\<close>, \<open>strip\<close>,
    \<open>lower\<close> and \<open>endswith\<close>.  A character is a code point below 256; \<open>strip\<close>
    and \<open>lower\<close> follow Python on all of them, so strings outside Latin-1 are not
    modelled.  Shared lemmas: the split/join round trips and the lengths of slices.
  \<^item> \<open>Remote\<close>: the remote service, which is not under \<open>src/\<close>.
    \<^item> It is an interface record \<open>remote_api\<close> (upload, get, generate) over an
      abstract service state \<open>'s\<close>.
    \<^item> Its contract \<open>remote_contract\<close> says that an uploaded file can be fetched back
      by its name and stays so.
    \<^item> \<open>sim_api\<close> is an in-memory service that meets the contract
      (lemma \<open>sim_api_contract\<close>).
    \<^item> Client lemmas assume only \<open>remote_contract api\<close>.
  \<^item> \<open>Prompt\<close>: the specification's \<open>assemble\<close> and the two prompt builders.
    \<^item> \<open>cli_prompt\<close> is the prompt string built in the loop of \<open>run_chatbot\<close>, with
      \<open>cli_record_turn\<close> as its history update.
    \<^item> \<open>app_prompt\<close> and \<open>app_context\<close> are the prompt of \<open>chat_with_documents\<close>
      in \<open>app.py\<close>.
    \<^item> Refinement lemmas C2 to C4 relate them to \<open>assemble\<close>.
  \<^item> \<open>Session_Spec\<close>: the specification's Conversation Session (section 4.3) as an
    abstract data type.  \<open>add_question\<close>, \<open>set_answer\<close> and \<open>recent_window\<close> act on a
    log of turns marked answered or not, and \<open>answered_log\<close> is the abstraction of the
    entry points' plain lists of turns.
  \<^item> \<open>Citations\<close>: \<open>extract_citations\<close> of \<open>chatbot.py\<close> and the copy inlined in
    \<open>chat_with_documents\<close>.
    \<^item> The order of \<open>list(set(..))\<close> is a parameter \<open>enum\<close>, constrained only by
      \<open>set_listing\<close>, so every lemma holds for any CPython set order.
    \<^item> C5, C6 and C8 (a URI gives the segment after its last slash).  The web
      application repeats lines 36 to 46 of \<open>chatbot.py\<close> verbatim (its lines 113 to
      122), so both copies are modelled by the one \<open>response_citations\<close>.
  \<^item> The store, in four theories.
    \<^item> \<open>Store_Doc\<close>: the document \<open>store_doc\<close> and the file system \<open>fsys\<close>, a map
      from paths to contents.  It also holds the JSON accessors the code uses.  The
      predicate \<open>store_doc_wf\<close> is the type of a store document: a string \<open>"id"\<close>
      and a list of string \<open>"files"\<close>.  \<open>fs_wf\<close> lifts it to every JSON file.
    \<^item> \<open>Store_Build\<close>: \<open>create_store\<close> is \<open>create_file_search_store\<close>, returning
      exit status, messages, service state and file system; its upload loop is
      \<open>upload_all\<close>.  \<open>create_document_store\<close> and \<open>app_upload_all\<close> are the web
      builder.  C9 to C13, C34 (both builders keep the file system well typed) and C37
      (\<open>0 < k \<le> m\<close>, \<open>k\<close> the handles uploaded and stored, of \<open>m\<close> PDF files).
    \<^item> \<open>Store_Load\<close>: \<open>cli_load_store\<close> is lines 62 to 87 of \<open>run_chatbot\<close>, and
      \<open>app_load_store\<close> is \<open>load_document_store\<close>.  C14, C15 and C35 (on a
      well-typed document the loaders raise no error of the document).  C33: on file
      systems of well-typed stores the two loaders return the same handles; without
      \<open>"id"\<close> they differ (\<open>loaders_differ_without_id\<close>).
    \<^item> \<open>Store\<close>: the round trips over any service meeting the contract.  C16 is from
      the command-line builder to both loaders.  C29 is from the web builder to both
      loaders, so the two programs can share the same store.
  \<^item> \<open>Model_Select\<close>: the fallback loop over model names in \<open>run_chatbot\<close>
    (\<open>select_model\<close>, \<open>choose_model\<close>).  C17 and C18.
  \<^item> \<open>Model_Lister\<close>: the script \<open>src/list_models.py\<close>.
    \<^item> \<open>list_available_models\<close> is the whole function, with the report it prints.
    \<^item> \<open>classify_models\<close> is its sorting loop, and \<open>model_entry\<close> the dictionary
      built for each kept model.
    \<^item> C19, C31 (exact counts of the summary) and C32.
  \<^item> \<open>Chat_Loop\<close>: the \<open>while True\<close> loop of \<open>run_chatbot\<close>.
    \<^item> One iteration is \<open>chat_step\<close>: \<open>Inl\<close> is \<open>break\<close> and \<open>Inr\<close> is the next
      round.
    \<^item> The loop is the \<open>partial_function (option)\<close> \<open>chat_loop\<close>, whose \<open>None\<close> is a
      run that never ends.
    \<^item> The console input is the list \<open>inputs\<close>; reading past its end raises
      \<open>EOFError\<close>, as \<open>input()\<close> does.
    \<^item> C20 to C22.
  \<^item> \<open>Chatbot\<close>: \<open>run_chatbot\<close> composed of the loader, the model choice and the loop.
    C27 and C28 state when it exits and with which status.
  \<^item> \<open>App_Session\<close>: the Streamlit script \<open>app.py\<close>.
    \<^item> One run of the script over \<open>st.session_state\<close> (record \<open>session\<close>), the key
      field and one user action is \<open>app_run\<close>.
    \<^item> \<open>st.rerun()\<close> ends a run (\<open>Rerun\<close>), and an uncaught exception ends it as
      \<open>Crashed\<close>.
    \<^item> Runs chain through the inductive \<open>app_step\<close>; \<open>app_reachable\<close> is the set of
      reachable worlds.
    \<^item> C24 and C25.  C26 refines the Conversation Session: a question is \<open>add_question\<close>
      then \<open>set_answer\<close>, over the window \<open>recent_window 3\<close>.  C7: a failed generation is
      recorded as the answer \<open>Error: ...\<close>.  C30: a store created in the web application answers the next
      question from all of its files.
    \<^item> C36: the well-typed file system is an invariant of every sequence of runs, by
      induction over the reflexive transitive closure of \<open>app_step\<close>.
  \<^item> \<open>Entry_Points\<close>: the \<open>__main__\<close> blocks of the three scripts.
    \<^item> \<open>create_store_main\<close>, \<open>chatbot_main\<close> and \<open>list_models_main\<close> print the
      script's \<open>banner\<close>, then run its main function with the constants \<open>FOLDER\<close>,
      \<open>STORE_NAME\<close> and \<open>STORE_ID\<close> (\<open>default_store_id\<close>).
    \<^item> C23, \<open>build_then_chat\<close>, is the documented workflow.  A build under the
      chatbot's configured id is loaded by the chatbot as exactly the handles the
      builder's upload loop returned, and the chat runs over them.
    \<^item> \<open>chatbot_main_store_missing\<close>: the shipped id exits with status 1 when its
      store file is absent.
  \<^item> This theory: C1, which says
    that under the contract no chat of either program changes what a store loads to.

  \<^bold>\<open>Non-termination and bounds.\<close>  The only unbounded loop is the chat loop.  It is
  modelled as a partial function, not with fuel.  C20 proves that it returns exactly
  when an exit keyword occurs in the input; otherwise, at the end of the input, the
  \<open>EOFError\<close> of \<open>input()\<close> is caught and the loop never returns.
  The theorem of termination is an equivalence, not "if it returns".  Every other
  loop runs over a finite list and is a structural \<open>fun\<close>.  No value of the program is
  a machine integer: counts are \<open>nat\<close>, and no claim depends on a width.

  \<^bold>\<open>Not modelled.\<close>
  \<^item> Page rendering of Streamlit: layout, markdown, CSS and chat bubbles.  This is pure
    output; the rendered history is the modelled \<open>ss_chat_history\<close>.
  \<^item> \<open>genai.configure\<close> with the \<open>API_KEY\<close> constants, \<open>time.sleep\<close> between
    uploads, and the progress bar.  These change no state of the model: the service
    stands for a configured client.  \<open>MODEL_NAME\<close> of \<open>chatbot.py\<close> is never read.
  \<^item> An existing \<open>FOLDER\<close> that cannot be listed (a plain file), and a failing write
    of the store file or of \<open>papers/\<close>; both would end in the outer handler.  The folder's listing is
    a parameter, \<open>None\<close> when the folder is missing.
  \<^item> The \<open>json\<close> library's text format.  The store is kept as the \<open>json\<close> value that
    \<open>json.dump\<close> writes and \<open>json.load\<close> reads back.
  \<^item> The internals of the remote service.  Only its contract is assumed.
\<close>

section \<open>Properties across components\<close>

text \<open>
  C1.  Loading a store is idempotent across chats (specification, section 8): with any
  remote service that meets its contract, neither a run of the command-line chat loop nor
  a run of the web application without \<open>Create\<close> changes what either loader returns for
  any store, so every question of a session is answered with the same files.
\<close>

theorem chats_keep_store_loading:
  assumes "remote_contract api"
  shows "(chat_loop api enum files st = Some st' \<longrightarrow>
            cli_load_store api (remote st') fs i = cli_load_store api (remote st) fs i \<and>
            app_load_store api (remote st') fs key i = app_load_store api (remote st) fs key i) \<and>
         ((\<forall>ups. a \<noteq> CreateClicked ups) \<longrightarrow> app_run api enum sid k a w = (e, ms, w') \<longrightarrow>
            cli_load_store api (aw_remote w') (aw_fs w') i = cli_load_store api (aw_remote w) (aw_fs w) i \<and>
            app_load_store api (aw_remote w') (aw_fs w') key i =
              app_load_store api (aw_remote w) (aw_fs w) key i)"
proof -
  have loop: "cli_load_store api (remote st') fs i = cli_load_store api (remote st) fs i \<and>
      app_load_store api (remote st') fs key i = app_load_store api (remote st) fs key i"
    if "chat_loop api enum files st = Some st'"
    by (rule loaders_get_file_cong [OF chat_loop_get_file [OF assms that]])
  have run: "cli_load_store api (aw_remote w') (aw_fs w') i = cli_load_store api (aw_remote w) (aw_fs w) i \<and>
      app_load_store api (aw_remote w') (aw_fs w') key i = app_load_store api (aw_remote w) (aw_fs w) key i"
    if "\<forall>ups. a \<noteq> CreateClicked ups" and "app_run api enum sid k a w = (e, ms, w')"
  proof -
    from app_run_get_file [OF assms that] have "get_file api (aw_remote w') = get_file api (aw_remote w)"
      and "aw_fs w' = aw_fs w" by simp_all
    then show ?thesis using loaders_get_file_cong by metis
  qed
  from loop run show ?thesis by blast
qed

theorem chats_keep_store_loading_witness:
  "(\<exists>st'. chat_loop sim_api remdups [] sample_session = Some st' \<and>
      cli_load_store sim_api (remote st') one_file_fs ''id1'' =
        cli_load_store sim_api (remote sample_session) one_file_fs ''id1'') \<and>
   (\<exists>e ms w'. app_run sim_api remdups ''sid'' ''key'' (Ask ''What is X?'') ask_world = (e, ms, w') \<and>
      app_load_store sim_api (aw_remote w') (aw_fs w') (Some ''key'') ''id1'' =
        app_load_store sim_api (aw_remote ask_world) (aw_fs ask_world) (Some ''key'') ''id1'')"
proof -
  have "is_exit_command ''QUIT''" by code_simp
  then obtain st' where loop: "chat_loop sim_api remdups [] sample_session = Some st'"
    using chat_loop_returns [of sample_session sim_api remdups "[]"] by (auto simp: sample_session_def)
  obtain e ms w' where run: "app_run sim_api remdups ''sid'' ''key'' (Ask ''What is X?'') ask_world = (e, ms, w')"
    by (metis prod.exhaust)
  have nc: "\<forall>ups. Ask ''What is X?'' \<noteq> CreateClicked ups" by simp
  from chats_keep_store_loading [OF sim_api_contract, where enum = remdups and files = "[]"
      and st = sample_session and st' = st' and fs = one_file_fs and i = "''id1''" and key = "Some ''key''"
      and a = "Ask ''What is X?''" and sid = "''sid''" and k = "''key''" and w = ask_world and e = e
      and ms = ms and w' = w'] loop run nc
  show ?thesis by blast
qed

end
